theory Spec2Isabelle
  imports Complex_Main
begin

section \<open>JavaScript values, strings and numbers\<close>

text \<open>
  A JavaScript string is a list of code units; the model covers the code units below 256
  (Latin-1), one \<open>char\<close> each. A JavaScript number is a double; the model computes with
  exact rationals and keeps \<open>NaN\<close> and the two infinities as values of their own, so
  rounding to 53 bits is not part of it.
\<close>

datatype number = Num rat | NaN | PosInf | NegInf

datatype jsval =
    JUndefined
  | JNull
  | JBool bool
  | JNum number
  | JStr string
  | JArr "jsval list"
  | JObj "(string \<times> jsval) list"

definition NL :: char where "NL = CHR 0x0A"
definition SQ :: char where "SQ = CHR 0x27"
definition DQ :: char where "DQ = CHR 0x22"

text \<open>White space as \<open>\s\<close>, \<open>trim\<close> and \<open>parseFloat\<close> see it (the Latin-1 part).\<close>

definition is_space :: "char \<Rightarrow> bool" where
  "is_space c = (c \<in> set [CHR 0x09, CHR 0x0A, CHR 0x0B, CHR 0x0C, CHR 0x0D, CHR 0x20, CHR 0xA0])"

definition is_digit :: "char \<Rightarrow> bool" where
  "is_digit c = (c \<in> set ''0123456789'')"

definition digit_val :: "char \<Rightarrow> nat" where
  "digit_val c = of_char c - 48"

text \<open>The value of a run of decimal digits, read left to right.\<close>

fun digits_val :: "nat \<Rightarrow> string \<Rightarrow> nat" where
  "digits_val acc [] = acc"
| "digits_val acc (c # cs) = digits_val (10 * acc + digit_val c) cs"

definition endsWith :: "string \<Rightarrow> string \<Rightarrow> bool" where
  "endsWith s suffix = (length suffix \<le> length s \<and> drop (length s - length suffix) s = suffix)"

fun startsWith :: "string \<Rightarrow> string \<Rightarrow> bool" where
  "startsWith s [] = True"
| "startsWith [] (p # ps) = False"
| "startsWith (c # cs) (p # ps) = (c = p \<and> startsWith cs ps)"

text \<open>\<open>s.includes(t)\<close>: \<open>t\<close> occurs in \<open>s\<close> as a contiguous substring.\<close>

fun str_includes :: "string \<Rightarrow> string \<Rightarrow> bool" where
  "str_includes [] t = (t = [])"
| "str_includes (c # cs) t = (startsWith (c # cs) t \<or> str_includes cs t)"

subsection \<open>Arithmetic on numbers\<close>

fun num_neg :: "number \<Rightarrow> number" where
  "num_neg (Num a) = Num (- a)"
| "num_neg NaN = NaN"
| "num_neg PosInf = NegInf"
| "num_neg NegInf = PosInf"

fun num_mul :: "number \<Rightarrow> number \<Rightarrow> number" where
  "num_mul (Num a) (Num b) = Num (a * b)"
| "num_mul NaN b = NaN"
| "num_mul a NaN = NaN"
| "num_mul (Num a) b = (if a = 0 then NaN else if 0 < a then b else num_neg b)"
| "num_mul a (Num b) = (if b = 0 then NaN else if 0 < b then a else num_neg a)"
| "num_mul a b = (if a = b then PosInf else NegInf)"

text \<open>Division; a zero divisor is taken as \<open>+0\<close>.\<close>

fun num_div :: "number \<Rightarrow> number \<Rightarrow> number" where
  "num_div (Num a) (Num b) =
     (if b = 0 then (if a = 0 then NaN else if 0 < a then PosInf else NegInf) else Num (a / b))"
| "num_div NaN b = NaN"
| "num_div a NaN = NaN"
| "num_div (Num a) b = Num 0"
| "num_div a (Num b) = (if 0 \<le> b then a else num_neg a)"
| "num_div a b = NaN"

text \<open>\<open>a < b\<close> on numbers: false as soon as one side is \<open>NaN\<close>.\<close>

fun num_lt :: "number \<Rightarrow> number \<Rightarrow> bool" where
  "num_lt (Num a) (Num b) = (a < b)"
| "num_lt NaN b = False"
| "num_lt a NaN = False"
| "num_lt NegInf b = (b \<noteq> NegInf)"
| "num_lt a PosInf = (a \<noteq> PosInf)"
| "num_lt a b = False"

definition num_le :: "number \<Rightarrow> number \<Rightarrow> bool" where
  "num_le a b = (a \<noteq> NaN \<and> b \<noteq> NaN \<and> (a = b \<or> num_lt a b))"

section \<open>Resource value parser\<close>

text \<open>
  \<open>parseFloat\<close>: leading white space is skipped, then the longest prefix that is a
  decimal literal is read: an optional sign, then \<open>Infinity\<close> or digits with an optional
  fraction and an optional exponent. No such prefix gives \<open>NaN\<close>.
\<close>

definition pow10 :: "int \<Rightarrow> rat" where
  "pow10 e = (if 0 \<le> e then 10 ^ nat e else 1 / 10 ^ nat (- e))"

definition parse_exponent :: "string \<Rightarrow> int" where
  "parse_exponent r =
     (case r of
        [] \<Rightarrow> 0
      | c # r1 \<Rightarrow>
          if c = CHR ''e'' \<or> c = CHR ''E'' then
            (case r1 of
               [] \<Rightarrow> 0
             | s # r2 \<Rightarrow>
                 if s = CHR ''-'' then
                   (if takeWhile is_digit r2 = [] then 0
                    else - int (digits_val 0 (takeWhile is_digit r2)))
                 else if s = CHR ''+'' then int (digits_val 0 (takeWhile is_digit r2))
                 else int (digits_val 0 (takeWhile is_digit r1)))
          else 0)"

definition parse_unsigned :: "string \<Rightarrow> number" where
  "parse_unsigned s =
     (if startsWith s ''Infinity'' then PosInf
      else
        let ip = takeWhile is_digit s;
            r1 = dropWhile is_digit s;
            has_dot = (r1 \<noteq> [] \<and> hd r1 = CHR ''.'');
            fp = (if has_dot then takeWhile is_digit (tl r1) else []);
            r2 = (if has_dot then dropWhile is_digit (tl r1) else r1)
        in if ip = [] \<and> fp = [] then NaN
           else Num (rat_of_nat (digits_val 0 (ip @ fp)) * pow10 (parse_exponent r2 - int (length fp))))"

definition parseFloat :: "string \<Rightarrow> number" where
  "parseFloat s =
     (let t = dropWhile is_space s
      in case t of
           [] \<Rightarrow> NaN
         | c # cs \<Rightarrow>
             if c = CHR ''-'' then num_neg (parse_unsigned cs)
             else if c = CHR ''+'' then parse_unsigned cs
             else parse_unsigned t)"

text \<open>The test \<open>/^\d+(\.\d+)?$/\<close>: digits, then possibly a dot and more digits, and nothing else.\<close>

definition plain_decimal :: "string \<Rightarrow> bool" where
  "plain_decimal s =
     (let ip = takeWhile is_digit s; r = dropWhile is_digit s
      in ip \<noteq> [] \<and> (r = [] \<or> (hd r = CHR ''.'' \<and> tl r \<noteq> [] \<and> list_all is_digit (tl r))))"

text \<open>The table \<open>memoryUnits\<close>, in the order \<open>Object.entries\<close> walks it.\<close>

definition memoryUnits :: "(string \<times> rat) list" where
  "memoryUnits =
     [(''Ki'', 1024), (''Mi'', 1024 * 1024), (''Gi'', 1024 * 1024 * 1024),
      (''Ti'', 1024 * 1024 * 1024 * 1024),
      (''K'', 1000), (''M'', 1000 * 1000), (''G'', 1000 * 1000 * 1000),
      (''T'', 1000 * 1000 * 1000 * 1000)]"

fun scan_units :: "string \<Rightarrow> number \<Rightarrow> (string \<times> rat) list \<Rightarrow> number" where
  "scan_units v numValue [] = numValue"
| "scan_units v numValue ((unit, multiplier) # rest) =
     (if endsWith v unit then num_mul numValue (Num multiplier) else scan_units v numValue rest)"

text \<open>\<open>parseResourceValue(value)\<close>; an argument that is no string, and the empty string, give 0.\<close>

fun parseResourceValue :: "jsval \<Rightarrow> number" where
  "parseResourceValue (JStr v) =
     (if v = [] then Num 0
      else
        let numValue = parseFloat v
        in if numValue = NaN then Num 0
           else if endsWith v ''m'' then num_div numValue (Num 1000)
           else if plain_decimal v then numValue
           else scan_units v numValue memoryUnits)"
| "parseResourceValue v = Num 0"

section \<open>Values at run time\<close>

definition truthy :: "jsval \<Rightarrow> bool" where
  "truthy v =
     (case v of
        JUndefined \<Rightarrow> False
      | JNull \<Rightarrow> False
      | JBool b \<Rightarrow> b
      | JNum n \<Rightarrow> n \<noteq> Num 0 \<and> n \<noteq> NaN
      | JStr s \<Rightarrow> s \<noteq> []
      | JArr xs \<Rightarrow> True
      | JObj kvs \<Rightarrow> True)"

definition typeof :: "jsval \<Rightarrow> string" where
  "typeof v =
     (case v of
        JUndefined \<Rightarrow> ''undefined''
      | JNull \<Rightarrow> ''object''
      | JBool b \<Rightarrow> ''boolean''
      | JNum n \<Rightarrow> ''number''
      | JStr s \<Rightarrow> ''string''
      | JArr xs \<Rightarrow> ''object''
      | JObj kvs \<Rightarrow> ''object'')"

definition isArray :: "jsval \<Rightarrow> bool" where
  "isArray v = (case v of JArr xs \<Rightarrow> True | _ \<Rightarrow> False)"

text \<open>
  \<open>v.k\<close> for a value \<open>v\<close> that is neither \<open>undefined\<close> nor \<open>null\<close>, and \<open>v?.k\<close> for any value.
  The keys of an object are distinct. The program reads no key that a string, an array or
  a prototype defines, so only an object's own keys are found.
\<close>

definition get :: "jsval \<Rightarrow> string \<Rightarrow> jsval" where
  "get v k = (case v of JObj kvs \<Rightarrow> (case map_of kvs k of Some x \<Rightarrow> x | None \<Rightarrow> JUndefined)
               | _ \<Rightarrow> JUndefined)"

text \<open>\<open>a || b\<close> and \<open>a ?? b\<close>.\<close>

definition nullish_name :: "jsval \<Rightarrow> string" where
  "nullish_name v = (if v = JNull then ''null'' else ''undefined'')"

definition js_or :: "jsval \<Rightarrow> jsval \<Rightarrow> jsval" where
  "js_or a b = (if truthy a then a else b)"

definition js_nullish :: "jsval \<Rightarrow> jsval \<Rightarrow> jsval" where
  "js_nullish a b = (if a = JUndefined \<or> a = JNull then b else a)"

text \<open>A defaulted binding of a destructuring pattern, \<open>{k = d} = v\<close>: the default replaces \<open>undefined\<close> only.\<close>

definition defaulted :: "jsval \<Rightarrow> string \<Rightarrow> jsval \<Rightarrow> jsval" where
  "defaulted v k d = (if get v k = JUndefined then d else get v k)"

text \<open>\<open>[...].includes(v)\<close> on an array of string literals.\<close>

definition one_of :: "string list \<Rightarrow> jsval \<Rightarrow> bool" where
  "one_of allowed v = (case v of JStr s \<Rightarrow> s \<in> set allowed | _ \<Rightarrow> False)"

section \<open>Errors and results\<close>

text \<open>
  A thrown value is an \<open>Error\<close> with its message; the error of a failed child process
  also carries the output the process wrote.
\<close>

datatype error = Error (message: string) (err_stdout: "string option") (err_stderr: "string option")

datatype 'a outcome = Returned 'a | Thrown error

definition new_Error :: "string \<Rightarrow> error" where
  "new_Error msg = Error msg None None"

record content_item =
  ctype :: string
  ctext :: string

text \<open>\<open>isError\<close> is \<open>None\<close> where the object has no such property.\<close>

record tool_result =
  content :: "content_item list"
  isError :: "bool option"

definition text_result :: "string \<Rightarrow> tool_result" where
  "text_result t = \<lparr>content = [\<lparr>ctype = ''text'', ctext = t\<rparr>], isError = None\<rparr>"

text \<open>An action on the world outside: it returns or throws, and leaves a new world.\<close>

type_synonym ('a, 'w) action = "'w \<Rightarrow> 'a outcome \<times> 'w"

definition returns :: "'a \<Rightarrow> ('a, 'w) action" where
  "returns a w = (Returned a, w)"

definition throws :: "error \<Rightarrow> ('a, 'w) action" where
  "throws e w = (Thrown e, w)"

definition bind :: "('a, 'w) action \<Rightarrow> ('a \<Rightarrow> ('b, 'w) action) \<Rightarrow> ('b, 'w) action" where
  "bind m f w = (case m w of (Returned a, w') \<Rightarrow> f a w' | (Thrown e, w') \<Rightarrow> (Thrown e, w'))"

text \<open>\<open>try { m } catch (error) { f error }\<close>.\<close>

definition try_catch :: "('a, 'w) action \<Rightarrow> (error \<Rightarrow> ('a, 'w) action) \<Rightarrow> ('a, 'w) action" where
  "try_catch m f w = (case m w of (Returned a, w') \<Rightarrow> (Returned a, w') | (Thrown e, w') \<Rightarrow> f e w')"

section \<open>Argument validation\<close>

text \<open>A run of \<open>if (cond) throw new Error(msg)\<close> statements: the first condition that holds throws.\<close>

fun first_throw :: "(bool \<times> string) list \<Rightarrow> string option" where
  "first_throw [] = None"
| "first_throw ((c, msg) # rest) = (if c then Some msg else first_throw rest)"

definition wrong_type :: "jsval \<Rightarrow> string \<Rightarrow> bool" where
  "wrong_type v t = (v \<noteq> JUndefined \<and> typeof v \<noteq> t)"

text \<open>\<open>validateToolArguments(toolName, args)\<close>: \<open>Some msg\<close> where it throws \<open>Error(msg)\<close>.\<close>

definition validateToolArguments :: "string \<Rightarrow> jsval \<Rightarrow> string option" where
  "validateToolArguments toolName args =
    (if \<not> truthy args then None
     else if toolName = ''check_cluster_health'' then
       first_throw [(wrong_type (get args ''detailed'') ''boolean'', ''detailed parameter must be boolean'')]
     else if toolName = ''get_performance_metrics'' then
       first_throw
        [(truthy (get args ''namespace'') \<and> typeof (get args ''namespace'') \<noteq> ''string'',
            ''namespace parameter must be string''),
         (truthy (get args ''timeRange'') \<and> typeof (get args ''timeRange'') \<noteq> ''string'',
            ''timeRange parameter must be string'')]
     else if toolName = ''detect_resource_issues'' then
       (if truthy (get args ''thresholds'') then
          first_throw
           [(typeof (get args ''thresholds'') \<noteq> ''object'', ''thresholds parameter must be object''),
            (wrong_type (get (get args ''thresholds'') ''cpu'') ''number'', ''cpu threshold must be number''),
            (wrong_type (get (get args ''thresholds'') ''memory'') ''number'',
               ''memory threshold must be number''),
            (wrong_type (get (get args ''thresholds'') ''restarts'') ''number'',
               ''restarts threshold must be number'')]
        else None)
     else if toolName = ''analyze_pod_disruptions'' then
       first_throw
        [(truthy (get args ''namespace'') \<and> typeof (get args ''namespace'') \<noteq> ''string'',
            ''namespace parameter must be string''),
         (wrong_type (get args ''hours'') ''number'', ''hours parameter must be number'')]
     else if toolName = ''monitor_deployments'' then
       first_throw
        [(truthy (get args ''namespace'') \<and> typeof (get args ''namespace'') \<noteq> ''string'',
            ''namespace parameter must be string'')]
     else if toolName = ''check_kubelet_status'' then
       first_throw
        [(wrong_type (get args ''hoursBack'') ''number'', ''hoursBack parameter must be number''),
         (wrong_type (get args ''includeSystemErrors'') ''boolean'',
            ''includeSystemErrors parameter must be boolean'')]
     else if toolName = ''check_crio_status'' then
       first_throw
        [(wrong_type (get args ''hoursBack'') ''number'', ''hoursBack parameter must be number''),
         (wrong_type (get args ''includeContainerErrors'') ''boolean'',
            ''includeContainerErrors parameter must be boolean'')]
     else if toolName = ''analyze_journalctl_pod_errors'' then
       first_throw
        [(wrong_type (get args ''pod'') ''string'', ''pod parameter must be string''),
         (wrong_type (get args ''hoursBack'') ''number'', ''hoursBack parameter must be number''),
         (wrong_type (get args ''service'') ''string'', ''service parameter must be string''),
         (get args ''errorTypes'' \<noteq> JUndefined \<and> \<not> isArray (get args ''errorTypes''),
            ''errorTypes parameter must be array'')]
     else if toolName = ''create_deployment'' then
       first_throw
        [(\<not> truthy (get args ''name'') \<or> typeof (get args ''name'') \<noteq> ''string'',
            ''name parameter is required and must be string''),
         (\<not> truthy (get args ''image'') \<or> typeof (get args ''image'') \<noteq> ''string'',
            ''image parameter is required and must be string''),
         (truthy (get args ''namespace'') \<and> typeof (get args ''namespace'') \<noteq> ''string'',
            ''namespace parameter must be string''),
         (wrong_type (get args ''replicas'') ''number'', ''replicas parameter must be number'')]
     else if toolName = ''deploy_database'' then
       first_throw
        [(\<not> truthy (get args ''type'') \<or> typeof (get args ''type'') \<noteq> ''string'',
            ''type parameter is required and must be string''),
         (\<not> truthy (get args ''name'') \<or> typeof (get args ''name'') \<noteq> ''string'',
            ''name parameter is required and must be string'')]
     else if toolName = ''create_hpa'' then
       first_throw
        [(\<not> truthy (get args ''targetDeployment'') \<or> typeof (get args ''targetDeployment'') \<noteq> ''string'',
            ''targetDeployment parameter is required and must be string'')]
     else if toolName = ''create_service'' then
       first_throw
        [(\<not> truthy (get args ''name'') \<or> typeof (get args ''name'') \<noteq> ''string'',
            ''name parameter is required and must be string''),
         (\<not> truthy (get args ''selector'') \<or> typeof (get args ''selector'') \<noteq> ''object'',
            ''selector parameter is required and must be object''),
         (\<not> truthy (get args ''ports'') \<or> \<not> isArray (get args ''ports''),
            ''ports parameter is required and must be array'')]
     else if toolName = ''create_network_policy'' then
       first_throw
        [(\<not> truthy (get args ''name'') \<or> typeof (get args ''name'') \<noteq> ''string'',
            ''name parameter is required and must be string''),
         (\<not> truthy (get args ''podSelector'') \<or> typeof (get args ''podSelector'') \<noteq> ''object'',
            ''podSelector parameter is required and must be object'')]
     else if toolName = ''run_kube_burner'' then
       first_throw
        [(truthy (get args ''testType'')
            \<and> \<not> one_of [''cluster-density-v2'', ''node-density'', ''pvc-density'', ''crd-scale'']
                  (get args ''testType''),
            ''testType must be one of: cluster-density-v2, node-density, pvc-density, crd-scale''),
         (get args ''iterations'' \<noteq> JUndefined
            \<and> (case get args ''iterations'' of
                  JNum n \<Rightarrow> num_lt n (Num 1) \<or> num_lt (Num 100) n
                | _ \<Rightarrow> True),
            ''iterations must be number between 1 and 100'')]
     else if toolName = ''run_storage_benchmark'' then
       first_throw
        [(truthy (get args ''testType'')
            \<and> \<not> one_of [''sequential-read'', ''sequential-write'', ''random-read'', ''random-write'', ''mixed'']
                  (get args ''testType''),
            ''testType must be one of: sequential-read, sequential-write, random-read, random-write, mixed'')]
     else if toolName = ''run_network_test'' then
       first_throw
        [(truthy (get args ''testType'')
            \<and> \<not> one_of [''throughput'', ''latency'', ''packet-loss''] (get args ''testType''),
            ''testType must be one of: throughput, latency, packet-loss''),
         (truthy (get args ''protocol'') \<and> \<not> one_of [''tcp'', ''udp''] (get args ''protocol''),
            ''protocol must be tcp or udp'')]
     else if toolName = ''run_cpu_stress_test'' then
       first_throw
        [(truthy (get args ''testType'') \<and> \<not> one_of [''cpu'', ''memory'', ''combined''] (get args ''testType''),
            ''testType must be one of: cpu, memory, combined'')]
     else if toolName = ''run_database_benchmark'' then
       first_throw
        [(\<not> truthy (get args ''dbType'') \<or> \<not> one_of [''postgresql'', ''mysql''] (get args ''dbType''),
            ''dbType is required and must be postgresql or mysql'')]
     else None)"

section \<open>Error sanitization\<close>

text \<open>
  \<open>message.replace(/key[^,\s]*/gi, 'key[REDACTED]')\<close>: scanning from the left, a match
  starts where the key stands, in any case of its letters, and runs on over every
  character that is neither a comma nor white space; the scan goes on behind the match.
\<close>

definition lower :: "char \<Rightarrow> char" where
  "lower c = (let n = (of_char c :: nat) in if 65 \<le> n \<and> n \<le> 90 then char_of (n + 32) else c)"

fun ci_prefix :: "string \<Rightarrow> string \<Rightarrow> bool" where
  "ci_prefix [] s = True"
| "ci_prefix (k # ks) [] = False"
| "ci_prefix (k # ks) (c # cs) = (lower c = lower k \<and> ci_prefix ks cs)"

definition stops :: "char \<Rightarrow> bool" where
  "stops c = (c = CHR '','' \<or> is_space c)"

function redact :: "string \<Rightarrow> string \<Rightarrow> string" where
  "redact key [] = []"
| "redact key (c # cs) =
     (if key \<noteq> [] \<and> ci_prefix key (c # cs)
      then key @ ''[REDACTED]''
             @ redact key (dropWhile (\<lambda>x. \<not> stops x) (drop (length key) (c # cs)))
      else c # redact key cs)"
  by pat_completeness auto
termination
proof (relation "measure (\<lambda>(key, s). length s)")
  fix key :: string and c :: char and cs :: string
  assume "key \<noteq> [] \<and> ci_prefix key (c # cs)"
  then have "0 < length key" by simp
  then have "length (drop (length key) (c # cs)) \<le> length cs"
    by (cases "length key") simp_all
  moreover have "length (dropWhile (\<lambda>x. \<not> stops x) (drop (length key) (c # cs)))
                   \<le> length (drop (length key) (c # cs))"
    by (rule length_dropWhile_le)
  ultimately show "((key, dropWhile (\<lambda>x. \<not> stops x) (drop (length key) (c # cs))), (key, c # cs))
                     \<in> measure (\<lambda>(key, s). length s)"
    by simp
qed simp_all

definition sanitizeErrorMessage :: "string \<Rightarrow> string" where
  "sanitizeErrorMessage msg =
     redact ''secret'' (redact ''password'' (redact ''token'' msg))"

section \<open>Notions for the analysis of the sanitizer\<close>

text \<open>A run is a string without a stop, that is, without a comma and without white space.\<close>

definition run :: "string \<Rightarrow> bool" where
  "run r = (\<forall>c \<in> set r. \<not> stops c)"

text \<open>What follows a run: nothing, or a string that begins with a stop.\<close>

definition headed :: "string \<Rightarrow> bool" where
  "headed z = (case z of [] \<Rightarrow> True | d # zs \<Rightarrow> stops d)"

text \<open>The replacement as it works inside one run: from the first place where the key stands to the end.\<close>

fun redact_run :: "string \<Rightarrow> string \<Rightarrow> string" where
  "redact_run key [] = []"
| "redact_run key (c # cs) =
     (if ci_prefix key (c # cs) then key @ ''[REDACTED]'' else c # redact_run key cs)"

text \<open>The pattern stands somewhere in the string, whatever the case of the letters.\<close>

fun occurs :: "string \<Rightarrow> string \<Rightarrow> bool" where
  "occurs pat [] = ci_prefix pat []"
| "occurs pat (c # cs) = (ci_prefix pat (c # cs) \<or> occurs pat cs)"

text \<open>A proper end of the key is a beginning of the string.\<close>

definition overlaps :: "string \<Rightarrow> string \<Rightarrow> bool" where
  "overlaps key s = list_ex (\<lambda>i. ci_prefix (drop i key) s) [1..<length key]"

text \<open>
  A key is not empty, and no character that equals one of its characters, whatever the
  case, is a stop.
\<close>

definition keylike :: "string \<Rightarrow> bool" where
  "keylike key = (key \<noteq> [] \<and> (\<forall>c \<in> set key. \<forall>d. lower d = lower c \<longrightarrow> \<not> stops d))"

text \<open>The three passes inside one run.\<close>

definition sanitize_run :: "string \<Rightarrow> string" where
  "sanitize_run r = redact_run ''secret'' (redact_run ''password'' (redact_run ''token'' r))"

section \<open>The world outside and the run-time library\<close>

text \<open>Objects of the cluster API, with the fields the handlers read; an absent field is \<open>None\<close>.\<close>

record condition =
  cond_type :: string
  cond_status :: string
  cond_message :: "string option"

record node =
  node_name :: "string option"
  node_conditions :: "condition list"

record containerStatus =
  cs_name :: string
  restartCount :: nat
  cs_reason :: "string option"

record quantities =
  q_cpu :: "string option"
  q_memory :: "string option"

record resources =
  requests :: "quantities option"
  limits :: "quantities option"

record container =
  c_name :: string
  c_resources :: "resources option"

text \<open>\<open>creationTimestamp\<close> is in milliseconds since the epoch.\<close>

record pod =
  pod_name :: "string option"
  pod_namespace :: "string option"
  creationTimestamp :: "int option"
  phase :: "string option"
  containerStatuses :: "containerStatus list"
  containers :: "container list"

text \<open>The response of a list request: none at all, one without \<open>items\<close>, or the items.\<close>

datatype 'a listing = NoResponse | NoItems | Items "'a list"

text \<open>
  What the handlers use and the repository does not define: the cluster client, the child
  process runner \<open>promisify(exec)\<close>, the clock, the environment variables and the library
  functions \<open>JSON.stringify(v, null, 2)\<close>, \<open>JSON.parse\<close>, \<open>Date.prototype.toISOString\<close>, and
  the conversions between numbers and strings where the model has no exact form of its own.
  The options of \<open>exec\<close> (buffer size, timeout, environment) belong to how the world answers
  a command.
\<close>

record exec_output =
  stdout :: string
  stderr :: string

record 'w sys =
  listNode :: "(node listing, 'w) action"
  listPodForAllNamespaces :: "(pod listing, 'w) action"
  exec :: "string \<Rightarrow> (exec_output, 'w) action"
  now :: "'w \<Rightarrow> int"
  wait :: "nat \<Rightarrow> 'w \<Rightarrow> 'w"
  env :: "string \<Rightarrow> string option"
  stringify :: "jsval \<Rightarrow> string"
  json_parse :: "string \<Rightarrow> jsval outcome"
  toISOString :: "int \<Rightarrow> string"
  numberToString :: "rat \<Rightarrow> string"
  stringToNumber :: "string \<Rightarrow> number"

text \<open>\<open>process.env.A || process.env.B\<close>: an unset and an empty variable both give way.\<close>

definition env_or :: "string option \<Rightarrow> string option \<Rightarrow> string option" where
  "env_or a b = (case a of Some (c # cs) \<Rightarrow> a | _ \<Rightarrow> b)"

text \<open>A value that may be \<open>undefined\<close>, inside a template literal.\<close>

definition opt_str :: "string option \<Rightarrow> string" where
  "opt_str v = (case v of Some s \<Rightarrow> s | None \<Rightarrow> ''undefined'')"

function show_nat :: "nat \<Rightarrow> string" where
  "show_nat n = (if n < 10 then [''0123456789'' ! n] else show_nat (n div 10) @ [''0123456789'' ! (n mod 10)])"
  by pat_completeness auto
termination
  by (relation "measure (\<lambda>n. n)") auto

declare show_nat.simps [simp del]

text \<open>
  \<open>String(n)\<close>: an integer below \<open>10^21\<close> in absolute value is written in decimal; for
  every other finite number the digits are the library's.
\<close>

definition num_to_str :: "(rat \<Rightarrow> string) \<Rightarrow> number \<Rightarrow> string" where
  "num_to_str other n =
     (case n of
        NaN \<Rightarrow> ''NaN''
      | PosInf \<Rightarrow> ''Infinity''
      | NegInf \<Rightarrow> ''-Infinity''
      | Num q \<Rightarrow>
          if of_int \<lfloor>q\<rfloor> = q \<and> \<bar>q\<bar> < 10 ^ 21
          then (if q < 0 then ''-'' else []) @ show_nat (nat \<bar>\<lfloor>q\<rfloor>\<bar>)
          else other q)"

fun join :: "string \<Rightarrow> string list \<Rightarrow> string" where
  "join sep [] = []"
| "join sep [x] = x"
| "join sep (x # y # ys) = x @ sep @ join sep (y # ys)"

text \<open>\<open>String(v)\<close>, as a template literal applies it.\<close>

fun to_str :: "(rat \<Rightarrow> string) \<Rightarrow> jsval \<Rightarrow> string"
  and elems_str :: "(rat \<Rightarrow> string) \<Rightarrow> jsval list \<Rightarrow> string list" where
  "to_str f JUndefined = ''undefined''"
| "to_str f JNull = ''null''"
| "to_str f (JBool b) = (if b then ''true'' else ''false'')"
| "to_str f (JNum n) = num_to_str f n"
| "to_str f (JStr s) = s"
| "to_str f (JArr xs) = join '','' (elems_str f xs)"
| "to_str f (JObj kvs) = ''[object Object]''"
| "elems_str f [] = []"
| "elems_str f (x # xs) = (if x = JUndefined \<or> x = JNull then [] else to_str f x) # elems_str f xs"

text \<open>\<open>Number(v)\<close>, as \<open>*\<close> and the comparisons with a number apply it.\<close>

definition to_number :: "'w sys \<Rightarrow> jsval \<Rightarrow> number" where
  "to_number sys v =
     (case v of
        JUndefined \<Rightarrow> NaN
      | JNull \<Rightarrow> Num 0
      | JBool b \<Rightarrow> (if b then Num 1 else Num 0)
      | JNum n \<Rightarrow> n
      | JStr s \<Rightarrow> stringToNumber sys s
      | JArr xs \<Rightarrow> stringToNumber sys (to_str (numberToString sys) v)
      | JObj kvs \<Rightarrow> NaN)"

definition nat_num :: "nat \<Rightarrow> jsval" where
  "nat_num n = JNum (Num (of_nat n))"

text \<open>\<open>Promise.all\<close> of two requests: both are sent; the first failure is the failure of the whole.\<close>

definition promise_all2 :: "('a, 'w) action \<Rightarrow> ('b, 'w) action \<Rightarrow> ('a \<times> 'b, 'w) action" where
  "promise_all2 m1 m2 w =
     (case m1 w of (r1, w1) \<Rightarrow>
        (case m2 w1 of (r2, w2) \<Rightarrow>
           (case r1 of
              Thrown e \<Rightarrow> (Thrown e, w2)
            | Returned a \<Rightarrow>
                (case r2 of Thrown e \<Rightarrow> (Thrown e, w2) | Returned b \<Rightarrow> (Returned (a, b), w2)))))"

section \<open>Cluster health check\<close>

definition PENDING_POD_TIMEOUT :: int where "PENDING_POD_TIMEOUT = 5 * 60 * 1000"
definition DEFAULT_RESTART_THRESHOLD :: nat where "DEFAULT_RESTART_THRESHOLD = 5"
definition DEFAULT_CPU_THRESHOLD :: nat where "DEFAULT_CPU_THRESHOLD = 80"
definition DEFAULT_MEMORY_THRESHOLD :: nat where "DEFAULT_MEMORY_THRESHOLD = 85"

definition calculateAge :: "int \<Rightarrow> int option \<Rightarrow> int" where
  "calculateAge date_now timestamp = (case timestamp of None \<Rightarrow> 0 | Some t \<Rightarrow> date_now - t)"

text \<open>\<open>readyCondition?.status === 'True'\<close> for the first condition of type \<open>Ready\<close>.\<close>

definition node_ready :: "node \<Rightarrow> bool" where
  "node_ready n =
     (case find (\<lambda>c. cond_type c = ''Ready'') (node_conditions n) of
        Some c \<Rightarrow> cond_status c = ''True''
      | None \<Rightarrow> False)"

text \<open>The issues one turn of the node loop pushes.\<close>

definition node_issues :: "node \<Rightarrow> string list" where
  "node_issues n =
     (if node_ready n then [] else [''Node '' @ opt_str (node_name n) @ '' is not ready''])
     @ map (\<lambda>c. ''Node '' @ opt_str (node_name n) @ '': '' @ cond_type c @ '' - '' @ opt_str (cond_message c))
         (filter (\<lambda>c. cond_type c \<noteq> ''Ready'' \<and> cond_status c = ''True'') (node_conditions n))"

definition pod_healthy :: "pod \<Rightarrow> bool" where
  "pod_healthy p = (phase p = Some ''Running'' \<or> phase p = Some ''Succeeded'')"

definition restart_issue :: "pod \<Rightarrow> containerStatus \<Rightarrow> string" where
  "restart_issue p c =
     ''Container '' @ cs_name c @ '' in pod '' @ opt_str (pod_name p) @ '' has ''
       @ show_nat (restartCount c) @ '' restarts''"

text \<open>The issue one turn of the pod loop pushes for the phase of the pod, if any.\<close>

definition phase_issues :: "int \<Rightarrow> pod \<Rightarrow> string list" where
  "phase_issues date_now p =
     (if pod_healthy p then []
      else if phase p = Some ''Failed'' \<or> phase p = Some ''Pending'' then
        (if phase p = Some ''Pending'' \<and> PENDING_POD_TIMEOUT < calculateAge date_now (creationTimestamp p)
         then [''Pod '' @ opt_str (pod_name p) @ '' in '' @ opt_str (pod_namespace p) @ '' stuck in Pending state'']
         else if phase p = Some ''Failed''
         then [''Pod '' @ opt_str (pod_name p) @ '' in '' @ opt_str (pod_namespace p) @ '' in Failed state'']
         else [])
      else [])"

text \<open>The issues it pushes for the containers that restarted too often.\<close>

definition restart_issues :: "pod \<Rightarrow> string list" where
  "restart_issues p =
     map (restart_issue p) (filter (\<lambda>c. DEFAULT_RESTART_THRESHOLD < restartCount c) (containerStatuses p))"

definition pod_issues :: "int \<Rightarrow> pod \<Rightarrow> string list" where
  "pod_issues date_now p = phase_issues date_now p @ restart_issues p"

definition percent :: "nat \<Rightarrow> nat \<Rightarrow> rat" where
  "percent k n = (if 0 < n then of_nat k / of_nat n * 100 else 0)"

text \<open>The overall status, from the number of issues and the two health percentages.\<close>

definition overall :: "nat \<Rightarrow> rat \<Rightarrow> rat \<Rightarrow> string" where
  "overall n_issues nodeHealth podHealth =
     (if n_issues = 0 then ''healthy''
      else if n_issues \<le> 3 \<and> 90 < nodeHealth \<and> 95 < podHealth then ''warning''
      else ''critical'')"

definition nodeHealth :: "node list \<Rightarrow> rat" where
  "nodeHealth nodes = percent (length (filter node_ready nodes)) (length nodes)"

definition podHealth :: "pod list \<Rightarrow> rat" where
  "podHealth pods = percent (length (filter pod_healthy pods)) (length pods)"

definition health_issues :: "int \<Rightarrow> node list \<Rightarrow> pod list \<Rightarrow> string list" where
  "health_issues date_now nodes pods = concat (map node_issues nodes) @ concat (map (pod_issues date_now) pods)"

definition health_summary :: "int \<Rightarrow> node list \<Rightarrow> pod list \<Rightarrow> jsval \<Rightarrow> jsval" where
  "health_summary date_now nodes pods detailed =
     (let issues = health_issues date_now nodes pods;
          healthyNodes = length (filter node_ready nodes);
          healthyPods = length (filter pod_healthy pods)
      in JObj
          ([(''status'', JStr (overall (length issues) (nodeHealth nodes) (podHealth pods))),
            (''totalNodes'', nat_num (length nodes)),
            (''healthyNodes'', nat_num healthyNodes),
            (''totalPods'', nat_num (length pods)),
            (''healthyPods'', nat_num healthyPods),
            (''issuesFound'', nat_num (length issues))]
           @ (if truthy detailed then [(''detailedIssues'', JArr (map JStr issues))] else [])))"

definition checkClusterHealth :: "'w sys \<Rightarrow> jsval \<Rightarrow> (tool_result, 'w) action" where
  "checkClusterHealth sys detailed =
     try_catch
       (bind (promise_all2 (listNode sys) (listPodForAllNamespaces sys))
          (\<lambda>(nodesResponse, podsResponse).
             case nodesResponse of
               Items nodes \<Rightarrow>
                 (case podsResponse of
                    Items pods \<Rightarrow>
                      (\<lambda>w. returns
                              (text_result (''Cluster Health Report:'' @ [NL]
                                 @ stringify sys (health_summary (now sys w) nodes pods detailed))) w)
                  | _ \<Rightarrow> throws (new_Error ''Failed to retrieve pods from cluster''))
             | _ \<Rightarrow> throws (new_Error ''Failed to retrieve nodes from cluster'')))
       (\<lambda>error. throws (new_Error (''Failed to check cluster health: '' @ message error)))"

section \<open>Resource issue detection\<close>

text \<open>\<open>{ ...defaultThresholds, ...thresholds }\<close>, read at one key.\<close>

definition finalThreshold :: "jsval \<Rightarrow> string \<Rightarrow> nat \<Rightarrow> jsval" where
  "finalThreshold thresholds k dflt =
     (case thresholds of
        JObj kvs \<Rightarrow> (case map_of kvs k of Some v \<Rightarrow> v | None \<Rightarrow> nat_num dflt)
      | _ \<Rightarrow> nat_num dflt)"

definition totalRestarts :: "pod \<Rightarrow> nat" where
  "totalRestarts p = foldl (\<lambda>sum c. sum + restartCount c) 0 (containerStatuses p)"

definition frequent_restart :: "'w sys \<Rightarrow> jsval \<Rightarrow> pod \<Rightarrow> bool" where
  "frequent_restart sys thresholds p =
     num_le (to_number sys (finalThreshold thresholds ''restarts'' DEFAULT_RESTART_THRESHOLD))
       (Num (of_nat (totalRestarts p)))"

definition opt_json :: "string option \<Rightarrow> jsval" where
  "opt_json v = (case v of Some s \<Rightarrow> JStr s | None \<Rightarrow> JUndefined)"

definition restart_entry :: "pod \<Rightarrow> jsval" where
  "restart_entry p =
     JObj [(''name'', opt_json (pod_name p)),
           (''namespace'', opt_json (pod_namespace p)),
           (''restarts'', nat_num (totalRestarts p)),
           (''containers'',
              JArr (map (\<lambda>c. JObj [(''name'', JStr (cs_name c)),
                                     (''restarts'', nat_num (restartCount c)),
                                     (''reason'', opt_json (cs_reason c))])
                      (containerStatuses p)))]"

text \<open>\<open>resources.requests.cpu || '0'\<close>.\<close>

definition quantity_or_0 :: "string option \<Rightarrow> jsval" where
  "quantity_or_0 q = (case q of Some (c # cs) \<Rightarrow> JStr (c # cs) | _ \<Rightarrow> JStr ''0'')"

text \<open>The request as a percentage of the limit, where the limit is positive.\<close>

definition request_percent :: "string option \<Rightarrow> string option \<Rightarrow> number option" where
  "request_percent request limit =
     (let r = parseResourceValue (quantity_or_0 request);
          l = parseResourceValue (quantity_or_0 limit)
      in if num_lt (Num 0) l then Some (num_mul (num_div r l) (Num 100)) else None)"

definition over_threshold :: "'w sys \<Rightarrow> jsval \<Rightarrow> number option \<Rightarrow> bool" where
  "over_threshold sys threshold pct = (case pct of Some x \<Rightarrow> num_lt (to_number sys threshold) x | None \<Rightarrow> False)"

definition usage_entry :: "pod \<Rightarrow> container \<Rightarrow> string \<Rightarrow> number option \<Rightarrow> jsval" where
  "usage_entry p c label pct =
     JObj [(''pod'', opt_json (pod_name p)),
           (''namespace'', opt_json (pod_namespace p)),
           (''container'', JStr (c_name c)),
           (label, JNum (case pct of Some x \<Rightarrow> x | None \<Rightarrow> NaN))]"

text \<open>Both \<open>requests\<close> and \<open>limits\<close> must be set for a container to be looked at.\<close>

definition both_set :: "container \<Rightarrow> (quantities \<times> quantities) option" where
  "both_set c =
     (case c_resources c of
        None \<Rightarrow> None
      | Some r \<Rightarrow> (case requests r of None \<Rightarrow> None
                   | Some rq \<Rightarrow> (case limits r of None \<Rightarrow> None | Some lm \<Rightarrow> Some (rq, lm))))"

definition highCpu :: "'w sys \<Rightarrow> jsval \<Rightarrow> pod \<Rightarrow> jsval list" where
  "highCpu sys thresholds p =
     concat (map (\<lambda>c. case both_set c of
                         None \<Rightarrow> []
                       | Some (rq, lm) \<Rightarrow>
                           (let pct = request_percent (q_cpu rq) (q_cpu lm)
                            in if over_threshold sys (finalThreshold thresholds ''cpu'' DEFAULT_CPU_THRESHOLD) pct
                               then [usage_entry p c ''cpuRequestPercent'' pct] else []))
               (containers p))"

definition highMemory :: "'w sys \<Rightarrow> jsval \<Rightarrow> pod \<Rightarrow> jsval list" where
  "highMemory sys thresholds p =
     concat (map (\<lambda>c. case both_set c of
                         None \<Rightarrow> []
                       | Some (rq, lm) \<Rightarrow>
                           (let pct = request_percent (q_memory rq) (q_memory lm)
                            in if over_threshold sys (finalThreshold thresholds ''memory'' DEFAULT_MEMORY_THRESHOLD) pct
                               then [usage_entry p c ''memoryRequestPercent'' pct] else []))
               (containers p))"

definition frequentRestartPods :: "'w sys \<Rightarrow> jsval \<Rightarrow> pod list \<Rightarrow> pod list" where
  "frequentRestartPods sys thresholds pods = filter (frequent_restart sys thresholds) pods"

definition resource_issues :: "'w sys \<Rightarrow> jsval \<Rightarrow> pod list \<Rightarrow> jsval" where
  "resource_issues sys thresholds pods =
     JObj [(''highCpuPods'', JArr (concat (map (highCpu sys thresholds) pods))),
           (''highMemoryPods'', JArr (concat (map (highMemory sys thresholds) pods))),
           (''frequentRestartPods'', JArr (map restart_entry (frequentRestartPods sys thresholds pods))),
           (''resourceQuotaIssues'', JArr [])]"

text \<open>
  \<open>detectResourceIssues(thresholds = {})\<close>. Reading \<open>items\<close> of no response, and looping
  over no items, are type errors, with the messages the engine gives them.
\<close>

definition detectResourceIssues :: "'w sys \<Rightarrow> jsval \<Rightarrow> (tool_result, 'w) action" where
  "detectResourceIssues sys thresholds0 =
     (let thresholds = (if thresholds0 = JUndefined then JObj [] else thresholds0)
      in try_catch
           (bind (listPodForAllNamespaces sys)
              (\<lambda>podsResponse.
                 case podsResponse of
                   NoResponse \<Rightarrow> throws (new_Error ''Cannot read properties of undefined (reading 'items')'')
                 | NoItems \<Rightarrow> throws (new_Error ''pods is not iterable'')
                 | Items pods \<Rightarrow>
                     returns (text_result (''Resource Issues Report:'' @ [NL]
                                @ stringify sys (resource_issues sys thresholds pods)))))
           (\<lambda>error. throws (new_Error (''Failed to detect resource issues: '' @ message error))))"

section \<open>Handlers that may run on\<close>

text \<open>
  A handler awaits the world and may loop; where it does not come back the model has no
  result, \<open>None\<close>.
\<close>

type_synonym ('a, 'w) paction = "'w \<Rightarrow> ('a outcome \<times> 'w) option"

definition total :: "('a, 'w) action \<Rightarrow> ('a, 'w) paction" where
  "total m w = Some (m w)"

definition preturns :: "'a \<Rightarrow> ('a, 'w) paction" where
  "preturns a w = Some (Returned a, w)"

definition pthrows :: "error \<Rightarrow> ('a, 'w) paction" where
  "pthrows e w = Some (Thrown e, w)"

definition pbind :: "('a, 'w) paction \<Rightarrow> ('a \<Rightarrow> ('b, 'w) paction) \<Rightarrow> ('b, 'w) paction" where
  "pbind m f w =
     (case m w of
        None \<Rightarrow> None
      | Some (Returned a, w') \<Rightarrow> f a w'
      | Some (Thrown e, w') \<Rightarrow> Some (Thrown e, w'))"

definition ptry_catch :: "('a, 'w) paction \<Rightarrow> (error \<Rightarrow> ('a, 'w) paction) \<Rightarrow> ('a, 'w) paction" where
  "ptry_catch m f w =
     (case m w of
        None \<Rightarrow> None
      | Some (Returned a, w') \<Rightarrow> Some (Returned a, w')
      | Some (Thrown e, w') \<Rightarrow> f e w')"

section \<open>Density test runner\<close>

definition show_int :: "int \<Rightarrow> string" where
  "show_int i = (if i < 0 then ''-'' @ show_nat (nat (- i)) else show_nat (nat i))"

text \<open>\<open>`${Math.round(ms / 1000)}s`\<close>; \<open>Math.round\<close> rounds a half upwards.\<close>

definition seconds :: "int \<Rightarrow> string" where
  "seconds ms = show_int ((ms + 500) div 1000) @ ''s''"

text \<open>
  \<open>parseInt(s.trim()) || 0\<close>: white space is skipped, then an optional sign, then the
  digits, hexadecimal ones behind \<open>0x\<close>; where there is no digit the result is \<open>NaN\<close>,
  and \<open>|| 0\<close> turns that into 0.
\<close>

definition hex_val :: "char \<Rightarrow> nat option" where
  "hex_val c =
     (let n = (of_char c :: nat)
      in if 48 \<le> n \<and> n \<le> 57 then Some (n - 48)
         else if 65 \<le> n \<and> n \<le> 70 then Some (n - 55)
         else if 97 \<le> n \<and> n \<le> 102 then Some (n - 87)
         else None)"

fun hex_digits_val :: "nat \<Rightarrow> string \<Rightarrow> nat" where
  "hex_digits_val acc [] = acc"
| "hex_digits_val acc (c # cs) =
     (case hex_val c of None \<Rightarrow> acc | Some d \<Rightarrow> hex_digits_val (16 * acc + d) cs)"

definition parse_magnitude :: "string \<Rightarrow> nat" where
  "parse_magnitude s =
     (if startsWith s ''0x'' \<or> startsWith s ''0X'' then hex_digits_val 0 (drop 2 s)
      else digits_val 0 (takeWhile is_digit s))"

definition parseInt_or_0 :: "string \<Rightarrow> int" where
  "parseInt_or_0 s =
     (case dropWhile is_space s of
        [] \<Rightarrow> 0
      | c # cs \<Rightarrow>
          if c = CHR ''-'' then - int (parse_magnitude cs)
          else if c = CHR ''+'' then int (parse_magnitude cs)
          else int (parse_magnitude (c # cs)))"

text \<open>\<open>obj.k = v\<close>: an own key keeps its place, a new one goes last.\<close>

fun set_key :: "string \<Rightarrow> jsval \<Rightarrow> (string \<times> jsval) list \<Rightarrow> (string \<times> jsval) list" where
  "set_key k v [] = [(k, v)]"
| "set_key k v ((k', v') # kvs) = (if k' = k then (k, v) # kvs else (k', v') # set_key k v kvs)"

text \<open>\<open>error.stdout?.includes(t)\<close>.\<close>

definition opt_includes :: "string option \<Rightarrow> string \<Rightarrow> bool" where
  "opt_includes s t = (case s of None \<Rightarrow> False | Some x \<Rightarrow> str_includes x t)"

definition density_manifest :: "string \<Rightarrow> nat \<Rightarrow> string" where
  "density_manifest ns i =
     join [NL]
      [''apiVersion: v1'',
       ''kind: Pod'',
       ''metadata:'',
       ''  name: density-test-pod-'' @ show_nat i,
       ''  namespace: '' @ ns,
       ''  labels:'',
       ''    app: node-density-test'',
       ''    test-iteration: '' @ [DQ] @ show_nat i @ [DQ],
       ''spec:'',
       ''  containers:'',
       ''  - name: pause'',
       ''    image: registry.k8s.io/pause:3.8'',
       ''    resources:'',
       ''      requests:'',
       ''        memory: '' @ [DQ] @ ''10Mi'' @ [DQ],
       ''        cpu: '' @ [DQ] @ ''1m'' @ [DQ],
       ''      limits:'',
       ''        memory: '' @ [DQ] @ ''20Mi'' @ [DQ],
       ''        cpu: '' @ [DQ] @ ''10m'' @ [DQ],
       ''  restartPolicy: Never'']"

definition test_manifest :: "string \<Rightarrow> string \<Rightarrow> nat \<Rightarrow> string" where
  "test_manifest testType ns i =
     join [NL]
      [''apiVersion: v1'',
       ''kind: Pod'',
       ''metadata:'',
       ''  name: test-pod-'' @ show_nat i,
       ''  namespace: '' @ ns,
       ''  labels:'',
       ''    app: '' @ testType @ ''-test'',
       ''    test-iteration: '' @ [DQ] @ show_nat i @ [DQ],
       ''spec:'',
       ''  containers:'',
       ''  - name: pause'',
       ''    image: registry.k8s.io/pause:3.8'',
       ''    resources:'',
       ''      requests:'',
       ''        memory: '' @ [DQ] @ ''10Mi'' @ [DQ],
       ''        cpu: '' @ [DQ] @ ''1m'' @ [DQ],
       ''      limits:'',
       ''        memory: '' @ [DQ] @ ''20Mi'' @ [DQ],
       ''        cpu: '' @ [DQ] @ ''10m'' @ [DQ],
       ''  restartPolicy: Never'']"

definition apply_command :: "string \<Rightarrow> string \<Rightarrow> string" where
  "apply_command podManifest kubeconfigPath =
     ''echo '' @ [SQ] @ podManifest @ [SQ] @ '' | kubectl apply -f - --kubeconfig '' @ kubeconfigPath"

definition create_namespace_command :: "string \<Rightarrow> string \<Rightarrow> string" where
  "create_namespace_command ns kubeconfigPath =
     ''kubectl create namespace '' @ ns @ '' --kubeconfig '' @ kubeconfigPath"

definition delete_namespace_command :: "string \<Rightarrow> string \<Rightarrow> string" where
  "delete_namespace_command ns kubeconfigPath =
     ''kubectl delete namespace '' @ ns @ '' --wait=true --timeout=300s --kubeconfig '' @ kubeconfigPath"

definition get_namespace_command :: "string \<Rightarrow> string \<Rightarrow> string" where
  "get_namespace_command ns kubeconfigPath =
     ''kubectl get namespace '' @ ns @ '' --kubeconfig '' @ kubeconfigPath"

definition count_pods_command :: "string \<Rightarrow> string \<Rightarrow> string" where
  "count_pods_command ns kubeconfigPath =
     ''kubectl get pods -n '' @ ns @ '' --no-headers --kubeconfig '' @ kubeconfigPath @ '' | wc -l''"

text \<open>
  \<open>for (let i = 1; i <= podCount; i++) await execAsync(...)\<close>, from \<open>i\<close> on. A failing
  command ends the loop with its error; with an infinite \<open>podCount\<close> and no failure the loop
  has no end.
\<close>

partial_function (option) apply_loop ::
  "'w sys \<Rightarrow> (nat \<Rightarrow> string) \<Rightarrow> number \<Rightarrow> nat \<Rightarrow> 'w \<Rightarrow> (unit outcome \<times> 'w) option" where
  "apply_loop sys command podCount i w =
     (if num_le (Num (of_nat i)) podCount then
        (case exec sys (command i) w of
           (Returned out, w') \<Rightarrow> apply_loop sys command podCount (Suc i) w'
         | (Thrown e, w') \<Rightarrow> Some (Thrown e, w'))
      else Some (Returned (), w))"

text \<open>One of the two creation branches: the pods, the settle period, the \<open>creation\<close> entry.\<close>

definition create_pods ::
  "'w sys \<Rightarrow> (nat \<Rightarrow> string) \<Rightarrow> number \<Rightarrow> jsval \<Rightarrow> string \<Rightarrow> int \<Rightarrow> (jsval, 'w) paction" where
  "create_pods sys manifest podCount reportedType kubeconfigPath createStart =
     pbind (apply_loop sys (\<lambda>i. apply_command (manifest i) kubeconfigPath) podCount 1)
       (\<lambda>u w. let w' = wait sys 15000 w
              in Some (Returned
                         (JObj [(''podsCreated'', JNum podCount),
                                (''testType'', reportedType),
                                (''duration'', JStr (seconds (now sys w' - createStart))),
                                (''status'', JStr ''Completed'')]),
                       w'))"

text \<open>
  The cleanup phase inside its \<open>try\<close>: \<open>(True, entry)\<close> where the namespace was deleted,
  \<open>(False, entry)\<close> where the \<open>catch\<close> found it missing.
\<close>

definition cleanup_phase :: "'w sys \<Rightarrow> string \<Rightarrow> string \<Rightarrow> (bool \<times> jsval, 'w) action" where
  "cleanup_phase sys ns kubeconfigPath =
     try_catch
       (bind (exec sys (get_namespace_command ns kubeconfigPath))
          (\<lambda>found.
       bind (exec sys (count_pods_command ns kubeconfigPath))
          (\<lambda>podCountResult w.
             let podCount = parseInt_or_0 (stdout podCountResult);
                 cleanupStart = now sys w
             in bind (exec sys (delete_namespace_command ns kubeconfigPath))
                  (\<lambda>deleted w'.
                     returns (True,
                              JObj [(''podsDeleted'', JNum (Num (of_int podCount))),
                                    (''duration'', JStr (seconds (now sys w' - cleanupStart))),
                                    (''status'', JStr ''Completed'')]) w')
                  w)))
       (\<lambda>error.
          if opt_includes (err_stdout error) ''NotFound'' \<or> opt_includes (err_stderr error) ''not found''
          then returns (False, JObj [(''status'', JStr ''Namespace not found - already clean'')])
          else throws (new_Error (''Cleanup failed: '' @ message error)))"

text \<open>The creation phase: the namespace (a failure is only logged), the pods, the automatic cleanup.\<close>

definition creation_phase ::
  "'w sys \<Rightarrow> jsval \<Rightarrow> jsval \<Rightarrow> string \<Rightarrow> string \<Rightarrow> jsval \<Rightarrow> jsval
     \<Rightarrow> (string \<times> jsval) list \<Rightarrow> ((string \<times> jsval) list, 'w) paction" where
  "creation_phase sys testType iterations ns kubeconfigPath cleanup operation results w0 =
     (case exec sys (create_namespace_command ns kubeconfigPath) w0 of
        (created, w1) \<Rightarrow>
          pbind
            (if testType = JStr ''node-density''
             then create_pods sys (density_manifest ns)
                    (num_mul (to_number sys iterations) (Num 10)) (JStr ''node-density'')
                    kubeconfigPath (now sys w1)
             else create_pods sys (test_manifest (to_str (numberToString sys) testType) ns)
                    (num_mul (to_number sys iterations) (Num 5)) testType
                    kubeconfigPath (now sys w1))
            (\<lambda>creation.
               let results1 = set_key ''creation'' creation results
               in if truthy cleanup \<and> operation = JStr ''create'' then
                    (\<lambda>w2. case exec sys (delete_namespace_command ns kubeconfigPath) (wait sys 5000 w2) of
                             (Returned deleted, w3) \<Rightarrow>
                               Some (Returned (set_key ''cleanup''
                                       (JObj [(''status'', JStr ''Automatic cleanup completed'')]) results1), w3)
                           | (Thrown error, w3) \<Rightarrow>
                               Some (Returned (set_key ''cleanup''
                                       (JObj [(''status'', JStr (''Cleanup failed: '' @ message error))])
                                       results1), w3))
                  else preturns results1)
            w1)"

definition completed :: "'w sys \<Rightarrow> string \<Rightarrow> (string \<times> jsval) list \<Rightarrow> tool_result" where
  "completed sys title results =
     text_result (title @ [NL] @ stringify sys (JObj (set_key ''status'' (JStr ''Completed'') results)))"

text \<open>\<open>runKubeBurner(args)\<close>. Messages to the console are not part of the model.\<close>

definition runKubeBurner :: "'w sys \<Rightarrow> jsval \<Rightarrow> (tool_result, 'w) paction" where
  "runKubeBurner sys args =
     ptry_catch
       (if args = JUndefined \<or> args = JNull then
          pthrows (new_Error (''Cannot destructure property 'testType' of 'args' as it is ''
                                @ nullish_name args @ ''.''))
        else
          let testType = defaulted args ''testType'' (JStr ''cluster-density-v2'');
              iterations = defaulted args ''iterations'' (JNum (Num 5));
              namespace = defaulted args ''namespace'' (JStr ''kube-burner-test'');
              timeout = defaulted args ''timeout'' (JStr ''10m'');
              cleanup = defaulted args ''cleanup'' (JBool True);
              operation = defaulted args ''operation'' (JStr ''create'');
              kubeconfigPath = opt_str (env_or (env sys ''MCP_REMOTE_KUBECONFIG'') (env sys ''KUBECONFIG''));
              ns = to_str (numberToString sys) namespace
          in if \<not> one_of [''create'', ''cleanup'', ''both''] operation then
               pthrows (new_Error ''operation must be one of: create, cleanup, both'')
             else
               let results = [(''testType'', testType), (''iterations'', iterations),
                              (''namespace'', namespace), (''timeout'', timeout),
                              (''operation'', operation), (''status'', JStr ''Started'')]
               in pbind
                    (if operation = JStr ''cleanup'' \<or> operation = JStr ''both''
                     then total (bind (cleanup_phase sys ns kubeconfigPath)
                                   (\<lambda>(deleted, entry). returns (deleted, set_key ''cleanup'' entry results)))
                     else preturns (False, results))
                    (\<lambda>(deleted, results1).
                       if deleted \<and> operation = JStr ''cleanup'' then
                         preturns (completed sys ''Kube-burner cleanup completed:'' results1)
                       else
                         pbind
                           (if operation = JStr ''create'' \<or> operation = JStr ''both''
                            then creation_phase sys testType iterations ns kubeconfigPath cleanup
                                   operation results1
                            else preturns results1)
                           (\<lambda>results2.
                              preturns (completed sys (''Kube-burner '' @ to_str (numberToString sys) operation
                                                         @ '' operation completed:'') results2))))
       (\<lambda>error. pthrows (new_Error (''Failed to run kube-burner operation: '' @ message error)))"

section \<open>Kubelet diagnostics\<close>

definition BS :: char where "BS = CHR 0x5C"

definition trim :: "string \<Rightarrow> string" where
  "trim s = rev (dropWhile is_space (rev (dropWhile is_space s)))"

text \<open>\<open>s.split('\n')\<close>.\<close>

fun split_lines :: "string \<Rightarrow> string list" where
  "split_lines [] = [[]]"
| "split_lines (c # cs) =
     (if c = NL then [] # split_lines cs
      else (case split_lines cs of l # ls \<Rightarrow> (c # l) # ls | [] \<Rightarrow> [[c]]))"

definition to_lower :: "char \<Rightarrow> char" where
  "to_lower c =
     (let n = (of_char c :: nat)
      in if (65 \<le> n \<and> n \<le> 90) \<or> (192 \<le> n \<and> n \<le> 222 \<and> n \<noteq> 215) then char_of (n + 32) else c)"

definition toLowerCase :: "string \<Rightarrow> string" where
  "toLowerCase s = map to_lower s"

definition is_word :: "char \<Rightarrow> bool" where
  "is_word c =
     (let n = (of_char c :: nat)
      in (48 \<le> n \<and> n \<le> 57) \<or> (65 \<le> n \<and> n \<le> 90) \<or> (97 \<le> n \<and> n \<le> 122) \<or> n = 95)"

text \<open>
  A nonempty run of characters of one class, then a given character that is not of the
  class: the run and the character, and what follows them.
\<close>

definition run_then :: "(char \<Rightarrow> bool) \<Rightarrow> char \<Rightarrow> string \<Rightarrow> (string \<times> string) option" where
  "run_then cls sep s =
     (let r = takeWhile cls s; rest = dropWhile cls s
      in if r \<noteq> [] \<and> rest \<noteq> [] \<and> hd rest = sep then Some (r @ [sep], tl rest) else None)"

text \<open>\<open>line.match(/^\w+ \d+ \d+:\d+:\d+/)\<close>: the text matched, as in \<open>Jan 5 10:20:30\<close>.\<close>

definition match_timestamp :: "string \<Rightarrow> string option" where
  "match_timestamp line =
     (case run_then is_word CHR '' '' line of
        None \<Rightarrow> None
      | Some (a, r1) \<Rightarrow>
     (case run_then is_digit CHR '' '' r1 of
        None \<Rightarrow> None
      | Some (b, r2) \<Rightarrow>
     (case run_then is_digit CHR '':'' r2 of
        None \<Rightarrow> None
      | Some (c, r3) \<Rightarrow>
     (case run_then is_digit CHR '':'' r3 of
        None \<Rightarrow> None
      | Some (d, r4) \<Rightarrow>
          if takeWhile is_digit r4 = [] then None
          else Some (a @ b @ c @ d @ takeWhile is_digit r4)))))"

text \<open>\<open>command.replace(/"/g, '\\"')\<close>.\<close>

definition escape_quotes :: "string \<Rightarrow> string" where
  "escape_quotes s = concat (map (\<lambda>c. if c = DQ then [BS, DQ] else [c]) s)"

text \<open>The configuration read from the environment, once per call.\<close>

record access =
  kubeconfigPath :: string
  needsRemoteAccess :: bool
  sshHost :: string
  sshKey :: string
  sshUser :: string

definition env_set :: "'w sys \<Rightarrow> string \<Rightarrow> bool" where
  "env_set sys k = (case env sys k of Some (c # cs) \<Rightarrow> True | _ \<Rightarrow> False)"

definition kubelet_access :: "'w sys \<Rightarrow> access" where
  "kubelet_access sys =
     \<lparr>kubeconfigPath =
        (case env_or (env sys ''MCP_REMOTE_KUBECONFIG'') (env sys ''KUBECONFIG'') of
           Some (c # cs) \<Rightarrow> c # cs | _ \<Rightarrow> ''/root/.kube/config''),
      needsRemoteAccess =
        (env_set sys ''MCP_BASTION_HOST'' \<and> env sys ''MCP_BASTION_HOST'' \<noteq> Some ''localhost''
           \<and> \<not> env_set sys ''RUNNING_ON_BASTION''),
      sshHost = opt_str (env sys ''MCP_BASTION_HOST''),
      sshKey = (if env_set sys ''MCP_SSH_KEY'' then opt_str (env sys ''MCP_SSH_KEY'')
                else ''/home/nchhabra/.ssh/id_rsa''),
      sshUser = (if env_set sys ''MCP_BASTION_USER'' then opt_str (env sys ''MCP_BASTION_USER'')
                 else ''root'')\<rparr>"

definition ssh_prefix :: "access \<Rightarrow> string" where
  "ssh_prefix a =
     ''ssh -i '' @ sshKey a
       @ '' -o StrictHostKeyChecking=no -o UserKnownHostsFile=/dev/null -o LogLevel=ERROR ''
       @ sshUser a @ ''@'' @ sshHost a @ '' '' @ [DQ]
       @ ''cd /opt/openshift-mcp-server && KUBECONFIG='' @ kubeconfigPath a @ '' ''"

definition getNodesCmd :: "access \<Rightarrow> string" where
  "getNodesCmd a =
     (if needsRemoteAccess a then ssh_prefix a @ ''kubectl get nodes -o json'' @ [DQ]
      else ''cd /opt/openshift-mcp-server && KUBECONFIG='' @ kubeconfigPath a @ '' kubectl get nodes -o json'')"

text \<open>A command for one node, run in a debug pod on it, directly or through the bastion.\<close>

definition node_command :: "access \<Rightarrow> string \<Rightarrow> string \<Rightarrow> string" where
  "node_command a nodeName command =
     (if needsRemoteAccess a
      then ssh_prefix a @ ''timeout 90s oc debug node/'' @ nodeName @ '' -- chroot /host bash -c ''
             @ [BS, DQ] @ escape_quotes command @ [BS, DQ] @ [DQ]
      else ''cd /opt/openshift-mcp-server && KUBECONFIG='' @ kubeconfigPath a
             @ '' timeout 90s oc debug node/'' @ nodeName @ '' -- chroot /host bash -c ''
             @ [DQ] @ command @ [DQ])"

definition statusCommand :: string where
  "statusCommand = ''systemctl is-active kubelet.service 2>/dev/null || echo '' @ [DQ] @ ''inactive'' @ [DQ]"

definition logsCommand :: "string \<Rightarrow> string" where
  "logsCommand hoursBack =
     ''journalctl -u kubelet.service --since='' @ [DQ] @ ''-'' @ hoursBack @ ''h'' @ [DQ]
       @ '' --lines=50 --no-pager''"

definition systemCommand :: "string \<Rightarrow> string" where
  "systemCommand hoursBack =
     ''journalctl --since='' @ [DQ] @ ''-'' @ hoursBack @ ''h'' @ [DQ]
       @ '' --lines=20 --no-pager | grep -i '' @ [SQ] @ ''systemd'' @ [BS] @ ''|kernel'' @ [BS] @ ''|oom'' @ [SQ]"

text \<open>The lines of an output that are not blank.\<close>

definition nonblank_lines :: "string \<Rightarrow> string list" where
  "nonblank_lines out = filter (\<lambda>line. trim line \<noteq> []) (split_lines out)"

definition is_issue_line :: "string \<Rightarrow> bool" where
  "is_issue_line line =
     (str_includes (toLowerCase line) ''error'' \<or> str_includes (toLowerCase line) ''failed''
        \<or> str_includes (toLowerCase line) ''warn'')"

definition log_entry :: "jsval \<Rightarrow> string \<Rightarrow> jsval" where
  "log_entry nodeName line =
     JObj [(''node'', nodeName),
           (''timestamp'', JStr (case match_timestamp line of Some t \<Rightarrow> t | None \<Rightarrow> ''unknown'')),
           (''level'',
              JStr (if str_includes (toLowerCase line) ''error'' \<or> str_includes (toLowerCase line) ''failed''
                    then ''error'' else ''warning'')),
           (''message'', JStr line)]"

text \<open>The three collections the loop fills.\<close>

record findings =
  allKubeletStatus :: "(string \<times> jsval) list"
  allKubeletLogs :: "jsval list"
  allSystemErrors :: "jsval list"

text \<open>
  The inner \<open>try\<close> of one turn of the loop: the status probe, the log query and, on
  request, the system log query, whose own failure is only logged.
\<close>

definition probe_node ::
  "'w sys \<Rightarrow> access \<Rightarrow> string \<Rightarrow> bool \<Rightarrow> jsval \<Rightarrow> findings \<Rightarrow> (findings, 'w) action" where
  "probe_node sys a hoursBack includeSystemErrors nodeName f =
     (let name = to_str (numberToString sys) nodeName
      in bind (exec sys (node_command a name statusCommand))
           (\<lambda>statusResult.
              let f1 = f\<lparr>allKubeletStatus := set_key name (JStr (trim (stdout statusResult))) (allKubeletStatus f)\<rparr>
              in bind (exec sys (node_command a name (logsCommand hoursBack)))
                   (\<lambda>logsResult.
                      let f2 = f1\<lparr>allKubeletLogs :=
                                     allKubeletLogs f1
                                       @ map (log_entry nodeName)
                                           (filter is_issue_line (nonblank_lines (stdout logsResult)))\<rparr>
                      in if includeSystemErrors then
                           (\<lambda>w. case exec sys (node_command a name (systemCommand hoursBack)) w of
                                   (Returned systemResult, w') \<Rightarrow>
                                     (Returned
                                        (f2\<lparr>allSystemErrors :=
                                              allSystemErrors f2
                                                @ map (\<lambda>line. JObj [(''node'', nodeName), (''message'', JStr line)])
                                                    (nonblank_lines (stdout systemResult))\<rparr>),
                                      w')
                                 | (Thrown systemError, w') \<Rightarrow> (Returned f2, w'))
                         else returns f2)))"

text \<open>
  The \<open>catch\<close> of one turn: the node is marked and an entry is pushed. A status written
  before the failure is overwritten; nothing else was written by then.
\<close>

definition inaccessible :: "'w sys \<Rightarrow> jsval \<Rightarrow> error \<Rightarrow> findings \<Rightarrow> (findings, 'w) action" where
  "inaccessible sys nodeName nodeError f w =
     (let name = to_str (numberToString sys) nodeName
      in (Returned
            (f\<lparr>allKubeletStatus := set_key name (JStr ''inaccessible'') (allKubeletStatus f),
               allKubeletLogs :=
                 allKubeletLogs f
                   @ [JObj [(''node'', nodeName),
                            (''timestamp'', JStr (toISOString sys (now sys w))),
                            (''level'', JStr ''error''),
                            (''message'',
                               JStr (''Cannot access kubelet service on node '' @ name @ '': ''
                                       @ message nodeError))]]\<rparr>),
          w))"

text \<open>
  \<open>node.metadata.name\<close>: reading a property of \<open>undefined\<close> or \<open>null\<close> is a type error,
  outside the inner \<open>try\<close>.
\<close>

definition node_metadata_name :: "jsval \<Rightarrow> jsval outcome" where
  "node_metadata_name node =
     (if node = JUndefined \<or> node = JNull then
        Thrown (new_Error (''Cannot read properties of '' @ nullish_name node @ '' (reading 'metadata')''))
      else if get node ''metadata'' = JUndefined \<or> get node ''metadata'' = JNull then
        Thrown (new_Error (''Cannot read properties of '' @ nullish_name (get node ''metadata'')
                             @ '' (reading 'name')''))
      else Returned (get (get node ''metadata'') ''name''))"

text \<open>One turn of the loop for a node of the given name.\<close>

definition node_turn ::
  "'w sys \<Rightarrow> access \<Rightarrow> string \<Rightarrow> bool \<Rightarrow> jsval \<Rightarrow> findings \<Rightarrow> (findings, 'w) action" where
  "node_turn sys a hoursBack includeSystemErrors nodeName f =
     try_catch (probe_node sys a hoursBack includeSystemErrors nodeName f)
       (\<lambda>nodeError. inaccessible sys nodeName nodeError f)"

fun kubelet_loop ::
  "'w sys \<Rightarrow> access \<Rightarrow> string \<Rightarrow> bool \<Rightarrow> jsval list \<Rightarrow> findings \<Rightarrow> (findings, 'w) action" where
  "kubelet_loop sys a hoursBack includeSystemErrors [] f = returns f"
| "kubelet_loop sys a hoursBack includeSystemErrors (node # rest) f =
     (case node_metadata_name node of
        Thrown e \<Rightarrow> throws e
      | Returned nodeName \<Rightarrow>
          bind (node_turn sys a hoursBack includeSystemErrors nodeName f)
            (kubelet_loop sys a hoursBack includeSystemErrors rest))"

definition kubelet_report :: "nat \<Rightarrow> bool \<Rightarrow> findings \<Rightarrow> jsval" where
  "kubelet_report nodesChecked includeSystemErrors f =
     JObj [(''nodesChecked'', nat_num nodesChecked),
           (''status'', JObj (allKubeletStatus f)),
           (''logsAnalyzed'', nat_num (length (allKubeletLogs f))),
           (''systemErrors'',
              if includeSystemErrors then nat_num (length (allSystemErrors f)) else JStr ''not_requested''),
           (''recentIssues'', JArr (take 10 (allKubeletLogs f))),
           (''systemIssues'', if includeSystemErrors then JArr (take 5 (allSystemErrors f)) else JArr [])]"

text \<open>
  \<open>nodes.items\<close> as the loop sees it: the nodes to visit, or the error thrown before the
  first turn. A string is walked character by character.
\<close>

definition node_items :: "jsval \<Rightarrow> jsval list outcome" where
  "node_items nodes =
     (if nodes = JNull \<or> nodes = JUndefined then
        Thrown (new_Error (''Cannot read properties of '' @ nullish_name nodes @ '' (reading 'items')''))
      else if \<not> truthy (get nodes ''items'') then Thrown (new_Error ''No nodes found in cluster'')
      else (case get nodes ''items'' of
              JArr xs \<Rightarrow> (if xs = [] then Thrown (new_Error ''No nodes found in cluster'') else Returned xs)
            | JStr s \<Rightarrow> Returned (map (\<lambda>c. JStr [c]) s)
            | JObj kvs \<Rightarrow>
                (if map_of kvs ''length'' = Some (JNum (Num 0))
                 then Thrown (new_Error ''No nodes found in cluster'')
                 else Thrown (new_Error ''nodes.items is not iterable''))
            | _ \<Rightarrow> Thrown (new_Error ''nodes.items is not iterable'')))"

definition checkKubeletStatus :: "'w sys \<Rightarrow> jsval \<Rightarrow> jsval \<Rightarrow> (tool_result, 'w) action" where
  "checkKubeletStatus sys hoursBack0 includeSystemErrors0 =
     (let hoursBack = to_str (numberToString sys) (if hoursBack0 = JUndefined then JNum (Num 24) else hoursBack0);
          includeSystemErrors = truthy includeSystemErrors0;
          a = kubelet_access sys
      in try_catch
           (bind (exec sys (getNodesCmd a))
              (\<lambda>nodesResult w.
                 case json_parse sys (stdout nodesResult) of
                   Thrown e \<Rightarrow> (Thrown e, w)
                 | Returned nodes \<Rightarrow>
                     (case node_items nodes of
                        Thrown e \<Rightarrow> (Thrown e, w)
                      | Returned items \<Rightarrow>
                          bind (kubelet_loop sys a hoursBack includeSystemErrors items
                                  \<lparr>allKubeletStatus = [], allKubeletLogs = [], allSystemErrors = []\<rparr>)
                            (\<lambda>f. returns (text_result (''Kubelet Status Report:'' @ [NL]
                                     @ stringify sys (kubelet_report (length items) includeSystemErrors f))))
                            w)))
           (\<lambda>error. throws (new_Error (''Failed to check kubelet status: '' @ message error))))"

section \<open>Dispatcher\<close>

text \<open>
  The handlers of the other tools, as the dispatcher calls them. Each returns a result
  object or throws; its body is not part of the model.
\<close>

record 'w handlers =
  getPerformanceMetrics :: "jsval \<Rightarrow> jsval \<Rightarrow> (tool_result, 'w) paction"
  analyzePodDisruptions :: "jsval \<Rightarrow> jsval \<Rightarrow> (tool_result, 'w) paction"
  checkNodeConditions :: "(tool_result, 'w) paction"
  monitorDeployments :: "jsval \<Rightarrow> (tool_result, 'w) paction"
  checkCrioStatus :: "jsval \<Rightarrow> jsval \<Rightarrow> (tool_result, 'w) paction"
  analyzeJournalctlPodErrors :: "jsval \<Rightarrow> jsval \<Rightarrow> jsval \<Rightarrow> jsval \<Rightarrow> (tool_result, 'w) paction"
  createDeployment :: "jsval \<Rightarrow> (tool_result, 'w) paction"
  deployDatabase :: "jsval \<Rightarrow> (tool_result, 'w) paction"
  createHPA :: "jsval \<Rightarrow> (tool_result, 'w) paction"
  createService :: "jsval \<Rightarrow> (tool_result, 'w) paction"
  createNetworkPolicy :: "jsval \<Rightarrow> (tool_result, 'w) paction"
  runStorageBenchmark :: "jsval \<Rightarrow> (tool_result, 'w) paction"
  runNetworkTest :: "jsval \<Rightarrow> (tool_result, 'w) paction"
  runCpuStressTest :: "jsval \<Rightarrow> (tool_result, 'w) paction"
  runDatabaseBenchmark :: "jsval \<Rightarrow> (tool_result, 'w) paction"

text \<open>The \<open>switch\<close> over the tool name; \<open>args?.k\<close> is \<open>get args k\<close>.\<close>

definition call_tool :: "'w sys \<Rightarrow> 'w handlers \<Rightarrow> string \<Rightarrow> jsval \<Rightarrow> (tool_result, 'w) paction" where
  "call_tool sys h name args =
    (if name = ''check_cluster_health'' then
       total (checkClusterHealth sys (js_or (get args ''detailed'') (JBool False)))
     else if name = ''get_performance_metrics'' then
       getPerformanceMetrics h (get args ''namespace'') (get args ''timeRange'')
     else if name = ''detect_resource_issues'' then
       total (detectResourceIssues sys (get args ''thresholds''))
     else if name = ''analyze_pod_disruptions'' then
       analyzePodDisruptions h (get args ''namespace'') (get args ''hours'')
     else if name = ''check_node_conditions'' then
       checkNodeConditions h
     else if name = ''monitor_deployments'' then
       monitorDeployments h (get args ''namespace'')
     else if name = ''check_kubelet_status'' then
       total (checkKubeletStatus sys (js_nullish (get args ''hoursBack'') (JNum (Num 24)))
                (js_or (get args ''includeSystemErrors'') (JBool False)))
     else if name = ''check_crio_status'' then
       checkCrioStatus h (js_nullish (get args ''hoursBack'') (JNum (Num 24)))
         (JBool (get args ''includeContainerErrors'' \<noteq> JBool False))
     else if name = ''analyze_journalctl_pod_errors'' then
       analyzeJournalctlPodErrors h (get args ''pod'') (js_or (get args ''hoursBack'') (JNum (Num 24)))
         (get args ''service'')
         (js_or (get args ''errorTypes'') (JArr [JStr ''error'', JStr ''fail'', JStr ''warn'']))
     else if name = ''create_deployment'' then createDeployment h args
     else if name = ''deploy_database'' then deployDatabase h args
     else if name = ''create_hpa'' then createHPA h args
     else if name = ''create_service'' then createService h args
     else if name = ''create_network_policy'' then createNetworkPolicy h args
     else if name = ''run_kube_burner'' then runKubeBurner sys args
     else if name = ''run_storage_benchmark'' then runStorageBenchmark h args
     else if name = ''run_network_test'' then runNetworkTest h args
     else if name = ''run_cpu_stress_test'' then runCpuStressTest h args
     else if name = ''run_database_benchmark'' then runDatabaseBenchmark h args
     else pthrows (new_Error (''Unknown tool: '' @ name)))"

text \<open>The \<open>catch\<close> of the dispatcher.\<close>

definition error_response :: "string \<Rightarrow> error \<Rightarrow> tool_result" where
  "error_response name error =
     \<lparr>content = [\<lparr>ctype = ''text'',
                   ctext = ''Error executing '' @ name @ '': '' @ (message error @ '' [DEBUG: Raw error]'')\<rparr>],
      isError = Some True\<rparr>"

text \<open>The handler of a tool call request, for the tool \<open>name\<close> and the arguments \<open>args\<close>.\<close>

definition dispatch :: "'w sys \<Rightarrow> 'w handlers \<Rightarrow> string \<Rightarrow> jsval \<Rightarrow> 'w \<Rightarrow> (tool_result \<times> 'w) option" where
  "dispatch sys h name args w =
     (case validateToolArguments name args of
        Some msg \<Rightarrow> Some (error_response name (new_Error msg), w)
      | None \<Rightarrow>
          (case call_tool sys h name args w of
             None \<Rightarrow> None
           | Some (Returned result, w') \<Rightarrow> Some (result, w')
           | Some (Thrown error, w') \<Rightarrow> Some (error_response name error, w')))"


section \<open>Worlds for observation\<close>

text \<open>
  A world that keeps the commands given to \<open>exec\<close>, in order, beside a world of any
  kind: what a handler asks of the cluster can be read off afterwards.
\<close>

definition beside :: "('a, 'w) action \<Rightarrow> ('a, 'w \<times> string list) action" where
  "beside m = (\<lambda>(w, log). case m w of (r, w') \<Rightarrow> (r, (w', log)))"

definition recording :: "'w sys \<Rightarrow> ('w \<times> string list) sys" where
  "recording sys =
     \<lparr>listNode = beside (listNode sys),
      listPodForAllNamespaces = beside (listPodForAllNamespaces sys),
      exec = (\<lambda>command (w, log). case exec sys command w of (r, w') \<Rightarrow> (r, (w', log @ [command]))),
      now = (\<lambda>(w, log). now sys w),
      wait = (\<lambda>ms (w, log). (wait sys ms w, log)),
      env = env sys,
      stringify = stringify sys,
      json_parse = json_parse sys,
      toISOString = toISOString sys,
      numberToString = numberToString sys,
      stringToNumber = stringToNumber sys\<rparr>"

text \<open>
  A small cluster for examples: the world is the number of commands run so far; the
  list requests, the commands and the parser answer as the parameters say; time stands
  still.
\<close>

definition example_sys ::
  "node listing outcome \<Rightarrow> pod listing outcome \<Rightarrow> (string \<Rightarrow> exec_output outcome) \<Rightarrow> jsval outcome
     \<Rightarrow> nat sys" where
  "example_sys nodes pods answer parsed =
     \<lparr>listNode = (\<lambda>w. (nodes, w)),
      listPodForAllNamespaces = (\<lambda>w. (pods, w)),
      exec = (\<lambda>command w. (answer command, Suc w)),
      now = (\<lambda>w. 0),
      wait = (\<lambda>ms w. w),
      env = (\<lambda>k. None),
      stringify = (\<lambda>v. ''{}''),
      json_parse = (\<lambda>s. parsed),
      toISOString = (\<lambda>t. ''1970-01-01T00:00:00.000Z''),
      numberToString = (\<lambda>q. ''?''),
      stringToNumber = (\<lambda>s. NaN)\<rparr>"

text \<open>Handlers that do nothing but return an empty result.\<close>

definition idle_handlers :: "'w handlers" where
  "idle_handlers =
     \<lparr>getPerformanceMetrics = (\<lambda>a b. preturns (text_result [])),
      analyzePodDisruptions = (\<lambda>a b. preturns (text_result [])),
      checkNodeConditions = preturns (text_result []),
      monitorDeployments = (\<lambda>a. preturns (text_result [])),
      checkCrioStatus = (\<lambda>a b. preturns (text_result [])),
      analyzeJournalctlPodErrors = (\<lambda>a b c d. preturns (text_result [])),
      createDeployment = (\<lambda>a. preturns (text_result [])),
      deployDatabase = (\<lambda>a. preturns (text_result [])),
      createHPA = (\<lambda>a. preturns (text_result [])),
      createService = (\<lambda>a. preturns (text_result [])),
      createNetworkPolicy = (\<lambda>a. preturns (text_result [])),
      runStorageBenchmark = (\<lambda>a. preturns (text_result [])),
      runNetworkTest = (\<lambda>a. preturns (text_result [])),
      runCpuStressTest = (\<lambda>a. preturns (text_result [])),
      runDatabaseBenchmark = (\<lambda>a. preturns (text_result []))\<rparr>"


text \<open>
  A world that writes its results as \<open>JSON.stringify(v, null, 2)\<close> does: two spaces for
  each level, a member whose value is \<open>undefined\<close> left out, \<open>undefined\<close> in an array and
  a number that is not finite written \<open>null\<close>, the keys in the order of the list. A number
  that is not an integer is written by the conversion of the world.
\<close>

definition json_escape :: "char \<Rightarrow> string" where
  "json_escape c =
     (let n = (of_char c :: nat)
      in if n = 34 then [CHR 0x5C, CHR 0x22]
         else if n = 92 then [CHR 0x5C, CHR 0x5C]
         else if n = 8 then [CHR 0x5C, CHR ''b'']
         else if n = 9 then [CHR 0x5C, CHR ''t'']
         else if n = 10 then [CHR 0x5C, CHR ''n'']
         else if n = 12 then [CHR 0x5C, CHR ''f'']
         else if n = 13 then [CHR 0x5C, CHR ''r'']
         else if n < 32 then [CHR 0x5C, CHR ''u'', CHR ''0'', CHR ''0'',
                              ''0123456789abcdef'' ! (n div 16), ''0123456789abcdef'' ! (n mod 16)]
         else [c])"

definition json_quote :: "string \<Rightarrow> string" where
  "json_quote s = [CHR 0x22] @ concat (map json_escape s) @ [CHR 0x22]"

fun json_text :: "(rat \<Rightarrow> string) \<Rightarrow> string \<Rightarrow> jsval \<Rightarrow> string"
  and json_elements :: "(rat \<Rightarrow> string) \<Rightarrow> string \<Rightarrow> jsval list \<Rightarrow> string list"
  and json_members :: "(rat \<Rightarrow> string) \<Rightarrow> string \<Rightarrow> (string \<times> jsval) list \<Rightarrow> string list" where
  "json_text f ind JUndefined = ''undefined''"
| "json_text f ind JNull = ''null''"
| "json_text f ind (JBool b) = (if b then ''true'' else ''false'')"
| "json_text f ind (JNum n) = (case n of Num q \<Rightarrow> num_to_str f n | _ \<Rightarrow> ''null'')"
| "json_text f ind (JStr s) = json_quote s"
| "json_text f ind (JArr xs) =
     (if xs = [] then ''[]''
      else ''['' @ [CHR 0x0A] @ ind @ ''  ''
             @ join ('','' @ [CHR 0x0A] @ ind @ ''  '') (json_elements f (ind @ ''  '') xs)
             @ [CHR 0x0A] @ ind @ '']'')"
| "json_text f ind (JObj kvs) =
     (if json_members f (ind @ ''  '') kvs = [] then ''{}''
      else ''{'' @ [CHR 0x0A] @ ind @ ''  ''
             @ join ('','' @ [CHR 0x0A] @ ind @ ''  '') (json_members f (ind @ ''  '') kvs)
             @ [CHR 0x0A] @ ind @ ''}'')"
| "json_elements f ind [] = []"
| "json_elements f ind (x # xs) =
     (if x = JUndefined then ''null'' else json_text f ind x) # json_elements f ind xs"
| "json_members f ind [] = []"
| "json_members f ind ((k, v) # kvs) =
     (if v = JUndefined then [] else [json_quote k @ '': '' @ json_text f ind v]) @ json_members f ind kvs"

definition printing :: "'w sys \<Rightarrow> 'w sys" where
  "printing sys = sys\<lparr>stringify := json_text (numberToString sys) []\<rparr>"

section \<open>Example clusters and requests\<close>

definition ok_answer :: "string \<Rightarrow> exec_output outcome" where
  "ok_answer command = Returned \<lparr>stdout = [], stderr = []\<rparr>"

text \<open>An empty cluster where every command succeeds without output.\<close>

definition quiet_sys :: "nat sys" where
  "quiet_sys = example_sys (Returned (Items [])) (Returned (Items [])) ok_answer (Returned JNull)"

text \<open>A cluster whose node list request fails with a message that holds a password.\<close>

definition failing_sys :: "nat sys" where
  "failing_sys =
     example_sys (Thrown (new_Error ''login failed: password=hunter2'')) (Returned (Items []))
       ok_answer (Returned JNull)"

text \<open>Benchmark handlers that leave a mark in the world when they are called.\<close>

definition marking_handlers :: "nat handlers" where
  "marking_handlers = idle_handlers
     \<lparr>runStorageBenchmark := (\<lambda>a w. Some (Returned (text_result ''benchmark started''), w + 100)),
      runDatabaseBenchmark := (\<lambda>a w. Some (Returned (text_result ''benchmark started''), w + 100))\<rparr>"






text \<open>
  A cluster without nodes and with two running pods: the two containers of \<open>p1\<close> have
  restarted 2 and 3 times, the one container of \<open>p2\<close> 6 times.
\<close>

definition restarted_pod :: "string \<Rightarrow> (string \<times> nat) list \<Rightarrow> pod" where
  "restarted_pod name counts =
     \<lparr>pod_name = Some name, pod_namespace = Some ''default'', creationTimestamp = None,
      phase = Some ''Running'',
      containerStatuses = map (\<lambda>(c, n). \<lparr>cs_name = c, restartCount = n, cs_reason = None\<rparr>) counts,
      containers = []\<rparr>"

definition restarts_sys :: "nat sys" where
  "restarts_sys =
     printing
       (example_sys (Returned (Items []))
          (Returned (Items [restarted_pod ''p1'' [(''web'', 2), (''db'', 3)],
                            restarted_pod ''p2'' [(''app'', 6)]]))
          ok_answer (Returned JNull))"

text \<open>
  What the findings hold for a node once its turn is over, where the answer to a command
  depends on the command alone: the node is marked \<open>inaccessible\<close>, with an error entry
  that carries the message, if its status probe or its log query failed; otherwise its
  status is the trimmed output of the probe and every issue line of its log is an entry.
\<close>

definition node_recorded ::
  "'w sys \<Rightarrow> (string \<Rightarrow> exec_output outcome) \<Rightarrow> access \<Rightarrow> string \<Rightarrow> string \<Rightarrow> findings \<Rightarrow> bool" where
  "node_recorded sys answer a hoursBack name f =
     (case answer (node_command a name statusCommand) of
        Thrown e \<Rightarrow>
          map_of (allKubeletStatus f) name = Some (JStr ''inaccessible'')
          \<and> (\<exists>t. JObj [(''node'', JStr name),
                         (''timestamp'', JStr (toISOString sys t)),
                         (''level'', JStr ''error''),
                         (''message'',
                            JStr (''Cannot access kubelet service on node '' @ name @ '': '' @ message e))]
                     \<in> set (allKubeletLogs f))
      | Returned st \<Rightarrow>
          (case answer (node_command a name (logsCommand hoursBack)) of
             Thrown e \<Rightarrow>
               map_of (allKubeletStatus f) name = Some (JStr ''inaccessible'')
               \<and> (\<exists>t. JObj [(''node'', JStr name),
                              (''timestamp'', JStr (toISOString sys t)),
                              (''level'', JStr ''error''),
                              (''message'',
                                 JStr (''Cannot access kubelet service on node '' @ name @ '': '' @ message e))]
                          \<in> set (allKubeletLogs f))
           | Returned lg \<Rightarrow>
               map_of (allKubeletStatus f) name = Some (JStr (trim (stdout st)))
               \<and> (\<forall>line \<in> set (filter is_issue_line (nonblank_lines (stdout lg))).
                     \<exists>stamp level.
                       JObj [(''node'', JStr name), (''timestamp'', JStr stamp), (''level'', JStr level),
                             (''message'', JStr line)]
                         \<in> set (allKubeletLogs f))))"

text \<open>
  Three nodes. The world knows the command that lists them and, for each node, the status
  probe and the log query; the status probe of the second node fails, the log of the first
  one has an error line and the log of the third one a warning.
\<close>

definition node_named :: "string \<Rightarrow> jsval" where
  "node_named name = JObj [(''metadata'', JObj [(''name'', JStr name)])]"

definition second_node_down :: "string \<Rightarrow> exec_output outcome" where
  "second_node_down command =
     (if command = ''cd /opt/openshift-mcp-server && KUBECONFIG=/root/.kube/config ''
                     @ ''kubectl get nodes -o json''
      then Returned \<lparr>stdout = ''{\"items\":[{\"metadata\":{\"name\":\"n1\"}},''
                                 @ ''{\"metadata\":{\"name\":\"n2\"}},''
                                 @ ''{\"metadata\":{\"name\":\"n3\"}}]}'',
                      stderr = []\<rparr>
      else if command = ''cd /opt/openshift-mcp-server && KUBECONFIG=/root/.kube/config timeout 90s ''
                          @ ''oc debug node/n1 -- chroot /host bash -c ''
                          @ ''\"systemctl is-active kubelet.service 2>/dev/null || echo \"inactive\"\"''
      then Returned \<lparr>stdout = ''active\<newline>'', stderr = []\<rparr>
      else if command = ''cd /opt/openshift-mcp-server && KUBECONFIG=/root/.kube/config timeout 90s ''
                          @ ''oc debug node/n1 -- chroot /host bash -c ''
                          @ ''\"journalctl -u kubelet.service --since=\"-24h\" --lines=50 --no-pager\"''
      then Returned \<lparr>stdout = ''Jan 5 10:20:30 n1 kubelet: error syncing pod\<newline>'', stderr = []\<rparr>
      else if command = ''cd /opt/openshift-mcp-server && KUBECONFIG=/root/.kube/config timeout 90s ''
                          @ ''oc debug node/n2 -- chroot /host bash -c ''
                          @ ''\"systemctl is-active kubelet.service 2>/dev/null || echo \"inactive\"\"''
      then Thrown (Error ''Command failed: timeout'' (Some []) (Some []))
      else if command = ''cd /opt/openshift-mcp-server && KUBECONFIG=/root/.kube/config timeout 90s ''
                          @ ''oc debug node/n3 -- chroot /host bash -c ''
                          @ ''\"systemctl is-active kubelet.service 2>/dev/null || echo \"inactive\"\"''
      then Returned \<lparr>stdout = ''active\<newline>'', stderr = []\<rparr>
      else if command = ''cd /opt/openshift-mcp-server && KUBECONFIG=/root/.kube/config timeout 90s ''
                          @ ''oc debug node/n3 -- chroot /host bash -c ''
                          @ ''\"journalctl -u kubelet.service --since=\"-24h\" --lines=50 --no-pager\"''
      then Returned \<lparr>stdout = ''Jan 5 10:21:00 n3 kubelet: warning: slow start\<newline>'', stderr = []\<rparr>
      else Thrown (Error ''Command failed: no such command'' (Some []) (Some [])))"

definition three_nodes_sys :: "nat sys" where
  "three_nodes_sys =
     printing
       ((example_sys (Returned (Items [])) (Returned (Items [])) second_node_down (Returned JNull))
          \<lparr>json_parse :=
             (\<lambda>s. if s = ''{\"items\":[{\"metadata\":{\"name\":\"n1\"}},''
                            @ ''{\"metadata\":{\"name\":\"n2\"}},''
                            @ ''{\"metadata\":{\"name\":\"n3\"}}]}''
                  then Returned (JObj [(''items'', JArr [node_named ''n1'', node_named ''n2'',
                                                         node_named ''n3''])])
                  else Thrown (new_Error ''Unexpected end of JSON input''))\<rparr>)"

text \<open>A result object with one content item, of type \<open>text\<close>.\<close>

definition is_text :: "tool_result \<Rightarrow> bool" where
  "is_text r = (case content r of [c] \<Rightarrow> ctype c = ''text'' | _ \<Rightarrow> False)"

section \<open>Properties\<close>

subsection \<open>Worlds for observation\<close>

text \<open>A printing world differs from the world beneath it in its serializer alone.\<close>

lemma printing_simps [simp]:
  "exec (printing sys) = exec sys"
  "now (printing sys) = now sys"
  "wait (printing sys) = wait sys"
  "env (printing sys) = env sys"
  "listNode (printing sys) = listNode sys"
  "listPodForAllNamespaces (printing sys) = listPodForAllNamespaces sys"
  "json_parse (printing sys) = json_parse sys"
  "toISOString (printing sys) = toISOString sys"
  "numberToString (printing sys) = numberToString sys"
  "stringToNumber (printing sys) = stringToNumber sys"
  "stringify (printing sys) = json_text (numberToString sys) []"
  by (simp_all add: printing_def)

lemmas json_defs = json_quote_def json_escape_def num_to_str_def show_nat.simps

lemma kubelet_access_printing [simp]: "kubelet_access (printing sys) = kubelet_access sys"
  by (simp add: kubelet_access_def env_set_def)

lemmas three_nodes_defs =
  three_nodes_sys_def example_sys_def second_node_down_def node_named_def quiet_sys_def
  kubelet_access_def env_or_def env_set_def opt_str_def node_command_def statusCommand_def
  logsCommand_def getNodesCmd_def node_metadata_name_def get_def DQ_def

lemma three_nodes_report:
  "checkKubeletStatus three_nodes_sys (JNum (Num 24)) (JBool False) 0
     = (Returned
          \<lparr>content =
               [\<lparr>ctype = ''text'',
                 ctext = ''Kubelet Status Report:\<newline>''
                   @ ''{\<newline>''
                   @ ''  \"nodesChecked\": 3,\<newline>''
                   @ ''  \"status\": {\<newline>''
                   @ ''    \"n1\": \"active\",\<newline>''
                   @ ''    \"n2\": \"inaccessible\",\<newline>''
                   @ ''    \"n3\": \"active\"\<newline>''
                   @ ''  },\<newline>''
                   @ ''  \"logsAnalyzed\": 3,\<newline>''
                   @ ''  \"systemErrors\": \"not_requested\",\<newline>''
                   @ ''  \"recentIssues\": [\<newline>''
                   @ ''    {\<newline>''
                   @ ''      \"node\": \"n1\",\<newline>''
                   @ ''      \"timestamp\": \"Jan 5 10:20:30\",\<newline>''
                   @ ''      \"level\": \"error\",\<newline>''
                   @ ''      \"message\": \"Jan 5 10:20:30 n1 kubelet: error syncing pod\"\<newline>''
                   @ ''    },\<newline>''
                   @ ''    {\<newline>''
                   @ ''      \"node\": \"n2\",\<newline>''
                   @ ''      \"timestamp\": \"1970-01-01T00:00:00.000Z\",\<newline>''
                   @ ''      \"level\": \"error\",\<newline>''
                   @ ''      \"message\": \"Cannot access kubelet service on node n2: ''
                   @ ''Command failed: timeout\"\<newline>''
                   @ ''    },\<newline>''
                   @ ''    {\<newline>''
                   @ ''      \"node\": \"n3\",\<newline>''
                   @ ''      \"timestamp\": \"Jan 5 10:21:00\",\<newline>''
                   @ ''      \"level\": \"warning\",\<newline>''
                   @ ''      \"message\": \"Jan 5 10:21:00 n3 kubelet: warning: slow start\"\<newline>''
                   @ ''    }\<newline>''
                   @ ''  ],\<newline>''
                   @ ''  \"systemIssues\": []\<newline>''
                   @ ''}''\<rparr>],
             isError = None\<rparr>, 6)"
  by (simp add: checkKubeletStatus_def node_items_def kubelet_report_def text_result_def nat_num_def
      truthy_def three_nodes_defs node_turn_def probe_node_def inaccessible_def try_catch_def bind_def
      returns_def throws_def trim_def is_space_def NL_def DQ_def nonblank_lines_def is_issue_line_def
      log_entry_def match_timestamp_def run_then_def is_word_def is_digit_def toLowerCase_def
      to_lower_def char_of_eq_iff Let_def json_defs)

subsection \<open>Cluster health\<close>




subsection \<open>Restart checks\<close>

lemma foldl_restarts: "foldl (\<lambda>sum c. sum + restartCount c) a cs = a + sum_list (map restartCount cs)"
  by (induction cs arbitrary: a) simp_all

lemma totalRestarts_sum: "totalRestarts p = sum_list (map restartCount (containerStatuses p))"
  by (simp add: totalRestarts_def foldl_restarts)

lemma restart_le_sum: "c \<in> set cs \<Longrightarrow> restartCount c \<le> sum_list (map restartCount cs)"
  by (induction cs) auto

lemma restart_entry_text:
  "restart_entry = (\<lambda>p. JObj [(''name'', case pod_name p of Some s \<Rightarrow> JStr s | None \<Rightarrow> JUndefined),
                                 (''namespace'', case pod_namespace p of Some s \<Rightarrow> JStr s | None \<Rightarrow> JUndefined),
                                 (''restarts'',
                                    JNum (Num (of_nat (sum_list (map restartCount (containerStatuses p)))))),
                                 (''containers'',
                                    JArr (map (\<lambda>c. JObj [(''name'', JStr (cs_name c)),
                                                           (''restarts'', JNum (Num (of_nat (restartCount c)))),
                                                           (''reason'',
                                                              case cs_reason c of
                                                                Some s \<Rightarrow> JStr s | None \<Rightarrow> JUndefined)])
                                            (containerStatuses p)))])"
  by (rule ext) (simp add: restart_entry_def opt_json_def nat_num_def totalRestarts_sum)

lemma frequent_default:
  "frequent_restart sys (JObj []) = (\<lambda>p. 5 \<le> sum_list (map restartCount (containerStatuses p)))"
  by (rule ext)
    (auto simp: frequent_restart_def finalThreshold_def nat_num_def to_number_def num_le_def
      DEFAULT_RESTART_THRESHOLD_def totalRestarts_sum)

lemma frequent_given:
  "frequent_restart sys (JObj [(''restarts'', JNum (Num r))])
     = (\<lambda>p. r \<le> of_nat (sum_list (map restartCount (containerStatuses p))))"
  by (rule ext)
    (auto simp: frequent_restart_def finalThreshold_def to_number_def num_le_def totalRestarts_sum)

lemma container_issues_of_node: "filter (\<lambda>issue. take 10 issue = ''Container '') (node_issues n) = []"
  by (auto simp: node_issues_def filter_empty_conv)

lemma container_issues_of_phase: "filter (\<lambda>issue. take 10 issue = ''Container '') (phase_issues t p) = []"
  by (auto simp: phase_issues_def)

lemma container_issues_of_restarts:
  "filter (\<lambda>issue. take 10 issue = ''Container '') (restart_issues p)
     = map (\<lambda>c. ''Container '' @ cs_name c @ '' in pod ''
                    @ (case pod_name p of Some s \<Rightarrow> s | None \<Rightarrow> ''undefined'')
                    @ '' has '' @ show_nat (restartCount c) @ '' restarts'')
         (filter (\<lambda>c. 5 < restartCount c) (containerStatuses p))"
  by (simp add: restart_issues_def restart_issue_def DEFAULT_RESTART_THRESHOLD_def opt_str_def
      filter_map o_def)

lemma container_issues:
  "filter (\<lambda>issue. take 10 issue = ''Container '') (health_issues t nodes pods)
     = concat (map (\<lambda>p. map (\<lambda>c. ''Container '' @ cs_name c @ '' in pod ''
                                    @ (case pod_name p of Some s \<Rightarrow> s | None \<Rightarrow> ''undefined'')
                                    @ '' has '' @ show_nat (restartCount c) @ '' restarts'')
                           (filter (\<lambda>c. 5 < restartCount c) (containerStatuses p)))
                 pods)"
proof -
  have "filter (\<lambda>issue. take 10 issue = ''Container '') (concat (map node_issues nodes)) = []"
    by (induction nodes) (simp_all add: container_issues_of_node)
  moreover have "filter (\<lambda>issue. take 10 issue = ''Container '') (concat (map (pod_issues t) pods))
     = concat (map (\<lambda>p. map (\<lambda>c. ''Container '' @ cs_name c @ '' in pod ''
                                    @ (case pod_name p of Some s \<Rightarrow> s | None \<Rightarrow> ''undefined'')
                                    @ '' has '' @ show_nat (restartCount c) @ '' restarts'')
                           (filter (\<lambda>c. 5 < restartCount c) (containerStatuses p)))
                 pods)"
    by (induction pods)
      (simp_all add: pod_issues_def container_issues_of_phase container_issues_of_restarts)
  ultimately show ?thesis
    by (simp add: health_issues_def)
qed

lemmas restarts_defs =
  dispatch_def validateToolArguments_def truthy_def call_tool_def total_def get_def typeof_def
  wrong_type_def js_or_def detectResourceIssues_def checkClusterHealth_def try_catch_def bind_def
  promise_all2_def returns_def throws_def resource_issues_def frequentRestartPods_def
  frequent_restart_def finalThreshold_def to_number_def num_le_def totalRestarts_def
  DEFAULT_RESTART_THRESHOLD_def restart_entry_def opt_json_def nat_num_def highCpu_def highMemory_def
  health_summary_def health_issues_def pod_issues_def phase_issues_def restart_issues_def
  restart_issue_def pod_healthy_def nodeHealth_def podHealth_def percent_def overall_def opt_str_def
  text_result_def NL_def Let_def restarts_sys_def example_sys_def restarted_pod_def json_defs

text \<open>
  C10, as the claim states it: a pod whose restarts sum up to exactly the threshold is
  listed by the resource issue detection and gets no restart issue from the cluster health
  check. With a threshold of 6 it gets one: the one container of pod \<open>p2\<close> has restarted
  6 times, the detection asked with the restarts threshold 6 lists \<open>p2\<close>, and the health
  check reports a restart issue for its container.
\<close>

theorem total_at_threshold_flagged_by_both:
  "sum_list (map restartCount (containerStatuses (restarted_pod ''p2'' [(''app'', 6)]))) = 6
   \<and> dispatch restarts_sys idle_handlers ''detect_resource_issues''
         (JObj [(''thresholds'', JObj [(''restarts'', JNum (Num 6))])]) 0
       = Some (\<lparr>content =
               [\<lparr>ctype = ''text'',
                 ctext = ''Resource Issues Report:\<newline>''
                  @ ''{\<newline>''
                  @ ''  \"highCpuPods\": [],\<newline>''
                  @ ''  \"highMemoryPods\": [],\<newline>''
                  @ ''  \"frequentRestartPods\": [\<newline>''
                  @ ''    {\<newline>''
                  @ ''      \"name\": \"p2\",\<newline>''
                  @ ''      \"namespace\": \"default\",\<newline>''
                  @ ''      \"restarts\": 6,\<newline>''
                  @ ''      \"containers\": [\<newline>''
                  @ ''        {\<newline>''
                  @ ''          \"name\": \"app\",\<newline>''
                  @ ''          \"restarts\": 6\<newline>''
                  @ ''        }\<newline>''
                  @ ''      ]\<newline>''
                  @ ''    }\<newline>''
                  @ ''  ],\<newline>''
                  @ ''  \"resourceQuotaIssues\": []\<newline>''
                  @ ''}''\<rparr>],
             isError = None\<rparr>, 0)
   \<and> dispatch restarts_sys idle_handlers ''check_cluster_health'' (JObj [(''detailed'', JBool True)]) 0
       = Some (\<lparr>content =
               [\<lparr>ctype = ''text'',
                 ctext = ''Cluster Health Report:\<newline>''
                  @ ''{\<newline>''
                  @ ''  \"status\": \"critical\",\<newline>''
                  @ ''  \"totalNodes\": 0,\<newline>''
                  @ ''  \"healthyNodes\": 0,\<newline>''
                  @ ''  \"totalPods\": 2,\<newline>''
                  @ ''  \"healthyPods\": 2,\<newline>''
                  @ ''  \"issuesFound\": 1,\<newline>''
                  @ ''  \"detailedIssues\": [\<newline>''
                  @ ''    \"Container app in pod p2 has 6 restarts\"\<newline>''
                  @ ''  ]\<newline>''
                  @ ''}''\<rparr>],
             isError = None\<rparr>, 0)"
proof (intro conjI)
  show "sum_list (map restartCount (containerStatuses (restarted_pod ''p2'' [(''app'', 6)]))) = 6"
    by (simp add: restarted_pod_def)
  show "dispatch restarts_sys idle_handlers ''detect_resource_issues''
         (JObj [(''thresholds'', JObj [(''restarts'', JNum (Num 6))])]) 0
       = Some (\<lparr>content =
               [\<lparr>ctype = ''text'',
                 ctext = ''Resource Issues Report:\<newline>''
                  @ ''{\<newline>''
                  @ ''  \"highCpuPods\": [],\<newline>''
                  @ ''  \"highMemoryPods\": [],\<newline>''
                  @ ''  \"frequentRestartPods\": [\<newline>''
                  @ ''    {\<newline>''
                  @ ''      \"name\": \"p2\",\<newline>''
                  @ ''      \"namespace\": \"default\",\<newline>''
                  @ ''      \"restarts\": 6,\<newline>''
                  @ ''      \"containers\": [\<newline>''
                  @ ''        {\<newline>''
                  @ ''          \"name\": \"app\",\<newline>''
                  @ ''          \"restarts\": 6\<newline>''
                  @ ''        }\<newline>''
                  @ ''      ]\<newline>''
                  @ ''    }\<newline>''
                  @ ''  ],\<newline>''
                  @ ''  \"resourceQuotaIssues\": []\<newline>''
                  @ ''}''\<rparr>],
             isError = None\<rparr>, 0)"
    by (simp add: restarts_defs)
  show "dispatch restarts_sys idle_handlers ''check_cluster_health'' (JObj [(''detailed'', JBool True)]) 0
       = Some (\<lparr>content =
               [\<lparr>ctype = ''text'',
                 ctext = ''Cluster Health Report:\<newline>''
                  @ ''{\<newline>''
                  @ ''  \"status\": \"critical\",\<newline>''
                  @ ''  \"totalNodes\": 0,\<newline>''
                  @ ''  \"healthyNodes\": 0,\<newline>''
                  @ ''  \"totalPods\": 2,\<newline>''
                  @ ''  \"healthyPods\": 2,\<newline>''
                  @ ''  \"issuesFound\": 1,\<newline>''
                  @ ''  \"detailedIssues\": [\<newline>''
                  @ ''    \"Container app in pod p2 has 6 restarts\"\<newline>''
                  @ ''  ]\<newline>''
                  @ ''}''\<rparr>],
             isError = None\<rparr>, 0)"
    by (simp add: restarts_defs)
qed

text \<open>
  C10, amended. The two restart checks use different bounds. The resource issue detection
  lists a pod under \<open>frequentRestartPods\<close>, with its name, its namespace, the sum and the
  containers, exactly when the sum of the restart counts of its containers is greater than
  or equal to the restarts threshold, which is 5 where the request gives none. The cluster
  health check reports a restart issue for a container exactly when the restart count of
  that container is strictly greater than 5, whatever threshold the other tool was given.
  So a pod whose restarts sum up to exactly 5 is listed by the former under the default
  threshold and gets no restart issue from the latter. The pods are those the list request
  returns.
\<close>

theorem restart_checks_differ:
  assumes "listPodForAllNamespaces sys w = (Returned (Items pods), w')"
    and "listNode sys v = (Returned (Items nodes), v1)"
    and "listPodForAllNamespaces sys v1 = (Returned (Items pods), v2)"
  shows "(\<exists>cpu memory.
        dispatch sys h ''detect_resource_issues'' JUndefined w
          = Some (\<lparr>content =
                     [\<lparr>ctype = ''text'',
                       ctext = ''Resource Issues Report:\<newline>''
                         @ stringify sys
                             (JObj [(''highCpuPods'', JArr cpu),
                                    (''highMemoryPods'', JArr memory),
                                    (''frequentRestartPods'',
                                       JArr (map (\<lambda>p. JObj [(''name'', case pod_name p of Some s \<Rightarrow> JStr s | None \<Rightarrow> JUndefined),
                                 (''namespace'', case pod_namespace p of Some s \<Rightarrow> JStr s | None \<Rightarrow> JUndefined),
                                 (''restarts'',
                                    JNum (Num (of_nat (sum_list (map restartCount (containerStatuses p)))))),
                                 (''containers'',
                                    JArr (map (\<lambda>c. JObj [(''name'', JStr (cs_name c)),
                                                           (''restarts'', JNum (Num (of_nat (restartCount c)))),
                                                           (''reason'',
                                                              case cs_reason c of
                                                                Some s \<Rightarrow> JStr s | None \<Rightarrow> JUndefined)])
                                            (containerStatuses p)))])
                                               (filter (\<lambda>p. 5 \<le> sum_list (map restartCount (containerStatuses p))) pods))),
                                    (''resourceQuotaIssues'', JArr [])])\<rparr>],
                   isError = None\<rparr>, w'))
   \<and> (\<exists>cpu memory.
        dispatch sys h ''detect_resource_issues'' (JObj [(''thresholds'', JObj [(''restarts'', JNum (Num r))])]) w
          = Some (\<lparr>content =
                     [\<lparr>ctype = ''text'',
                       ctext = ''Resource Issues Report:\<newline>''
                         @ stringify sys
                             (JObj [(''highCpuPods'', JArr cpu),
                                    (''highMemoryPods'', JArr memory),
                                    (''frequentRestartPods'',
                                       JArr (map (\<lambda>p. JObj [(''name'', case pod_name p of Some s \<Rightarrow> JStr s | None \<Rightarrow> JUndefined),
                                 (''namespace'', case pod_namespace p of Some s \<Rightarrow> JStr s | None \<Rightarrow> JUndefined),
                                 (''restarts'',
                                    JNum (Num (of_nat (sum_list (map restartCount (containerStatuses p)))))),
                                 (''containers'',
                                    JArr (map (\<lambda>c. JObj [(''name'', JStr (cs_name c)),
                                                           (''restarts'', JNum (Num (of_nat (restartCount c)))),
                                                           (''reason'',
                                                              case cs_reason c of
                                                                Some s \<Rightarrow> JStr s | None \<Rightarrow> JUndefined)])
                                            (containerStatuses p)))])
                                               (filter (\<lambda>p. r \<le> of_nat (sum_list (map restartCount (containerStatuses p)))) pods))),
                                    (''resourceQuotaIssues'', JArr [])])\<rparr>],
                   isError = None\<rparr>, w'))
   \<and> (\<exists>status healthyNodes healthyPods issues.
        dispatch sys h ''check_cluster_health'' (JObj [(''detailed'', JBool True)]) v
          = Some (\<lparr>content =
                     [\<lparr>ctype = ''text'',
                       ctext = ''Cluster Health Report:\<newline>''
                         @ stringify sys
                             (JObj [(''status'', JStr status),
                                    (''totalNodes'', JNum (Num (of_nat (length nodes)))),
                                    (''healthyNodes'', JNum (Num (of_nat healthyNodes))),
                                    (''totalPods'', JNum (Num (of_nat (length pods)))),
                                    (''healthyPods'', JNum (Num (of_nat healthyPods))),
                                    (''issuesFound'', JNum (Num (of_nat (length issues)))),
                                    (''detailedIssues'', JArr (map JStr issues))])\<rparr>],
                   isError = None\<rparr>, v2)
        \<and> filter (\<lambda>issue. take 10 issue = ''Container '') issues
            = concat (map (\<lambda>p. map (\<lambda>c. ''Container '' @ cs_name c @ '' in pod ''
                                            @ (case pod_name p of Some s \<Rightarrow> s | None \<Rightarrow> ''undefined'')
                                            @ '' has '' @ show_nat (restartCount c) @ '' restarts'')
                                   (filter (\<lambda>c. 5 < restartCount c) (containerStatuses p)))
                        pods))
   \<and> (\<forall>p \<in> set pods. sum_list (map restartCount (containerStatuses p)) = 5 \<longrightarrow>
        p \<in> set (filter (\<lambda>p. 5 \<le> sum_list (map restartCount (containerStatuses p))) pods)
        \<and> filter (\<lambda>c. 5 < restartCount c) (containerStatuses p) = [])"
proof -
  have a: "(\<exists>cpu memory.
        dispatch sys h ''detect_resource_issues'' JUndefined w
          = Some (\<lparr>content =
                     [\<lparr>ctype = ''text'',
                       ctext = ''Resource Issues Report:\<newline>''
                         @ stringify sys
                             (JObj [(''highCpuPods'', JArr cpu),
                                    (''highMemoryPods'', JArr memory),
                                    (''frequentRestartPods'',
                                       JArr (map (\<lambda>p. JObj [(''name'', case pod_name p of Some s \<Rightarrow> JStr s | None \<Rightarrow> JUndefined),
                                 (''namespace'', case pod_namespace p of Some s \<Rightarrow> JStr s | None \<Rightarrow> JUndefined),
                                 (''restarts'',
                                    JNum (Num (of_nat (sum_list (map restartCount (containerStatuses p)))))),
                                 (''containers'',
                                    JArr (map (\<lambda>c. JObj [(''name'', JStr (cs_name c)),
                                                           (''restarts'', JNum (Num (of_nat (restartCount c)))),
                                                           (''reason'',
                                                              case cs_reason c of
                                                                Some s \<Rightarrow> JStr s | None \<Rightarrow> JUndefined)])
                                            (containerStatuses p)))])
                                               (filter (\<lambda>p. 5 \<le> sum_list (map restartCount (containerStatuses p))) pods))),
                                    (''resourceQuotaIssues'', JArr [])])\<rparr>],
                   isError = None\<rparr>, w'))"
    using assms(1)
    by (simp add: dispatch_def validateToolArguments_def truthy_def call_tool_def total_def get_def
        detectResourceIssues_def try_catch_def bind_def returns_def resource_issues_def
        frequentRestartPods_def frequent_default restart_entry_text text_result_def NL_def)
      blast
  have b: "(\<exists>cpu memory.
        dispatch sys h ''detect_resource_issues'' (JObj [(''thresholds'', JObj [(''restarts'', JNum (Num r))])]) w
          = Some (\<lparr>content =
                     [\<lparr>ctype = ''text'',
                       ctext = ''Resource Issues Report:\<newline>''
                         @ stringify sys
                             (JObj [(''highCpuPods'', JArr cpu),
                                    (''highMemoryPods'', JArr memory),
                                    (''frequentRestartPods'',
                                       JArr (map (\<lambda>p. JObj [(''name'', case pod_name p of Some s \<Rightarrow> JStr s | None \<Rightarrow> JUndefined),
                                 (''namespace'', case pod_namespace p of Some s \<Rightarrow> JStr s | None \<Rightarrow> JUndefined),
                                 (''restarts'',
                                    JNum (Num (of_nat (sum_list (map restartCount (containerStatuses p)))))),
                                 (''containers'',
                                    JArr (map (\<lambda>c. JObj [(''name'', JStr (cs_name c)),
                                                           (''restarts'', JNum (Num (of_nat (restartCount c)))),
                                                           (''reason'',
                                                              case cs_reason c of
                                                                Some s \<Rightarrow> JStr s | None \<Rightarrow> JUndefined)])
                                            (containerStatuses p)))])
                                               (filter (\<lambda>p. r \<le> of_nat (sum_list (map restartCount (containerStatuses p)))) pods))),
                                    (''resourceQuotaIssues'', JArr [])])\<rparr>],
                   isError = None\<rparr>, w'))"
    using assms(1)
    by (simp add: dispatch_def validateToolArguments_def truthy_def call_tool_def total_def get_def
        typeof_def wrong_type_def
        detectResourceIssues_def try_catch_def bind_def returns_def resource_issues_def
        frequentRestartPods_def frequent_given restart_entry_text text_result_def NL_def)
      blast
  have c: "(\<exists>status healthyNodes healthyPods issues.
        dispatch sys h ''check_cluster_health'' (JObj [(''detailed'', JBool True)]) v
          = Some (\<lparr>content =
                     [\<lparr>ctype = ''text'',
                       ctext = ''Cluster Health Report:\<newline>''
                         @ stringify sys
                             (JObj [(''status'', JStr status),
                                    (''totalNodes'', JNum (Num (of_nat (length nodes)))),
                                    (''healthyNodes'', JNum (Num (of_nat healthyNodes))),
                                    (''totalPods'', JNum (Num (of_nat (length pods)))),
                                    (''healthyPods'', JNum (Num (of_nat healthyPods))),
                                    (''issuesFound'', JNum (Num (of_nat (length issues)))),
                                    (''detailedIssues'', JArr (map JStr issues))])\<rparr>],
                   isError = None\<rparr>, v2)
        \<and> filter (\<lambda>issue. take 10 issue = ''Container '') issues
            = concat (map (\<lambda>p. map (\<lambda>c. ''Container '' @ cs_name c @ '' in pod ''
                                            @ (case pod_name p of Some s \<Rightarrow> s | None \<Rightarrow> ''undefined'')
                                            @ '' has '' @ show_nat (restartCount c) @ '' restarts'')
                                   (filter (\<lambda>c. 5 < restartCount c) (containerStatuses p)))
                        pods))"
    using assms(2,3) container_issues [of "now sys v2" nodes pods]
    by (simp add: dispatch_def validateToolArguments_def truthy_def call_tool_def total_def get_def
        typeof_def wrong_type_def js_or_def
        checkClusterHealth_def try_catch_def bind_def promise_all2_def returns_def health_summary_def
        nat_num_def text_result_def NL_def Let_def)
      blast
  have d: "(\<forall>p \<in> set pods. sum_list (map restartCount (containerStatuses p)) = 5 \<longrightarrow>
        p \<in> set (filter (\<lambda>p. 5 \<le> sum_list (map restartCount (containerStatuses p))) pods)
        \<and> filter (\<lambda>c. 5 < restartCount c) (containerStatuses p) = [])"
  proof (intro ballI impI conjI)
    fix p assume p: "p \<in> set pods" and s: "sum_list (map restartCount (containerStatuses p)) = 5"
    show "p \<in> set (filter (\<lambda>p. 5 \<le> sum_list (map restartCount (containerStatuses p))) pods)"
      using p s by simp
    have "\<forall>c \<in> set (containerStatuses p). \<not> 5 < restartCount c"
      using restart_le_sum [of _ "containerStatuses p"] s by fastforce
    then show "filter (\<lambda>c. 5 < restartCount c) (containerStatuses p) = []"
      by (simp add: filter_empty_conv)
  qed
  show ?thesis
    using a b c d by (intro conjI)
qed

theorem restart_checks_differ_witness:
  "listPodForAllNamespaces restarts_sys 0 = (Returned (Items [restarted_pod ''p1'' [(''web'', 2), (''db'', 3)], restarted_pod ''p2'' [(''app'', 6)]]), 0)
   \<and> listNode restarts_sys 0 = (Returned (Items []), 0)
   \<and> restarted_pod ''p1'' [(''web'', 2), (''db'', 3)] \<in> set [restarted_pod ''p1'' [(''web'', 2), (''db'', 3)], restarted_pod ''p2'' [(''app'', 6)]]
   \<and> sum_list (map restartCount (containerStatuses (restarted_pod ''p1'' [(''web'', 2), (''db'', 3)]))) = 5
   \<and> restarted_pod ''p1'' [(''web'', 2), (''db'', 3)]
        \<in> set (filter (\<lambda>p. 5 \<le> sum_list (map restartCount (containerStatuses p))) [restarted_pod ''p1'' [(''web'', 2), (''db'', 3)], restarted_pod ''p2'' [(''app'', 6)]])
   \<and> filter (\<lambda>c. 5 < restartCount c) (containerStatuses (restarted_pod ''p1'' [(''web'', 2), (''db'', 3)])) = []
   \<and> dispatch restarts_sys idle_handlers ''detect_resource_issues'' JUndefined 0
       = Some (\<lparr>content =
               [\<lparr>ctype = ''text'',
                 ctext = ''Resource Issues Report:\<newline>''
                  @ ''{\<newline>''
                  @ ''  \"highCpuPods\": [],\<newline>''
                  @ ''  \"highMemoryPods\": [],\<newline>''
                  @ ''  \"frequentRestartPods\": [\<newline>''
                  @ ''    {\<newline>''
                  @ ''      \"name\": \"p1\",\<newline>''
                  @ ''      \"namespace\": \"default\",\<newline>''
                  @ ''      \"restarts\": 5,\<newline>''
                  @ ''      \"containers\": [\<newline>''
                  @ ''        {\<newline>''
                  @ ''          \"name\": \"web\",\<newline>''
                  @ ''          \"restarts\": 2\<newline>''
                  @ ''        },\<newline>''
                  @ ''        {\<newline>''
                  @ ''          \"name\": \"db\",\<newline>''
                  @ ''          \"restarts\": 3\<newline>''
                  @ ''        }\<newline>''
                  @ ''      ]\<newline>''
                  @ ''    },\<newline>''
                  @ ''    {\<newline>''
                  @ ''      \"name\": \"p2\",\<newline>''
                  @ ''      \"namespace\": \"default\",\<newline>''
                  @ ''      \"restarts\": 6,\<newline>''
                  @ ''      \"containers\": [\<newline>''
                  @ ''        {\<newline>''
                  @ ''          \"name\": \"app\",\<newline>''
                  @ ''          \"restarts\": 6\<newline>''
                  @ ''        }\<newline>''
                  @ ''      ]\<newline>''
                  @ ''    }\<newline>''
                  @ ''  ],\<newline>''
                  @ ''  \"resourceQuotaIssues\": []\<newline>''
                  @ ''}''\<rparr>],
             isError = None\<rparr>, 0)
   \<and> dispatch restarts_sys idle_handlers ''check_cluster_health'' (JObj [(''detailed'', JBool True)]) 0
       = Some (\<lparr>content =
               [\<lparr>ctype = ''text'',
                 ctext = ''Cluster Health Report:\<newline>''
                  @ ''{\<newline>''
                  @ ''  \"status\": \"critical\",\<newline>''
                  @ ''  \"totalNodes\": 0,\<newline>''
                  @ ''  \"healthyNodes\": 0,\<newline>''
                  @ ''  \"totalPods\": 2,\<newline>''
                  @ ''  \"healthyPods\": 2,\<newline>''
                  @ ''  \"issuesFound\": 1,\<newline>''
                  @ ''  \"detailedIssues\": [\<newline>''
                  @ ''    \"Container app in pod p2 has 6 restarts\"\<newline>''
                  @ ''  ]\<newline>''
                  @ ''}''\<rparr>],
             isError = None\<rparr>, 0)"
proof -
  let ?p1 = "restarted_pod ''p1'' [(''web'', 2), (''db'', 3)]"
  let ?pods = "[restarted_pod ''p1'' [(''web'', 2), (''db'', 3)], restarted_pod ''p2'' [(''app'', 6)]]"
  have h1: "listPodForAllNamespaces restarts_sys 0 = (Returned (Items ?pods), 0)"
    by (simp add: restarts_sys_def example_sys_def)
  have h2: "listNode restarts_sys 0 = (Returned (Items []), 0)"
    by (simp add: restarts_sys_def example_sys_def)
  have m: "?p1 \<in> set ?pods" by simp
  have s: "sum_list (map restartCount (containerStatuses ?p1)) = 5"
    by (simp add: restarted_pod_def)
  have d: "\<forall>p \<in> set ?pods. sum_list (map restartCount (containerStatuses p)) = 5 \<longrightarrow>
        p \<in> set (filter (\<lambda>p. 5 \<le> sum_list (map restartCount (containerStatuses p))) ?pods)
        \<and> filter (\<lambda>c. 5 < restartCount c) (containerStatuses p) = []"
    using restart_checks_differ [OF h1 h2 h1, of idle_handlers 0] by blast
  have c: "?p1 \<in> set (filter (\<lambda>p. 5 \<le> sum_list (map restartCount (containerStatuses p))) ?pods)
        \<and> filter (\<lambda>c. 5 < restartCount c) (containerStatuses ?p1) = []"
    using d m s by blast
  have r1: "dispatch restarts_sys idle_handlers ''detect_resource_issues'' JUndefined 0
       = Some (\<lparr>content =
               [\<lparr>ctype = ''text'',
                 ctext = ''Resource Issues Report:\<newline>''
                  @ ''{\<newline>''
                  @ ''  \"highCpuPods\": [],\<newline>''
                  @ ''  \"highMemoryPods\": [],\<newline>''
                  @ ''  \"frequentRestartPods\": [\<newline>''
                  @ ''    {\<newline>''
                  @ ''      \"name\": \"p1\",\<newline>''
                  @ ''      \"namespace\": \"default\",\<newline>''
                  @ ''      \"restarts\": 5,\<newline>''
                  @ ''      \"containers\": [\<newline>''
                  @ ''        {\<newline>''
                  @ ''          \"name\": \"web\",\<newline>''
                  @ ''          \"restarts\": 2\<newline>''
                  @ ''        },\<newline>''
                  @ ''        {\<newline>''
                  @ ''          \"name\": \"db\",\<newline>''
                  @ ''          \"restarts\": 3\<newline>''
                  @ ''        }\<newline>''
                  @ ''      ]\<newline>''
                  @ ''    },\<newline>''
                  @ ''    {\<newline>''
                  @ ''      \"name\": \"p2\",\<newline>''
                  @ ''      \"namespace\": \"default\",\<newline>''
                  @ ''      \"restarts\": 6,\<newline>''
                  @ ''      \"containers\": [\<newline>''
                  @ ''        {\<newline>''
                  @ ''          \"name\": \"app\",\<newline>''
                  @ ''          \"restarts\": 6\<newline>''
                  @ ''        }\<newline>''
                  @ ''      ]\<newline>''
                  @ ''    }\<newline>''
                  @ ''  ],\<newline>''
                  @ ''  \"resourceQuotaIssues\": []\<newline>''
                  @ ''}''\<rparr>],
             isError = None\<rparr>, 0)"
    by (simp add: restarts_defs)
  have r2: "dispatch restarts_sys idle_handlers ''check_cluster_health'' (JObj [(''detailed'', JBool True)]) 0
       = Some (\<lparr>content =
               [\<lparr>ctype = ''text'',
                 ctext = ''Cluster Health Report:\<newline>''
                  @ ''{\<newline>''
                  @ ''  \"status\": \"critical\",\<newline>''
                  @ ''  \"totalNodes\": 0,\<newline>''
                  @ ''  \"healthyNodes\": 0,\<newline>''
                  @ ''  \"totalPods\": 2,\<newline>''
                  @ ''  \"healthyPods\": 2,\<newline>''
                  @ ''  \"issuesFound\": 1,\<newline>''
                  @ ''  \"detailedIssues\": [\<newline>''
                  @ ''    \"Container app in pod p2 has 6 restarts\"\<newline>''
                  @ ''  ]\<newline>''
                  @ ''}''\<rparr>],
             isError = None\<rparr>, 0)"
    by (simp add: restarts_defs)
  show ?thesis
    using h1 h2 m s c r1 r2 by (intro conjI) blast+
qed

subsection \<open>Dispatcher\<close>

lemma is_text_text_result [simp]: "is_text (text_result t)" "isError (text_result t) = None"
  by (simp_all add: is_text_def text_result_def)

lemma is_text_error_response [simp]:
  "is_text (error_response n e)" "isError (error_response n e) = Some True"
  by (simp_all add: is_text_def error_response_def)





lemmas dispatch_example_defs =
  dispatch_def validateToolArguments_def truthy_def call_tool_def total_def checkClusterHealth_def
  try_catch_def bind_def promise_all2_def example_sys_def throws_def returns_def new_Error_def
  error_response_def quiet_sys_def failing_sys_def text_result_def marking_handlers_def
  idle_handlers_def get_def one_of_def

text \<open>
  C1. For every dispatched request whose handler fails, the result of the dispatcher has
  \<open>isError\<close> true and the text \<open>Error executing <name>: <message>\<close>, where the message has
  gone through the error sanitization, so that no password, token or secret appears in an
  error response. The dispatcher does not do that: on the cluster whose node list request
  fails with \<open>login failed: password=hunter2\<close>, the response to \<open>check_cluster_health\<close>
  holds the password, and a debugging suffix; the sanitizer, which nothing calls, would
  have redacted it.
\<close>

theorem dispatch_error_not_sanitized:
  "dispatch failing_sys idle_handlers ''check_cluster_health'' JUndefined 0
     = Some (\<lparr>content =
                 [\<lparr>ctype = ''text'',
                   ctext = ''Error executing check_cluster_health: Failed to check cluster health: ''
                             @ ''login failed: password=hunter2 [DEBUG: Raw error]''\<rparr>],
              isError = Some True\<rparr>, 0)
   \<and> sanitizeErrorMessage ''Failed to check cluster health: login failed: password=hunter2''
       = ''Failed to check cluster health: login failed: password[REDACTED]''"
proof
  show "dispatch failing_sys idle_handlers ''check_cluster_health'' JUndefined 0
     = Some (\<lparr>content =
                 [\<lparr>ctype = ''text'',
                   ctext = ''Error executing check_cluster_health: Failed to check cluster health: ''
                             @ ''login failed: password=hunter2 [DEBUG: Raw error]''\<rparr>],
              isError = Some True\<rparr>, 0)"
    by (simp add: dispatch_example_defs)
  show "sanitizeErrorMessage ''Failed to check cluster health: login failed: password=hunter2''
       = ''Failed to check cluster health: login failed: password[REDACTED]''"
    by (simp add: sanitizeErrorMessage_def lower_def stops_def is_space_def char_of_eq_iff)
qed










subsection \<open>Density test runner\<close>

text \<open>What the recording world does, and that a handler sees through it.\<close>

lemma exec_recording:
  "exec (recording sys) c (w, tr) = (case exec sys c w of (r, w') \<Rightarrow> (r, (w', tr @ [c])))"
  by (simp add: recording_def)

lemma recording_simps [simp]:
  "now (recording sys) (w, tr) = now sys w"
  "wait (recording sys) ms (w, tr) = (wait sys ms w, tr)"
  "env (recording sys) = env sys"
  "stringify (recording sys) = stringify sys"
  "numberToString (recording sys) = numberToString sys"
  "stringToNumber (recording sys) = stringToNumber sys"
  by (simp_all add: recording_def)

lemma to_number_recording [simp]: "to_number (recording sys) v = to_number sys v"
  by (cases v) (simp_all add: to_number_def)

lemma apply_loop_ok:
  assumes ok: "\<forall>command w. \<exists>out w'. exec sys command w = (Returned out, w')"
  shows "i \<le> Suc n \<Longrightarrow>
         \<exists>w'. apply_loop (recording sys) command (Num (of_nat n)) i (w, tr)
                 = Some (Returned (), (w', tr @ map command [i..<Suc n]))"
proof (induction "Suc n - i" arbitrary: i w tr)
  case 0
  then have "i = Suc n" by simp
  then show ?case
    by (subst apply_loop.simps) (simp add: num_le_def)
next
  case (Suc k)
  then have le: "i \<le> n" by simp
  from ok obtain out w1 where e: "exec sys (command i) w = (Returned out, w1)" by blast
  from Suc have "k = Suc n - Suc i" "Suc i \<le> Suc n" by simp_all
  from Suc.hyps(1) [OF this] obtain w' where
    "apply_loop (recording sys) command (Num (of_nat n)) (Suc i) (w1, tr @ [command i])
       = Some (Returned (), (w', (tr @ [command i]) @ map command [Suc i..<Suc n]))"
    by blast
  moreover have "[i..<Suc n] = i # [Suc i..<Suc n]"
    using le by (simp add: upt_conv_Cons)
  ultimately show ?case
    using le e by (subst apply_loop.simps) (simp add: num_le_def exec_recording)
qed

lemma creation_node_density:
  assumes ok: "\<forall>command w. \<exists>out w'. exec sys command w = (Returned out, w')"
    and n: "to_number sys iterations = Num (of_nat n)"
  shows "\<exists>w1 w2. creation_phase (recording sys) (JStr ''node-density'') iterations ns kc
                 (JBool False) operation results (w, tr)
     = Some (Returned
               (set_key ''creation''
                  (JObj [(''podsCreated'', JNum (Num (of_nat (n * 10)))),
                         (''testType'', JStr ''node-density''),
                         (''duration'', JStr (seconds (now sys w2 - now sys w1))),
                         (''status'', JStr ''Completed'')]) results),
             (w2, tr @ create_namespace_command ns kc
                        # map (\<lambda>i. apply_command (density_manifest ns i) kc) [1..<Suc (n * 10)]))"
proof -
  obtain r w1 where e: "exec sys (create_namespace_command ns kc) w = (r, w1)"
    by (meson surj_pair)
  have p: "num_mul (to_number (recording sys) iterations) (Num 10) = Num (of_nat (n * 10))"
    using n by simp
  from apply_loop_ok [OF ok, of "Suc 0" "n * 10" "\<lambda>i. apply_command (density_manifest ns i) kc" w1
      "tr @ [create_namespace_command ns kc]"]
  obtain w2 where
    l: "apply_loop (recording sys) (\<lambda>i. apply_command (density_manifest ns i) kc) (Num (of_nat (n * 10))) (Suc 0)
          (w1, tr @ [create_namespace_command ns kc])
        = Some (Returned (), (w2, (tr @ [create_namespace_command ns kc])
                   @ map (\<lambda>i. apply_command (density_manifest ns i) kc) [Suc 0..<Suc (n * 10)]))"
    by auto
  show ?thesis
    apply (rule exI [of _ w1], rule exI [of _ "wait sys 15000 w2"])
    unfolding creation_phase_def create_pods_def pbind_def exec_recording e p
    apply (simp add: l truthy_def preturns_def Let_def del: upt_Suc of_nat_mult)
    done
qed




lemma density_command_text:
  "apply_command (density_manifest ns i) kc
     = ''echo 'apiVersion: v1\<newline>kind: Pod\<newline>metadata:\<newline>  name: density-test-pod-'' @ show_nat i
         @ ''\<newline>  namespace: '' @ ns
         @ ''\<newline>  labels:\<newline>    app: node-density-test\<newline>    test-iteration: \"'' @ show_nat i
         @ ''\"\<newline>spec:\<newline>  containers:\<newline>  - name: pause\<newline>''
         @ ''    image: registry.k8s.io/pause:3.8\<newline>    resources:\<newline>      requests:\<newline>''
         @ ''        memory: \"10Mi\"\<newline>        cpu: \"1m\"\<newline>      limits:\<newline>''
         @ ''        memory: \"20Mi\"\<newline>        cpu: \"10m\"\<newline>  restartPolicy: Never' ''
         @ ''| kubectl apply -f - --kubeconfig '' @ kc"
  by (simp add: apply_command_def density_manifest_def NL_def DQ_def SQ_def)

text \<open>
  C6. A \<open>run_kube_burner\<close> request with test type \<open>node-density\<close>, 2 iterations,
  operation \<open>create\<close> and no cleanup creates a namespace and exactly 2 * 10 = 20 pod
  manifests, one \<open>kubectl apply\<close> for each; where the cluster commands succeed, the payload of
  the response reports \<open>podsCreated\<close> 20 and the status \<open>Completed\<close>. The commands are
  read off the recording world, with their text: the namespace, then the manifests of the
  pods 1 to 20, each piped into its own \<open>kubectl apply\<close>.
\<close>

theorem node_density_two_iterations:
  assumes "\<forall>command w. \<exists>out w'. exec sys command w = (Returned out, w')"
    and "kubeconfig = (case env sys ''MCP_REMOTE_KUBECONFIG'' of
                       Some (c # cs) \<Rightarrow> c # cs
                     | _ \<Rightarrow> (case env sys ''KUBECONFIG'' of Some path \<Rightarrow> path | None \<Rightarrow> ''undefined''))"
  shows "\<exists>w1 w2.
     dispatch (recording sys) h ''run_kube_burner''
       (JObj [(''testType'', JStr ''node-density''), (''iterations'', JNum (Num 2)),
              (''operation'', JStr ''create''), (''cleanup'', JBool False)]) (w, [])
     = Some (\<lparr>content =
                [\<lparr>ctype = ''text'',
                  ctext = ''Kube-burner create operation completed:\<newline>''
                    @ stringify sys
                        (JObj [(''testType'', JStr ''node-density''),
                               (''iterations'', JNum (Num 2)),
                               (''namespace'', JStr ''kube-burner-test''),
                               (''timeout'', JStr ''10m''),
                               (''operation'', JStr ''create''),
                               (''status'', JStr ''Completed''),
                               (''creation'',
                                  JObj [(''podsCreated'', JNum (Num 20)),
                                        (''testType'', JStr ''node-density''),
                                        (''duration'', JStr (seconds (now sys w2 - now sys w1))),
                                        (''status'', JStr ''Completed'')])])\<rparr>],
              isError = None\<rparr>,
             (w2,
              (''kubectl create namespace kube-burner-test --kubeconfig '' @ kubeconfig)
              # map (\<lambda>number.
                       ''echo 'apiVersion: v1\<newline>kind: Pod\<newline>metadata:\<newline>''
                       @ ''  name: density-test-pod-'' @ number @ ''\<newline>''
                       @ ''  namespace: kube-burner-test\<newline>''
                       @ ''  labels:\<newline>''
                       @ ''    app: node-density-test\<newline>''
                       @ ''    test-iteration: \"'' @ number @ ''\"\<newline>''
                       @ ''spec:\<newline>''
                       @ ''  containers:\<newline>''
                       @ ''  - name: pause\<newline>''
                       @ ''    image: registry.k8s.io/pause:3.8\<newline>''
                       @ ''    resources:\<newline>''
                       @ ''      requests:\<newline>''
                       @ ''        memory: \"10Mi\"\<newline>''
                       @ ''        cpu: \"1m\"\<newline>''
                       @ ''      limits:\<newline>''
                       @ ''        memory: \"20Mi\"\<newline>''
                       @ ''        cpu: \"10m\"\<newline>''
                       @ ''  restartPolicy: Never' | kubectl apply -f - --kubeconfig '' @ kubeconfig)
                  ([''1'', ''2'', ''3'', ''4'', ''5''] @ [''6'', ''7'', ''8'', ''9'', ''10'']
                  @ [''11'', ''12'', ''13'', ''14'', ''15''] @ [''16'', ''17'', ''18'', ''19'', ''20''])))"
proof -
  let ?kc = "opt_str (env_or (env sys ''MCP_REMOTE_KUBECONFIG'') (env sys ''KUBECONFIG''))"
  let ?results = "[(''testType'', JStr ''node-density''), (''iterations'', JNum (Num 2)),
                   (''namespace'', JStr ''kube-burner-test''), (''timeout'', JStr ''10m''),
                   (''operation'', JStr ''create''), (''status'', JStr ''Started'')]"
  have kc: "?kc = kubeconfig"
    unfolding assms(2) by (simp add: opt_str_def env_or_def split: option.splits list.splits)
  have n: "to_number sys (JNum (Num 2)) = Num (of_nat 2)"
    by (simp add: to_number_def)
  have m: "map (\<lambda>i. apply_command (density_manifest ''kube-burner-test'' i) kubeconfig) [1..<21]
             = map (\<lambda>number.
                       ''echo 'apiVersion: v1\<newline>kind: Pod\<newline>metadata:\<newline>''
                       @ ''  name: density-test-pod-'' @ number @ ''\<newline>''
                       @ ''  namespace: kube-burner-test\<newline>''
                       @ ''  labels:\<newline>''
                       @ ''    app: node-density-test\<newline>''
                       @ ''    test-iteration: \"'' @ number @ ''\"\<newline>''
                       @ ''spec:\<newline>''
                       @ ''  containers:\<newline>''
                       @ ''  - name: pause\<newline>''
                       @ ''    image: registry.k8s.io/pause:3.8\<newline>''
                       @ ''    resources:\<newline>''
                       @ ''      requests:\<newline>''
                       @ ''        memory: \"10Mi\"\<newline>''
                       @ ''        cpu: \"1m\"\<newline>''
                       @ ''      limits:\<newline>''
                       @ ''        memory: \"20Mi\"\<newline>''
                       @ ''        cpu: \"10m\"\<newline>''
                       @ ''  restartPolicy: Never' | kubectl apply -f - --kubeconfig '' @ kubeconfig)
                  ([''1'', ''2'', ''3'', ''4'', ''5''] @ [''6'', ''7'', ''8'', ''9'', ''10'']
                  @ [''11'', ''12'', ''13'', ''14'', ''15''] @ [''16'', ''17'', ''18'', ''19'', ''20''])"
    by (simp add: upt_rec density_command_text show_nat.simps)
  from creation_node_density [OF assms(1) n, of "''kube-burner-test''" ?kc "JStr ''create''" ?results w "[]"]
  obtain w1 w2 where
    c: "creation_phase (recording sys) (JStr ''node-density'') (JNum (Num 2)) ''kube-burner-test'' ?kc
          (JBool False) (JStr ''create'') ?results (w, [])
        = Some (Returned
               (set_key ''creation''
                  (JObj [(''podsCreated'', JNum (Num 20)),
                         (''testType'', JStr ''node-density''),
                         (''duration'', JStr (seconds (now sys w2 - now sys w1))),
                         (''status'', JStr ''Completed'')]) ?results),
             (w2, create_namespace_command ''kube-burner-test'' ?kc
                        # map (\<lambda>i. apply_command (density_manifest ''kube-burner-test'' i) ?kc) [1..<21]))"
    by auto
  have v: "validateToolArguments ''run_kube_burner''
       (JObj [(''testType'', JStr ''node-density''), (''iterations'', JNum (Num 2)),
              (''operation'', JStr ''create''), (''cleanup'', JBool False)]) = None"
    by (simp add: validateToolArguments_def truthy_def get_def one_of_def)
  show ?thesis
    apply (rule exI [of _ w1], rule exI [of _ w2])
    using c unfolding kc m
    apply (simp add: dispatch_def v call_tool_def runKubeBurner_def ptry_catch_def pbind_def
        preturns_def defaulted_def get_def one_of_def Let_def completed_def to_str.simps kc
        text_result_def NL_def create_namespace_command_def)
    done
qed

theorem node_density_two_iterations_witness:
  "(\<forall>command w. \<exists>out w'. exec (printing quiet_sys) command w = (Returned out, w'))
   \<and> ''undefined'' = (case env (printing quiet_sys) ''MCP_REMOTE_KUBECONFIG'' of
                       Some (c # cs) \<Rightarrow> c # cs
                     | _ \<Rightarrow> (case env (printing quiet_sys) ''KUBECONFIG'' of
                              Some path \<Rightarrow> path | None \<Rightarrow> ''undefined''))
   \<and> (\<exists>w2.
     dispatch (recording (printing quiet_sys)) idle_handlers ''run_kube_burner''
       (JObj [(''testType'', JStr ''node-density''), (''iterations'', JNum (Num 2)),
              (''operation'', JStr ''create''), (''cleanup'', JBool False)]) (0, [])
     = Some (\<lparr>content =
                [\<lparr>ctype = ''text'',
                  ctext = ''Kube-burner create operation completed:\<newline>''
                    @ ''{\<newline>''
                    @ ''  \"testType\": \"node-density\",\<newline>''
                    @ ''  \"iterations\": 2,\<newline>''
                    @ ''  \"namespace\": \"kube-burner-test\",\<newline>''
                    @ ''  \"timeout\": \"10m\",\<newline>''
                    @ ''  \"operation\": \"create\",\<newline>''
                    @ ''  \"status\": \"Completed\",\<newline>''
                    @ ''  \"creation\": {\<newline>''
                    @ ''    \"podsCreated\": 20,\<newline>''
                    @ ''    \"testType\": \"node-density\",\<newline>''
                    @ ''    \"duration\": \"0s\",\<newline>''
                    @ ''    \"status\": \"Completed\"\<newline>''
                    @ ''  }\<newline>''
                    @ ''}''\<rparr>],
              isError = None\<rparr>,
             (w2,
              ''kubectl create namespace kube-burner-test --kubeconfig undefined''
              # map (\<lambda>number.
                       ''echo 'apiVersion: v1\<newline>kind: Pod\<newline>metadata:\<newline>''
                       @ ''  name: density-test-pod-'' @ number @ ''\<newline>''
                       @ ''  namespace: kube-burner-test\<newline>''
                       @ ''  labels:\<newline>''
                       @ ''    app: node-density-test\<newline>''
                       @ ''    test-iteration: \"'' @ number @ ''\"\<newline>''
                       @ ''spec:\<newline>''
                       @ ''  containers:\<newline>''
                       @ ''  - name: pause\<newline>''
                       @ ''    image: registry.k8s.io/pause:3.8\<newline>''
                       @ ''    resources:\<newline>''
                       @ ''      requests:\<newline>''
                       @ ''        memory: \"10Mi\"\<newline>''
                       @ ''        cpu: \"1m\"\<newline>''
                       @ ''      limits:\<newline>''
                       @ ''        memory: \"20Mi\"\<newline>''
                       @ ''        cpu: \"10m\"\<newline>''
                       @ ''  restartPolicy: Never' | kubectl apply -f - --kubeconfig undefined'')
                  ([''1'', ''2'', ''3'', ''4'', ''5''] @ [''6'', ''7'', ''8'', ''9'', ''10'']
                  @ [''11'', ''12'', ''13'', ''14'', ''15''] @ [''16'', ''17'', ''18'', ''19'', ''20'']))))"
proof -
  have h1: "\<forall>command w. \<exists>out w'. exec (printing quiet_sys) command w = (Returned out, w')"
    by (simp add: quiet_sys_def example_sys_def ok_answer_def)
  have h2: "''undefined'' = (case env (printing quiet_sys) ''MCP_REMOTE_KUBECONFIG'' of
                       Some (c # cs) \<Rightarrow> c # cs
                     | _ \<Rightarrow> (case env (printing quiet_sys) ''KUBECONFIG'' of
                              Some path \<Rightarrow> path | None \<Rightarrow> ''undefined''))"
    by (simp add: quiet_sys_def example_sys_def)
  have t: "now quiet_sys a = 0" for a
    by (simp add: quiet_sys_def example_sys_def)
  have "(\<exists>w2.
     dispatch (recording (printing quiet_sys)) idle_handlers ''run_kube_burner''
       (JObj [(''testType'', JStr ''node-density''), (''iterations'', JNum (Num 2)),
              (''operation'', JStr ''create''), (''cleanup'', JBool False)]) (0, [])
     = Some (\<lparr>content =
                [\<lparr>ctype = ''text'',
                  ctext = ''Kube-burner create operation completed:\<newline>''
                    @ ''{\<newline>''
                    @ ''  \"testType\": \"node-density\",\<newline>''
                    @ ''  \"iterations\": 2,\<newline>''
                    @ ''  \"namespace\": \"kube-burner-test\",\<newline>''
                    @ ''  \"timeout\": \"10m\",\<newline>''
                    @ ''  \"operation\": \"create\",\<newline>''
                    @ ''  \"status\": \"Completed\",\<newline>''
                    @ ''  \"creation\": {\<newline>''
                    @ ''    \"podsCreated\": 20,\<newline>''
                    @ ''    \"testType\": \"node-density\",\<newline>''
                    @ ''    \"duration\": \"0s\",\<newline>''
                    @ ''    \"status\": \"Completed\"\<newline>''
                    @ ''  }\<newline>''
                    @ ''}''\<rparr>],
              isError = None\<rparr>,
             (w2,
              ''kubectl create namespace kube-burner-test --kubeconfig undefined''
              # map (\<lambda>number.
                       ''echo 'apiVersion: v1\<newline>kind: Pod\<newline>metadata:\<newline>''
                       @ ''  name: density-test-pod-'' @ number @ ''\<newline>''
                       @ ''  namespace: kube-burner-test\<newline>''
                       @ ''  labels:\<newline>''
                       @ ''    app: node-density-test\<newline>''
                       @ ''    test-iteration: \"'' @ number @ ''\"\<newline>''
                       @ ''spec:\<newline>''
                       @ ''  containers:\<newline>''
                       @ ''  - name: pause\<newline>''
                       @ ''    image: registry.k8s.io/pause:3.8\<newline>''
                       @ ''    resources:\<newline>''
                       @ ''      requests:\<newline>''
                       @ ''        memory: \"10Mi\"\<newline>''
                       @ ''        cpu: \"1m\"\<newline>''
                       @ ''      limits:\<newline>''
                       @ ''        memory: \"20Mi\"\<newline>''
                       @ ''        cpu: \"10m\"\<newline>''
                       @ ''  restartPolicy: Never' | kubectl apply -f - --kubeconfig undefined'')
                  ([''1'', ''2'', ''3'', ''4'', ''5''] @ [''6'', ''7'', ''8'', ''9'', ''10'']
                  @ [''11'', ''12'', ''13'', ''14'', ''15''] @ [''16'', ''17'', ''18'', ''19'', ''20'']))))"
    using node_density_two_iterations [OF h1 h2, of idle_handlers 0]
    by (simp add: t seconds_def show_int_def json_defs)
  with h1 h2 show ?thesis by blast
qed





subsection \<open>Kubelet diagnostics\<close>

lemma map_of_set_key: "map_of (set_key k v kvs) = (map_of kvs)(k \<mapsto> v)"
  by (induction kvs) (auto simp: fun_eq_iff)

lemma exec_stateless:
  assumes "\<forall>command w. fst (exec sys command w) = answer command"
  obtains w' where "exec sys c w = (answer c, w')"
  using assms by (metis prod.collapse)

lemma log_entry_shape:
  "line \<in> set ls \<Longrightarrow> is_issue_line line \<Longrightarrow>
     \<exists>stamp level.
       JObj [(''node'', n), (''timestamp'', JStr stamp), (''level'', JStr level), (''message'', JStr line)]
         \<in> old
       \<or> JObj [(''node'', n), (''timestamp'', JStr stamp), (''level'', JStr level), (''message'', JStr line)]
           \<in> log_entry n ` {x \<in> set ls. is_issue_line x}"
proof -
  assume "line \<in> set ls" "is_issue_line line"
  then have "log_entry n line \<in> log_entry n ` {x \<in> set ls. is_issue_line x}" by simp
  then show ?thesis unfolding log_entry_def by blast
qed

lemma node_turn_recorded:
  assumes st: "\<forall>command w. fst (exec sys command w) = answer command"
  shows "\<exists>f' w'. node_turn sys a hb inc (JStr name) f w = (Returned f', w')
           \<and> node_recorded sys answer a hb name f'
           \<and> (\<forall>k. k \<noteq> name \<longrightarrow> map_of (allKubeletStatus f') k = map_of (allKubeletStatus f) k)
           \<and> set (allKubeletLogs f) \<subseteq> set (allKubeletLogs f')"
proof -
  obtain w1 where e1: "exec sys (node_command a name statusCommand) w
                         = (answer (node_command a name statusCommand), w1)"
    using exec_stateless [OF st] by blast
  obtain w2 where e2: "exec sys (node_command a name (logsCommand hb)) w1
                         = (answer (node_command a name (logsCommand hb)), w2)"
    using exec_stateless [OF st] by blast
  obtain w3 where e3: "exec sys (node_command a name (systemCommand hb)) w2
                         = (answer (node_command a name (systemCommand hb)), w3)"
    using exec_stateless [OF st] by blast
  show ?thesis
  proof (cases "answer (node_command a name statusCommand)")
    case (Thrown e)
    then show ?thesis
      using e1
      by (auto simp add: node_turn_def probe_node_def try_catch_def bind_def inaccessible_def
          node_recorded_def map_of_set_key get_def Let_def)
  next
    case st: (Returned out)
    show ?thesis
    proof (cases "answer (node_command a name (logsCommand hb))")
      case (Thrown e)
      then show ?thesis
        using e1 e2 st
        by (auto simp add: node_turn_def probe_node_def try_catch_def bind_def inaccessible_def
            node_recorded_def map_of_set_key get_def Let_def)
    next
      case lg: (Returned lgout)
      show ?thesis
      proof (cases inc)
        case False
        then show ?thesis
          using e1 e2 st lg
          by (auto simp add: node_turn_def probe_node_def try_catch_def bind_def returns_def
              node_recorded_def map_of_set_key log_entry_shape Let_def)
      next
        case True
        then show ?thesis
          using e1 e2 e3 st lg
          by (cases "answer (node_command a name (systemCommand hb))")
            (auto simp add: node_turn_def probe_node_def try_catch_def bind_def returns_def
              node_recorded_def map_of_set_key log_entry_shape Let_def)
      qed
    qed
  qed
qed

lemma node_recorded_kept:
  assumes "node_recorded sys answer a hb name f"
    and "map_of (allKubeletStatus f') name = map_of (allKubeletStatus f) name"
    and "set (allKubeletLogs f) \<subseteq> set (allKubeletLogs f')"
  shows "node_recorded sys answer a hb name f'"
  using assms unfolding node_recorded_def
  by (auto split: outcome.splits) (meson subsetD)+

lemma kubelet_loop_recorded:
  assumes st: "\<forall>command w. fst (exec sys command w) = answer command"
  shows "list_all2 (\<lambda>item name. node_metadata_name item = Returned (JStr name)) items names
         \<Longrightarrow> distinct names
         \<Longrightarrow> \<exists>f' w'. kubelet_loop sys a hb inc items f w = (Returned f', w')
               \<and> (\<forall>name \<in> set names. node_recorded sys answer a hb name f')
               \<and> (\<forall>k. k \<notin> set names \<longrightarrow> map_of (allKubeletStatus f') k = map_of (allKubeletStatus f) k)
               \<and> set (allKubeletLogs f) \<subseteq> set (allKubeletLogs f')"
proof (induction items names arbitrary: f w rule: list_all2_induct)
  case Nil
  then show ?case by (simp add: returns_def)
next
  case (Cons item items name names)
  from node_turn_recorded [OF st, of a hb inc name f w]
  obtain f1 w1 where
    t: "node_turn sys a hb inc (JStr name) f w = (Returned f1, w1)"
    and r1: "node_recorded sys answer a hb name f1"
    and k1: "\<forall>k. k \<noteq> name \<longrightarrow> map_of (allKubeletStatus f1) k = map_of (allKubeletStatus f) k"
    and l1: "set (allKubeletLogs f) \<subseteq> set (allKubeletLogs f1)"
    by blast
  from Cons.prems have d: "distinct names" and nn: "name \<notin> set names" by simp_all
  from Cons.IH [OF d, of f1 w1]
  obtain f' w' where
    l: "kubelet_loop sys a hb inc items f1 w1 = (Returned f', w')"
    and r2: "\<forall>n \<in> set names. node_recorded sys answer a hb n f'"
    and k2: "\<forall>k. k \<notin> set names \<longrightarrow> map_of (allKubeletStatus f') k = map_of (allKubeletStatus f1) k"
    and l2: "set (allKubeletLogs f1) \<subseteq> set (allKubeletLogs f')"
    by blast
  have "node_recorded sys answer a hb name f'"
    using r1 k2 nn l2 by (intro node_recorded_kept [of sys answer a hb name f1 f']) auto
  moreover have "kubelet_loop sys a hb inc (item # items) f w = (Returned f', w')"
    using Cons.hyps(1) t l by (simp add: bind_def)
  ultimately show ?case
    using r2 k1 k2 l1 l2 by auto
qed

text \<open>
  C7. In the loop over the nodes of the kubelet status check, a failure of the status probe
  or of the log query of one node is recorded as an inaccessible entry for that node and
  does not end the work on the other nodes; the handler returns. Here the answer to a
  command depends on the command alone, and the nodes have distinct names: the handler
  returns its report, whose payload is spelled out, and in it every node whose probe or
  log query failed is marked \<open>inaccessible\<close> with an error entry that carries the message,
  and every other node has the trimmed output of its probe as status and its issue lines
  as entries. With three nodes of which the second fails, the report holds the findings
  of the first and of the third.
\<close>

theorem partial_failure_contained:
  assumes "\<forall>command w. fst (exec sys command w) = answer command"
    and "answer (getNodesCmd (kubelet_access sys)) = Returned listing"
    and "json_parse sys (stdout listing) = Returned nodes"
    and "get nodes ''items'' = JArr items"
    and "items \<noteq> []"
    and "list_all2 (\<lambda>item name. node_metadata_name item = Returned (JStr name)) items names"
    and "distinct names"
    and "hours = to_str (numberToString sys) (if hoursBack = JUndefined then JNum (Num 24) else hoursBack)"
  shows "\<exists>status logs errors w'.
     checkKubeletStatus sys hoursBack includeSystemErrors w
       = (Returned
            \<lparr>content =
               [\<lparr>ctype = ''text'',
                 ctext = ''Kubelet Status Report:\<newline>''
                   @ stringify sys
                       (JObj [(''nodesChecked'', JNum (Num (of_nat (length items)))),
                                (''status'', JObj status),
                                (''logsAnalyzed'', JNum (Num (of_nat (length logs)))),
                                (''systemErrors'',
                                   if truthy includeSystemErrors then JNum (Num (of_nat (length errors)))
                                   else JStr ''not_requested''),
                                (''recentIssues'', JArr (take 10 logs)),
                                (''systemIssues'',
                                   if truthy includeSystemErrors then JArr (take 5 errors) else JArr [])])\<rparr>],
             isError = None\<rparr>, w')
     \<and> (\<forall>name \<in> set names.
          (\<forall>e. answer (node_command (kubelet_access sys) name statusCommand) = Thrown e
             \<longrightarrow> map_of status name = Some (JStr ''inaccessible'')
                 \<and> (\<exists>t. JObj [(''node'', JStr name),
                               (''timestamp'', JStr (toISOString sys t)),
                               (''level'', JStr ''error''),
                               (''message'',
                                  JStr (''Cannot access kubelet service on node '' @ name @ '': ''
                                          @ message e))]
                           \<in> set logs))
          \<and> (\<forall>st e. answer (node_command (kubelet_access sys) name statusCommand) = Returned st
                \<and> answer (node_command (kubelet_access sys) name (logsCommand hours)) = Thrown e
             \<longrightarrow> map_of status name = Some (JStr ''inaccessible'')
                 \<and> (\<exists>t. JObj [(''node'', JStr name),
                               (''timestamp'', JStr (toISOString sys t)),
                               (''level'', JStr ''error''),
                               (''message'',
                                  JStr (''Cannot access kubelet service on node '' @ name @ '': ''
                                          @ message e))]
                           \<in> set logs))
          \<and> (\<forall>st lg. answer (node_command (kubelet_access sys) name statusCommand) = Returned st
                \<and> answer (node_command (kubelet_access sys) name (logsCommand hours)) = Returned lg
             \<longrightarrow> map_of status name = Some (JStr (trim (stdout st)))
                 \<and> (\<forall>line \<in> set (filter is_issue_line (nonblank_lines (stdout lg))).
                       \<exists>stamp level.
                         JObj [(''node'', JStr name), (''timestamp'', JStr stamp), (''level'', JStr level),
                               (''message'', JStr line)]
                           \<in> set logs)))"
proof -
  let ?a = "kubelet_access sys"
  let ?f0 = "\<lparr>allKubeletStatus = [], allKubeletLogs = [], allSystemErrors = []\<rparr>"
  obtain w1 where e: "exec sys (getNodesCmd ?a) w = (Returned listing, w1)"
    using exec_stateless [OF assms(1), of "getNodesCmd ?a" w] assms(2) by auto
  have ni: "node_items nodes = Returned items"
    using assms(4,5) by (cases nodes) (auto simp: node_items_def get_def truthy_def)
  from kubelet_loop_recorded [OF assms(1) assms(6) assms(7), of ?a hours "truthy includeSystemErrors" ?f0 w1]
  obtain f w' where
    l: "kubelet_loop sys ?a hours (truthy includeSystemErrors) items ?f0 w1 = (Returned f, w')"
    and r: "\<forall>name \<in> set names. node_recorded sys answer ?a hours name f"
    by blast
  define status where "status = allKubeletStatus f"
  define logs where "logs = allKubeletLogs f"
  define errors where "errors = allSystemErrors f"
  have "checkKubeletStatus sys hoursBack includeSystemErrors w
       = (Returned
            \<lparr>content =
               [\<lparr>ctype = ''text'',
                 ctext = ''Kubelet Status Report:\<newline>''
                   @ stringify sys
                       (JObj [(''nodesChecked'', JNum (Num (of_nat (length items)))),
                                (''status'', JObj status),
                                (''logsAnalyzed'', JNum (Num (of_nat (length logs)))),
                                (''systemErrors'',
                                   if truthy includeSystemErrors then JNum (Num (of_nat (length errors)))
                                   else JStr ''not_requested''),
                                (''recentIssues'', JArr (take 10 logs)),
                                (''systemIssues'',
                                   if truthy includeSystemErrors then JArr (take 5 errors) else JArr [])])\<rparr>],
             isError = None\<rparr>, w')"
    using e ni l assms(3)
    by (simp add: checkKubeletStatus_def assms(8) [symmetric] try_catch_def bind_def returns_def Let_def
        kubelet_report_def text_result_def nat_num_def NL_def status_def logs_def errors_def)
  moreover have "(\<forall>e. answer (node_command ?a name statusCommand) = Thrown e
             \<longrightarrow> map_of status name = Some (JStr ''inaccessible'')
                 \<and> (\<exists>t. JObj [(''node'', JStr name),
                               (''timestamp'', JStr (toISOString sys t)),
                               (''level'', JStr ''error''),
                               (''message'',
                                  JStr (''Cannot access kubelet service on node '' @ name @ '': ''
                                          @ message e))]
                           \<in> set logs))
          \<and> (\<forall>st e. answer (node_command ?a name statusCommand) = Returned st
                \<and> answer (node_command ?a name (logsCommand hours)) = Thrown e
             \<longrightarrow> map_of status name = Some (JStr ''inaccessible'')
                 \<and> (\<exists>t. JObj [(''node'', JStr name),
                               (''timestamp'', JStr (toISOString sys t)),
                               (''level'', JStr ''error''),
                               (''message'',
                                  JStr (''Cannot access kubelet service on node '' @ name @ '': ''
                                          @ message e))]
                           \<in> set logs))
          \<and> (\<forall>st lg. answer (node_command ?a name statusCommand) = Returned st
                \<and> answer (node_command ?a name (logsCommand hours)) = Returned lg
             \<longrightarrow> map_of status name = Some (JStr (trim (stdout st)))
                 \<and> (\<forall>line \<in> set (filter is_issue_line (nonblank_lines (stdout lg))).
                       \<exists>stamp level.
                         JObj [(''node'', JStr name), (''timestamp'', JStr stamp), (''level'', JStr level),
                               (''message'', JStr line)]
                           \<in> set logs))"
    if "name \<in> set names" for name
  proof -
    from r that have "node_recorded sys answer ?a hours name f" by blast
    then show ?thesis
      unfolding node_recorded_def status_def logs_def
      by (cases "answer (node_command ?a name statusCommand)";
          cases "answer (node_command ?a name (logsCommand hours))") auto
  qed
  ultimately show ?thesis by blast
qed

theorem partial_failure_contained_witness:
  "(\<forall>command w. fst (exec three_nodes_sys command w) = second_node_down command)
   \<and> second_node_down (getNodesCmd (kubelet_access three_nodes_sys))
        = Returned \<lparr>stdout = ''{\"items\":[{\"metadata\":{\"name\":\"n1\"}},{\"metadata\":{\"name\":\"n2\"}},''
                              @ ''{\"metadata\":{\"name\":\"n3\"}}]}'',
                    stderr = []\<rparr>
   \<and> json_parse three_nodes_sys
         (''{\"items\":[{\"metadata\":{\"name\":\"n1\"}},{\"metadata\":{\"name\":\"n2\"}},''
                              @ ''{\"metadata\":{\"name\":\"n3\"}}]}'')
        = Returned (JObj [(''items'', JArr [node_named ''n1'', node_named ''n2'', node_named ''n3''])])
   \<and> list_all2 (\<lambda>item name. node_metadata_name item = Returned (JStr name))
         [node_named ''n1'', node_named ''n2'', node_named ''n3''] [''n1'', ''n2'', ''n3'']
   \<and> distinct [''n1'', ''n2'', ''n3'']
   \<and> second_node_down (node_command (kubelet_access three_nodes_sys) ''n2'' statusCommand)
        = Thrown (Error ''Command failed: timeout'' (Some []) (Some []))
   \<and> (\<exists>status logs errors w'.
         checkKubeletStatus three_nodes_sys (JNum (Num 24)) (JBool False) 0
           = (Returned
                \<lparr>content =
                   [\<lparr>ctype = ''text'',
                     ctext = ''Kubelet Status Report:\<newline>''
                       @ stringify three_nodes_sys
                           (JObj [(''nodesChecked'', JNum (Num 3)),
                                  (''status'', JObj status),
                                  (''logsAnalyzed'', JNum (Num (of_nat (length logs)))),
                                  (''systemErrors'', JStr ''not_requested''),
                                  (''recentIssues'', JArr (take 10 logs)),
                                  (''systemIssues'', JArr [])])\<rparr>],
                 isError = None\<rparr>, w')
         \<and> map_of status ''n1'' = Some (JStr ''active'')
         \<and> map_of status ''n2'' = Some (JStr ''inaccessible'')
         \<and> map_of status ''n3'' = Some (JStr ''active'')
         \<and> (\<exists>t. JObj [(''node'', JStr ''n2''),
                       (''timestamp'', JStr (toISOString three_nodes_sys t)),
                       (''level'', JStr ''error''),
                       (''message'', JStr ''Cannot access kubelet service on node n2: Command failed: timeout'')]
                   \<in> set logs)
         \<and> (\<exists>stamp level.
               JObj [(''node'', JStr ''n3''), (''timestamp'', JStr stamp), (''level'', JStr level),
                     (''message'', JStr ''Jan 5 10:21:00 n3 kubelet: warning: slow start'')]
                 \<in> set logs))
   \<and> checkKubeletStatus three_nodes_sys (JNum (Num 24)) (JBool False) 0
       = (Returned
            \<lparr>content =
               [\<lparr>ctype = ''text'',
                 ctext = ''Kubelet Status Report:\<newline>''
                   @ ''{\<newline>''
                   @ ''  \"nodesChecked\": 3,\<newline>''
                   @ ''  \"status\": {\<newline>''
                   @ ''    \"n1\": \"active\",\<newline>''
                   @ ''    \"n2\": \"inaccessible\",\<newline>''
                   @ ''    \"n3\": \"active\"\<newline>''
                   @ ''  },\<newline>''
                   @ ''  \"logsAnalyzed\": 3,\<newline>''
                   @ ''  \"systemErrors\": \"not_requested\",\<newline>''
                   @ ''  \"recentIssues\": [\<newline>''
                   @ ''    {\<newline>''
                   @ ''      \"node\": \"n1\",\<newline>''
                   @ ''      \"timestamp\": \"Jan 5 10:20:30\",\<newline>''
                   @ ''      \"level\": \"error\",\<newline>''
                   @ ''      \"message\": \"Jan 5 10:20:30 n1 kubelet: error syncing pod\"\<newline>''
                   @ ''    },\<newline>''
                   @ ''    {\<newline>''
                   @ ''      \"node\": \"n2\",\<newline>''
                   @ ''      \"timestamp\": \"1970-01-01T00:00:00.000Z\",\<newline>''
                   @ ''      \"level\": \"error\",\<newline>''
                   @ ''      \"message\": \"Cannot access kubelet service on node n2: ''
                   @ ''Command failed: timeout\"\<newline>''
                   @ ''    },\<newline>''
                   @ ''    {\<newline>''
                   @ ''      \"node\": \"n3\",\<newline>''
                   @ ''      \"timestamp\": \"Jan 5 10:21:00\",\<newline>''
                   @ ''      \"level\": \"warning\",\<newline>''
                   @ ''      \"message\": \"Jan 5 10:21:00 n3 kubelet: warning: slow start\"\<newline>''
                   @ ''    }\<newline>''
                   @ ''  ],\<newline>''
                   @ ''  \"systemIssues\": []\<newline>''
                   @ ''}''\<rparr>],
             isError = None\<rparr>, 6)"
proof -
  let ?items = "[node_named ''n1'', node_named ''n2'', node_named ''n3'']"
  let ?a = "kubelet_access three_nodes_sys"
  have h1: "\<forall>command w. fst (exec three_nodes_sys command w) = second_node_down command"
    by (simp add: three_nodes_sys_def example_sys_def)
  let ?listing = "''{\"items\":[{\"metadata\":{\"name\":\"n1\"}},{\"metadata\":{\"name\":\"n2\"}},''
                              @ ''{\"metadata\":{\"name\":\"n3\"}}]}''"
  have h2: "second_node_down (getNodesCmd ?a) = Returned \<lparr>stdout = ?listing, stderr = []\<rparr>"
    by (simp add: three_nodes_defs NL_def)
  have h3: "json_parse three_nodes_sys (stdout \<lparr>stdout = ?listing, stderr = []\<rparr>)
              = Returned (JObj [(''items'', JArr ?items)])"
    by (simp add: three_nodes_sys_def example_sys_def)
  have h4: "get (JObj [(''items'', JArr ?items)]) ''items'' = JArr ?items"
    by (simp add: get_def)
  have h5: "?items \<noteq> []" by simp
  have h6: "list_all2 (\<lambda>item name. node_metadata_name item = Returned (JStr name)) ?items
              [''n1'', ''n2'', ''n3'']"
    by (simp add: node_named_def node_metadata_name_def get_def)
  have h7: "distinct [''n1'', ''n2'', ''n3'']" by simp
  have h8: "''24'' = to_str (numberToString three_nodes_sys)
                       (if JNum (Num 24) = JUndefined then JNum (Num 24) else JNum (Num 24))"
    by (simp add: num_to_str_def show_nat.simps)
  have s1: "second_node_down (node_command ?a ''n1'' statusCommand)
              = Returned \<lparr>stdout = ''active\<newline>'', stderr = []\<rparr>"
    and l1: "second_node_down (node_command ?a ''n1'' (logsCommand ''24''))
              = Returned \<lparr>stdout = ''Jan 5 10:20:30 n1 kubelet: error syncing pod\<newline>'', stderr = []\<rparr>"
    and s2: "second_node_down (node_command ?a ''n2'' statusCommand)
              = Thrown (Error ''Command failed: timeout'' (Some []) (Some []))"
    and s3: "second_node_down (node_command ?a ''n3'' statusCommand)
              = Returned \<lparr>stdout = ''active\<newline>'', stderr = []\<rparr>"
    and l3: "second_node_down (node_command ?a ''n3'' (logsCommand ''24''))
              = Returned \<lparr>stdout = ''Jan 5 10:21:00 n3 kubelet: warning: slow start\<newline>'', stderr = []\<rparr>"
    by (simp_all add: three_nodes_defs NL_def)
  have t: "trim ''active\<newline>'' = ''active''"
    by (simp add: trim_def is_space_def)
  have i3: "''Jan 5 10:21:00 n3 kubelet: warning: slow start''
              \<in> set (filter is_issue_line
                       (nonblank_lines ''Jan 5 10:21:00 n3 kubelet: warning: slow start\<newline>''))"
    by (simp add: nonblank_lines_def is_issue_line_def trim_def is_space_def NL_def toLowerCase_def
        to_lower_def char_of_eq_iff)
  from partial_failure_contained [OF h1 h2 h3 h4 h5 h6 h7 h8, of "JBool False" 0]
  obtain status logs errors w' where
    r: "checkKubeletStatus three_nodes_sys (JNum (Num 24)) (JBool False) 0
           = (Returned
                \<lparr>content =
                   [\<lparr>ctype = ''text'',
                     ctext = ''Kubelet Status Report:\<newline>''
                       @ stringify three_nodes_sys
                           (JObj [(''nodesChecked'', JNum (Num (of_nat (length ?items)))),
                                  (''status'', JObj status),
                                  (''logsAnalyzed'', JNum (Num (of_nat (length logs)))),
                                  (''systemErrors'',
                                     if truthy (JBool False) then JNum (Num (of_nat (length errors)))
                                     else JStr ''not_requested''),
                                  (''recentIssues'', JArr (take 10 logs)),
                                  (''systemIssues'',
                                     if truthy (JBool False) then JArr (take 5 errors) else JArr [])])\<rparr>],
                 isError = None\<rparr>, w')"
    and every: "\<forall>name \<in> set [''n1'', ''n2'', ''n3''].
          (\<forall>e. second_node_down (node_command ?a name statusCommand) = Thrown e
             \<longrightarrow> map_of status name = Some (JStr ''inaccessible'')
                 \<and> (\<exists>t. JObj [(''node'', JStr name),
                               (''timestamp'', JStr (toISOString three_nodes_sys t)),
                               (''level'', JStr ''error''),
                               (''message'',
                                  JStr (''Cannot access kubelet service on node '' @ name @ '': ''
                                          @ message e))]
                           \<in> set logs))
          \<and> (\<forall>st e. second_node_down (node_command ?a name statusCommand) = Returned st
                \<and> second_node_down (node_command ?a name (logsCommand ''24'')) = Thrown e
             \<longrightarrow> map_of status name = Some (JStr ''inaccessible'')
                 \<and> (\<exists>t. JObj [(''node'', JStr name),
                               (''timestamp'', JStr (toISOString three_nodes_sys t)),
                               (''level'', JStr ''error''),
                               (''message'',
                                  JStr (''Cannot access kubelet service on node '' @ name @ '': ''
                                          @ message e))]
                           \<in> set logs))
          \<and> (\<forall>st lg. second_node_down (node_command ?a name statusCommand) = Returned st
                \<and> second_node_down (node_command ?a name (logsCommand ''24'')) = Returned lg
             \<longrightarrow> map_of status name = Some (JStr (trim (stdout st)))
                 \<and> (\<forall>line \<in> set (filter is_issue_line (nonblank_lines (stdout lg))).
                       \<exists>stamp level.
                         JObj [(''node'', JStr name), (''timestamp'', JStr stamp), (''level'', JStr level),
                               (''message'', JStr line)]
                           \<in> set logs))"
    by blast
  have n1: "\<forall>st lg. second_node_down (node_command ?a ''n1'' statusCommand) = Returned st
                \<and> second_node_down (node_command ?a ''n1'' (logsCommand ''24'')) = Returned lg
             \<longrightarrow> map_of status ''n1'' = Some (JStr (trim (stdout st)))"
    using every by simp
  have n2: "\<forall>e. second_node_down (node_command ?a ''n2'' statusCommand) = Thrown e
             \<longrightarrow> map_of status ''n2'' = Some (JStr ''inaccessible'')
                 \<and> (\<exists>t. JObj [(''node'', JStr ''n2''),
                               (''timestamp'', JStr (toISOString three_nodes_sys t)),
                               (''level'', JStr ''error''),
                               (''message'',
                                  JStr (''Cannot access kubelet service on node '' @ ''n2'' @ '': ''
                                          @ message e))]
                           \<in> set logs)"
    using every by simp
  have n3: "\<forall>st lg. second_node_down (node_command ?a ''n3'' statusCommand) = Returned st
                \<and> second_node_down (node_command ?a ''n3'' (logsCommand ''24'')) = Returned lg
             \<longrightarrow> map_of status ''n3'' = Some (JStr (trim (stdout st)))
                 \<and> (\<forall>line \<in> set (filter is_issue_line (nonblank_lines (stdout lg))).
                       \<exists>stamp level.
                         JObj [(''node'', JStr ''n3''), (''timestamp'', JStr stamp), (''level'', JStr level),
                               (''message'', JStr line)]
                           \<in> set logs)"
    using every by simp
  have a1: "map_of status ''n1'' = Some (JStr ''active'')"
    using n1 s1 l1 t by simp
  have a2: "map_of status ''n2'' = Some (JStr ''inaccessible'')"
    and b2: "\<exists>t. JObj [(''node'', JStr ''n2''),
                       (''timestamp'', JStr (toISOString three_nodes_sys t)),
                       (''level'', JStr ''error''),
                       (''message'', JStr ''Cannot access kubelet service on node n2: Command failed: timeout'')]
                   \<in> set logs"
    using n2 s2 by simp_all
  have a3: "map_of status ''n3'' = Some (JStr ''active'')"
    using n3 s3 l3 t by simp
  have b3: "\<exists>stamp level.
               JObj [(''node'', JStr ''n3''), (''timestamp'', JStr stamp), (''level'', JStr level),
                     (''message'', JStr ''Jan 5 10:21:00 n3 kubelet: warning: slow start'')]
                 \<in> set logs"
  proof -
    from n3 s3 l3 have "\<forall>line \<in> set (filter is_issue_line
                       (nonblank_lines ''Jan 5 10:21:00 n3 kubelet: warning: slow start\<newline>'')).
                       \<exists>stamp level.
                         JObj [(''node'', JStr ''n3''), (''timestamp'', JStr stamp), (''level'', JStr level),
                               (''message'', JStr line)]
                           \<in> set logs"
      by simp
    with i3 show ?thesis by blast
  qed
  have r': "checkKubeletStatus three_nodes_sys (JNum (Num 24)) (JBool False) 0
           = (Returned
                \<lparr>content =
                   [\<lparr>ctype = ''text'',
                     ctext = ''Kubelet Status Report:\<newline>''
                       @ stringify three_nodes_sys
                           (JObj [(''nodesChecked'', JNum (Num 3)),
                                  (''status'', JObj status),
                                  (''logsAnalyzed'', JNum (Num (of_nat (length logs)))),
                                  (''systemErrors'', JStr ''not_requested''),
                                  (''recentIssues'', JArr (take 10 logs)),
                                  (''systemIssues'', JArr [])])\<rparr>],
                 isError = None\<rparr>, w')"
    using r by (simp add: truthy_def)
  have ex: "(\<exists>status logs errors w'.
         checkKubeletStatus three_nodes_sys (JNum (Num 24)) (JBool False) 0
           = (Returned
                \<lparr>content =
                   [\<lparr>ctype = ''text'',
                     ctext = ''Kubelet Status Report:\<newline>''
                       @ stringify three_nodes_sys
                           (JObj [(''nodesChecked'', JNum (Num 3)),
                                  (''status'', JObj status),
                                  (''logsAnalyzed'', JNum (Num (of_nat (length logs)))),
                                  (''systemErrors'', JStr ''not_requested''),
                                  (''recentIssues'', JArr (take 10 logs)),
                                  (''systemIssues'', JArr [])])\<rparr>],
                 isError = None\<rparr>, w')
         \<and> map_of status ''n1'' = Some (JStr ''active'')
         \<and> map_of status ''n2'' = Some (JStr ''inaccessible'')
         \<and> map_of status ''n3'' = Some (JStr ''active'')
         \<and> (\<exists>t. JObj [(''node'', JStr ''n2''),
                       (''timestamp'', JStr (toISOString three_nodes_sys t)),
                       (''level'', JStr ''error''),
                       (''message'', JStr ''Cannot access kubelet service on node n2: Command failed: timeout'')]
                   \<in> set logs)
         \<and> (\<exists>stamp level.
               JObj [(''node'', JStr ''n3''), (''timestamp'', JStr stamp), (''level'', JStr level),
                     (''message'', JStr ''Jan 5 10:21:00 n3 kubelet: warning: slow start'')]
                 \<in> set logs))"
    using r' a1 a2 a3 b2 b3 by blast
  show ?thesis
    using h1 h2 h3 h6 h7 s2 ex three_nodes_report by simp
qed


subsection \<open>Error sanitization\<close>

lemma stops_lower: "stops d \<Longrightarrow> lower d = d"
  by (auto simp: stops_def is_space_def lower_def)

lemma keylikeI:
  assumes "key \<noteq> []" "\<forall>c \<in> set key. lower c = c \<and> \<not> stops c"
  shows "keylike key"
  unfolding keylike_def
proof (intro conjI ballI allI impI)
  show "key \<noteq> []" by fact
next
  fix c d assume c: "c \<in> set key" and e: "lower d = lower c"
  show "\<not> stops d"
  proof
    assume s: "stops d"
    then have "d = lower c" using e stops_lower by simp
    with assms(2) c s show False by auto
  qed
qed

lemma keylike_keys: "keylike ''token''" "keylike ''password''" "keylike ''secret''"
  by (rule keylikeI; simp add: lower_def stops_def is_space_def)+

lemma ci_prefix_window:
  "ci_prefix k s \<longleftrightarrow> map lower (take (length k) s) = map lower k"
  by (induction k s rule: ci_prefix.induct) auto

lemma ci_prefix_run: "keylike k \<Longrightarrow> ci_prefix k s \<Longrightarrow> run (take (length k) s)"
proof -
  assume k: "keylike k" and p: "ci_prefix k s"
  then have m: "map lower (take (length k) s) = map lower k" by (simp add: ci_prefix_window)
  show ?thesis
    unfolding run_def
  proof
    fix c assume "c \<in> set (take (length k) s)"
    then obtain i where i: "i < length (take (length k) s)" "take (length k) s ! i = c"
      by (auto simp: in_set_conv_nth)
    from m have l: "length (take (length k) s) = length k" by (metis length_map)
    from m i l have "lower c = lower (k ! i)"
      by (metis nth_map)
    moreover have "k ! i \<in> set k" using i l by simp
    ultimately show "\<not> stops c" using k by (auto simp: keylike_def)
  qed
qed

lemma keylike_run: "keylike k \<Longrightarrow> run k"
  by (auto simp: keylike_def run_def)

lemma run_REDACTED: "run ''[REDACTED]''"
  by (simp add: run_def stops_def is_space_def)

lemma run_append [simp]: "run (a @ b) \<longleftrightarrow> run a \<and> run b"
  by (auto simp: run_def)

lemma run_Cons [simp]: "run (c # cs) \<longleftrightarrow> \<not> stops c \<and> run cs"
  by (auto simp: run_def)

lemma run_Nil [simp]: "run []"
  by (simp add: run_def)

lemma run_dropWhile: "run r \<Longrightarrow> dropWhile (\<lambda>x. \<not> stops x) (r @ z) = dropWhile (\<lambda>x. \<not> stops x) z"
  by (induction r) auto

lemma headed_dropWhile: "headed z \<Longrightarrow> dropWhile (\<lambda>x. \<not> stops x) z = z"
  by (cases z) (auto simp: headed_def)

lemma ci_prefix_length: "ci_prefix k s \<Longrightarrow> length k \<le> length s"
  by (induction k s rule: ci_prefix.induct) auto

lemma ci_prefix_append: "length k \<le> length r \<Longrightarrow> ci_prefix k (r @ z) = ci_prefix k r"
  by (simp add: ci_prefix_window)

lemma ci_prefix_inside:
  assumes k: "keylike k" and r: "run r" and z: "headed z" and p: "ci_prefix k (r @ z)"
  shows "length k \<le> length r"
proof (rule ccontr)
  assume "\<not> length k \<le> length r"
  then have l: "length r < length k" by simp
  from p have "length k \<le> length (r @ z)" by (rule ci_prefix_length)
  with l obtain d zs where d: "z = d # zs" by (cases z) auto
  with z have "stops d" by (simp add: headed_def)
  moreover have "take (length k - length r) z = d # take (length k - length r - 1) zs"
    using l d by (cases "length k - length r") simp_all
  then have "d \<in> set (take (length k) (r @ z))"
    by simp
  ultimately show False
    using ci_prefix_run [OF k p] by (auto simp: run_def)
qed

lemma redact_stop: "keylike k \<Longrightarrow> stops d \<Longrightarrow> redact k (d # z) = d # redact k z"
  by (cases k) (auto simp: keylike_def)

lemma redact_on_run: "keylike k \<Longrightarrow> run r \<Longrightarrow> redact k r = redact_run k r"
proof (induction r)
  case Nil
  then show ?case by simp
next
  case (Cons c cs)
  then have "run (drop (length k) (c # cs))"
    by (metis append_take_drop_id run_append)
  then have dw: "dropWhile (\<lambda>x. \<not> stops x) (drop (length k) (c # cs)) = []"
    using run_dropWhile [of "drop (length k) (c # cs)" "[]"] by simp
  from Cons show ?case by (auto simp: keylike_def dw)
qed

lemma redact_split:
  "keylike k \<Longrightarrow> run r \<Longrightarrow> headed z \<Longrightarrow> redact k (r @ z) = redact_run k r @ redact k z"
proof (induction r)
  case Nil
  then show ?case by simp
next
  case (Cons c cs)
  show ?case
  proof (cases "ci_prefix k (c # cs @ z)")
    case True
    then have l: "length k \<le> length (c # cs)"
      using ci_prefix_inside [OF Cons.prems(1) Cons.prems(2) Cons.prems(3)] by simp
    then have p: "ci_prefix k (c # cs)"
      using True ci_prefix_append [of k "c # cs" z] by simp
    have "drop (length k) ((c # cs) @ z) = drop (length k) (c # cs) @ z"
      using l by (simp only: drop_append) simp
    then have "drop (length k) (c # cs @ z) = drop (length k) (c # cs) @ z"
      by simp
    moreover have "run (drop (length k) (c # cs))"
      using Cons.prems(2) by (metis append_take_drop_id run_append)
    ultimately have "dropWhile (\<lambda>x. \<not> stops x) (drop (length k) (c # cs @ z)) = z"
      using run_dropWhile headed_dropWhile [OF Cons.prems(3)] by simp
    with True p Cons.prems(1) show ?thesis by (simp add: keylike_def)
  next
    case False
    have "\<not> ci_prefix k (c # cs)"
    proof
      assume p: "ci_prefix k (c # cs)"
      then have "length k \<le> length (c # cs)" by (rule ci_prefix_length)
      with p False show False using ci_prefix_append [of k "c # cs" z] by simp
    qed
    with False Cons show ?thesis by simp
  qed
qed

lemma run_redact_run: "keylike k \<Longrightarrow> run r \<Longrightarrow> run (redact_run k r)"
  by (induction r) (auto simp: keylike_run stops_def is_space_def)

lemma headed_redact: "keylike k \<Longrightarrow> headed z \<Longrightarrow> headed (redact k z)"
  by (cases z) (simp_all add: headed_def redact_stop del: redact.simps(2))

text \<open>One pass, twice.\<close>

lemma redact_run_window:
  "n \<le> length k \<Longrightarrow> map lower (take n (redact_run k s)) = map lower (take n s)"
proof (induction s arbitrary: n)
  case Nil
  then show ?case by simp
next
  case (Cons c cs)
  show ?case
  proof (cases "ci_prefix k (c # cs)")
    case True
    then have "map lower (take (length k) (c # cs)) = map lower k" by (simp add: ci_prefix_window)
    then have "take n (map lower (take (length k) (c # cs))) = take n (map lower k)" by simp
    then have "map lower (take n (c # cs)) = map lower (take n k)"
      using Cons.prems by (simp add: take_map min_def)
    with True Cons.prems show ?thesis by simp
  next
    case False
    with Cons show ?thesis by (cases n) auto
  qed
qed

lemma redact_run_twice: "k \<noteq> [] \<Longrightarrow> redact_run k (redact_run k r) = redact_run k r"
proof (induction r)
  case Nil
  then show ?case by simp
next
  case (Cons c cs)
  show ?case
  proof (cases "ci_prefix k (c # cs)")
    case True
    have "ci_prefix k (k @ ''[REDACTED]'')" by (simp add: ci_prefix_window)
    with True Cons.prems show ?thesis by (cases k) auto
  next
    case False
    have "\<not> ci_prefix k (c # redact_run k cs)"
    proof
      assume "ci_prefix k (c # redact_run k cs)"
      then have "map lower (take (length k) (c # redact_run k cs)) = map lower k"
        by (simp add: ci_prefix_window)
      moreover have "map lower (take (length k) (c # redact_run k cs)) = map lower (take (length k) (c # cs))"
        using Cons.prems redact_run_window [of "length k - 1" k cs] by (cases k) auto
      ultimately show False using False by (simp add: ci_prefix_window)
    qed
    with False Cons show ?thesis by simp
  qed
qed

text \<open>A pass behind another one keeps what the first one has reached.\<close>

lemma ci_prefix_drop: "ci_prefix k (a @ b) \<Longrightarrow> length a \<le> length k \<Longrightarrow> ci_prefix (drop (length a) k) b"
proof (induction k "a @ b" arbitrary: a rule: ci_prefix.induct)
  case (1 s)
  then show ?case by simp
next
  case (2 k ks)
  then show ?case by simp
next
  case (3 k ks c cs)
  then show ?case by (cases a) auto
qed

lemma overlapsI: "1 \<le> i \<Longrightarrow> i < length k \<Longrightarrow> ci_prefix (drop i k) s \<Longrightarrow> overlaps k s"
  by (auto simp: overlaps_def list_ex_iff)

lemma ci_prefix_behind:
  "ci_prefix k (a @ redact_run k' s)
   \<Longrightarrow> ci_prefix k (a @ s)
       \<or> (\<exists>i. length a \<le> i \<and> i < length k \<and> ci_prefix (drop i k) (k' @ ''[REDACTED]''))"
proof (induction s arbitrary: a)
  case Nil
  then show ?case by simp
next
  case (Cons c cs)
  show ?case
  proof (cases "ci_prefix k' (c # cs)")
    case True
    with Cons.prems have p: "ci_prefix k (a @ k' @ ''[REDACTED]'')" by simp
    show ?thesis
    proof (cases "length k \<le> length a")
      case True
      then show ?thesis using p by (simp add: ci_prefix_append)
    next
      case False
      then have "ci_prefix (drop (length a) k) (k' @ ''[REDACTED]'')"
        using ci_prefix_drop [OF p] by simp
      with False show ?thesis by auto
    qed
  next
    case False
    with Cons.prems have "ci_prefix k ((a @ [c]) @ redact_run k' cs)" by simp
    from Cons.IH [OF this] show ?thesis by auto
  qed
qed

lemma redact_run_kept:
  assumes k: "k \<noteq> []"
    and c1: "redact_run k (k' @ ''[REDACTED]'') = k' @ ''[REDACTED]''"
    and c2: "redact_run k' (k @ ''[REDACTED]'') = k @ ''[REDACTED]''"
    and c3: "\<not> overlaps k (k' @ ''[REDACTED]'')"
  shows "redact_run k y = y \<Longrightarrow> redact_run k (redact_run k' y) = redact_run k' y"
proof (induction y)
  case Nil
  then show ?case by simp
next
  case (Cons c cs)
  show ?case
  proof (cases "ci_prefix k' (c # cs)")
    case True
    then show ?thesis using c1 by simp
  next
    case no': False
    show ?thesis
    proof (cases "ci_prefix k (c # cs)")
      case True
      with Cons.prems have "c # cs = k @ ''[REDACTED]''" by simp
      then show ?thesis using c2 Cons.prems by simp
    next
      case False
      with Cons.prems have "redact_run k cs = cs" by simp
      then have ih: "redact_run k (redact_run k' cs) = redact_run k' cs" by (rule Cons.IH)
      have "\<not> ci_prefix k (c # redact_run k' cs)"
      proof
        assume "ci_prefix k (c # redact_run k' cs)"
        then have "ci_prefix k ([c] @ redact_run k' cs)" by simp
        from ci_prefix_behind [OF this]
        consider "ci_prefix k (c # cs)"
          | i where "1 \<le> i" "i < length k" "ci_prefix (drop i k) (k' @ ''[REDACTED]'')"
          by auto
        then show False
          using False c3 overlapsI by cases blast+
      qed
      with no' ih show ?thesis by simp
    qed
  qed
qed

lemmas evals = lower_def stops_def is_space_def overlaps_def char_of_eq_iff

lemma kept_token_password:
  "redact_run ''token'' y = y \<Longrightarrow> redact_run ''token'' (redact_run ''password'' y) = redact_run ''password'' y"
  by (rule redact_run_kept) (simp_all add: evals)

lemma kept_token_secret:
  "redact_run ''token'' y = y \<Longrightarrow> redact_run ''token'' (redact_run ''secret'' y) = redact_run ''secret'' y"
  by (rule redact_run_kept) (simp_all add: evals)

lemma kept_password_secret:
  "redact_run ''password'' y = y \<Longrightarrow> redact_run ''password'' (redact_run ''secret'' y) = redact_run ''secret'' y"
  by (rule redact_run_kept) (simp_all add: evals)

lemma sanitize_run_fixed:
  "redact_run ''token'' (sanitize_run r) = sanitize_run r"
  "redact_run ''password'' (sanitize_run r) = sanitize_run r"
  "redact_run ''secret'' (sanitize_run r) = sanitize_run r"
  unfolding sanitize_run_def
  by (simp_all add: redact_run_twice kept_token_password kept_token_secret kept_password_secret)

lemma sanitize_run_twice: "sanitize_run (sanitize_run r) = sanitize_run r"
  using sanitize_run_fixed [of r] by (simp add: sanitize_run_def [of "sanitize_run r"])

text \<open>From runs to messages.\<close>

lemma run_sanitize_run: "run r \<Longrightarrow> run (sanitize_run r)"
  by (simp add: sanitize_run_def run_redact_run keylike_keys)

lemma sanitize_split:
  "run r \<Longrightarrow> headed z \<Longrightarrow> sanitizeErrorMessage (r @ z) = sanitize_run r @ sanitizeErrorMessage z"
  by (simp add: sanitizeErrorMessage_def sanitize_run_def redact_split run_redact_run headed_redact
      keylike_keys del: redact.simps)

lemma sanitize_stop: "stops d \<Longrightarrow> sanitizeErrorMessage (d # z) = d # sanitizeErrorMessage z"
  by (simp add: sanitizeErrorMessage_def redact_stop keylike_keys del: redact.simps)

lemma headed_sanitize: "headed z \<Longrightarrow> headed (sanitizeErrorMessage z)"
  by (simp add: sanitizeErrorMessage_def headed_redact keylike_keys del: redact.simps)

lemma sanitize_Nil: "sanitizeErrorMessage [] = []"
  by (simp add: sanitizeErrorMessage_def)

text \<open>A message is a run and what follows it.\<close>

lemma run_decomposition:
  "x = takeWhile (\<lambda>c. \<not> stops c) x @ dropWhile (\<lambda>c. \<not> stops c) x"
  "run (takeWhile (\<lambda>c. \<not> stops c) x)"
  "headed (dropWhile (\<lambda>c. \<not> stops c) x)"
proof -
  show "x = takeWhile (\<lambda>c. \<not> stops c) x @ dropWhile (\<lambda>c. \<not> stops c) x" by simp
  show "run (takeWhile (\<lambda>c. \<not> stops c) x)"
    by (auto simp: run_def dest: set_takeWhileD)
  show "headed (dropWhile (\<lambda>c. \<not> stops c) x)"
    by (induction x) (auto simp: headed_def)
qed

lemma sanitize_idempotent: "sanitizeErrorMessage (sanitizeErrorMessage x) = sanitizeErrorMessage x"
proof (induction x rule: length_induct)
  case (1 x)
  show ?case
  proof (cases x)
    case Nil
    then show ?thesis by (simp add: sanitize_Nil)
  next
    case (Cons c cs)
    show ?thesis
    proof (cases "stops c")
      case True
      with Cons 1 show ?thesis by (simp add: sanitize_stop)
    next
      case False
      let ?r = "takeWhile (\<lambda>c. \<not> stops c) x" and ?z = "dropWhile (\<lambda>c. \<not> stops c) x"
      have "length ?z < length x"
        using Cons False by (simp add: le_imp_less_Suc length_dropWhile_le)
      with 1 have ih: "sanitizeErrorMessage (sanitizeErrorMessage ?z) = sanitizeErrorMessage ?z" by blast
      have "sanitizeErrorMessage x = sanitize_run ?r @ sanitizeErrorMessage ?z"
        using sanitize_split [OF run_decomposition(2) run_decomposition(3), of x x] by simp
      moreover have "sanitizeErrorMessage (sanitize_run ?r @ sanitizeErrorMessage ?z)
                       = sanitize_run (sanitize_run ?r) @ sanitizeErrorMessage (sanitizeErrorMessage ?z)"
        by (rule sanitize_split) (simp_all add: run_sanitize_run run_decomposition headed_sanitize)
      ultimately show ?thesis by (simp add: ih sanitize_run_twice)
    qed
  qed
qed

text \<open>No assignment to a key is left.\<close>

lemma ci_prefix_shorter: "ci_prefix (k @ e) s \<Longrightarrow> ci_prefix k s"
  by (induction k s rule: ci_prefix.induct) auto

lemma fixed_run_no_assignment:
  assumes c: "\<not> occurs (k @ ''='') (k @ ''[REDACTED]'')"
  shows "redact_run k y = y \<Longrightarrow> \<not> occurs (k @ ''='') y"
proof (induction y)
  case Nil
  then show ?case by (cases k) simp_all
next
  case (Cons a y)
  show ?case
  proof (cases "ci_prefix k (a # y)")
    case True
    with Cons.prems have "a # y = k @ ''[REDACTED]''" by simp
    with c show ?thesis by simp
  next
    case False
    with Cons have "\<not> occurs (k @ ''='') y" by simp
    moreover have "\<not> ci_prefix (k @ ''='') (a # y)"
      using False ci_prefix_shorter by blast
    ultimately show ?thesis by simp
  qed
qed

lemma occurs_split:
  "keylike pat \<Longrightarrow> run r \<Longrightarrow> headed z \<Longrightarrow> occurs pat (r @ z) \<longleftrightarrow> occurs pat r \<or> occurs pat z"
proof (induction r)
  case Nil
  then show ?case by (cases pat) (auto simp: keylike_def)
next
  case (Cons c cs)
  have "ci_prefix pat (c # cs @ z) \<longleftrightarrow> ci_prefix pat (c # cs)"
  proof
    assume p: "ci_prefix pat (c # cs @ z)"
    then have "length pat \<le> length (c # cs)"
      using ci_prefix_inside [OF Cons.prems(1) Cons.prems(2) Cons.prems(3)] by simp
    with p show "ci_prefix pat (c # cs)" using ci_prefix_append [of pat "c # cs" z] by simp
  next
    assume p: "ci_prefix pat (c # cs)"
    then have "length pat \<le> length (c # cs)" by (rule ci_prefix_length)
    with p show "ci_prefix pat (c # cs @ z)" using ci_prefix_append [of pat "c # cs" z] by simp
  qed
  with Cons show ?case by auto
qed

lemma occurs_stop: "keylike pat \<Longrightarrow> stops d \<Longrightarrow> occurs pat (d # z) = occurs pat z"
  by (cases pat) (auto simp: keylike_def)

lemma sanitize_run_no_assignment:
  "\<not> occurs ''token='' (sanitize_run r)"
  "\<not> occurs ''password='' (sanitize_run r)"
  "\<not> occurs ''secret='' (sanitize_run r)"
  using fixed_run_no_assignment [of "''token''" "sanitize_run r"]
    fixed_run_no_assignment [of "''password''" "sanitize_run r"]
    fixed_run_no_assignment [of "''secret''" "sanitize_run r"]
    sanitize_run_fixed [of r]
  by (simp_all add: evals)

lemma keylike_assignments: "keylike ''token=''" "keylike ''password=''" "keylike ''secret=''"
  by (rule keylikeI; simp add: lower_def stops_def is_space_def)+

lemma sanitize_no_assignment:
  assumes "keylike pat" and "\<And>r. \<not> occurs pat (sanitize_run r)"
  shows "\<not> occurs pat (sanitizeErrorMessage x)"
proof (induction x rule: length_induct)
  case (1 x)
  show ?case
  proof (cases x)
    case Nil
    with assms(1) show ?thesis by (cases pat) (auto simp: sanitize_Nil keylike_def)
  next
    case (Cons c cs)
    show ?thesis
    proof (cases "stops c")
      case True
      with Cons 1 assms(1) show ?thesis by (simp add: sanitize_stop occurs_stop del: occurs.simps)
    next
      case False
      let ?r = "takeWhile (\<lambda>c. \<not> stops c) x" and ?z = "dropWhile (\<lambda>c. \<not> stops c) x"
      have "length ?z < length x"
        using Cons False by (simp add: le_imp_less_Suc length_dropWhile_le)
      with 1 have ih: "\<not> occurs pat (sanitizeErrorMessage ?z)" by blast
      have "sanitizeErrorMessage x = sanitize_run ?r @ sanitizeErrorMessage ?z"
        using sanitize_split [OF run_decomposition(2) run_decomposition(3), of x x] by simp
      moreover have "occurs pat (sanitize_run ?r @ sanitizeErrorMessage ?z)
                       \<longleftrightarrow> occurs pat (sanitize_run ?r) \<or> occurs pat (sanitizeErrorMessage ?z)"
        by (rule occurs_split) (simp_all add: assms(1) run_sanitize_run run_decomposition headed_sanitize)
      ultimately show ?thesis using ih assms(2) by simp
    qed
  qed
qed

text \<open>
  C8. The error message sanitizer is idempotent: for every input string \<open>x\<close>,
  \<open>sanitize(sanitize(x)) = sanitize(x)\<close>. And for every input no substring of the form
  \<open>token=...\<close>, \<open>password=...\<close> or \<open>secret=...\<close>, in any case of the letters, is left in
  the output.
\<close>

theorem sanitizer_idempotent_and_redacting:
  "sanitizeErrorMessage (sanitizeErrorMessage x) = sanitizeErrorMessage x
   \<and> \<not> occurs ''token='' (sanitizeErrorMessage x)
   \<and> \<not> occurs ''password='' (sanitizeErrorMessage x)
   \<and> \<not> occurs ''secret='' (sanitizeErrorMessage x)"
  using sanitize_idempotent [of x]
    sanitize_no_assignment [OF keylike_assignments(1) sanitize_run_no_assignment(1)]
    sanitize_no_assignment [OF keylike_assignments(2) sanitize_run_no_assignment(2)]
    sanitize_no_assignment [OF keylike_assignments(3) sanitize_run_no_assignment(3)]
  by simp

subsection \<open>Resource values\<close>


text \<open>
  C9. The resource value parser gives the canonical conversions:
  \<open>parseResourceValue("500m")\<close> is 0.5 (millicores to cores),
  \<open>parseResourceValue("128Mi")\<close> is 128 * 1024 * 1024,
  \<open>parseResourceValue("")\<close> is 0 and
  \<open>parseResourceValue("1G")\<close> is 1000000000.
\<close>

theorem parseResourceValue_canonical:
  "parseResourceValue (JStr ''500m'') = Num (1 / 2)
   \<and> parseResourceValue (JStr ''128Mi'') = Num (128 * 1024 * 1024)
   \<and> parseResourceValue (JStr '''') = Num 0
   \<and> parseResourceValue (JStr ''1G'') = Num 1000000000"
  by (simp add: parseFloat_def parse_unsigned_def parse_exponent_def pow10_def is_space_def
      is_digit_def digit_val_def endsWith_def plain_decimal_def memoryUnits_def)

end
